theory Spec2Isabelle
  imports Main "HOL-Library.Sublist"
begin

section \<open>The surroundings of the installer\<close>

text \<open>
  The installer (\<^verbatim>\<open>src/secret_manager/installer.py\<close>) is a sequence of calls into
  the Python standard library. Everything those calls read is gathered in an
  environment record, everything they change in a world record that is passed along
  explicitly. Every \<^verbatim>\<open>raise\<close> of the library calls is a branch of the model.
\<close>

type_synonym path = string

text \<open>A path names a regular file (text and permission bits) or a directory.\<close>

datatype node = File (content: string) (mode: nat) | Dir (mode: nat)

text \<open>The library calls that touch the file system, as seen by the fault oracle.\<close>

datatype io_op =
    Makedirs path
  | Copy2 path path
  | Chmod path
  | OpenRead path
  | OpenAppend path

text \<open>
  The exceptions of the library calls: a checked command that exited non-zero, with its
  argument vector and status; a command that could not be started; the failures of the
  file-system calls that the model decides itself; \<open>OSError\<close> for a call that
  fails by a fault from outside the model; and the failure of \<^verbatim>\<open>print\<close> on a text
  that standard output cannot encode.
\<close>

datatype exn =
    CalledProcessError "string list" int
  | SpawnError "string list"
  | FileNotFoundError path
  | FileExistsError path
  | IsADirectoryError path
  | SameFileError path
  | OSError io_op
  | UnicodeEncodeError string

text \<open>What spawning an argument vector yields: an exit status, or no process at all.\<close>

datatype proc = Exited int | NotSpawned

record env =
  platform_system :: string
  shutil_which :: "string \<Rightarrow> string option"
  run_proc :: "string list \<Rightarrow> proc"
  expanduser_home :: path
  script_dir :: path
  environ_SHELL :: "string option"
  io_fault :: "io_op \<Rightarrow> bool"
  exn_str :: "exn \<Rightarrow> string"
  stdout_encodes :: "string \<Rightarrow> bool"
  new_file_mode :: nat
  new_dir_mode :: nat

text \<open>
  \<^item> \<open>platform_system\<close> is \<^verbatim>\<open>platform.system()\<close>, \<open>shutil_which\<close> is
    \<^verbatim>\<open>shutil.which\<close>, \<open>expanduser_home\<close> is \<^verbatim>\<open>os.path.expanduser("~")\<close>,
    \<open>script_dir\<close> is \<^verbatim>\<open>os.path.dirname(os.path.abspath(__file__))\<close> and
    \<open>environ_SHELL\<close> is the entry of \<^verbatim>\<open>os.environ\<close> for \<^verbatim>\<open>SHELL\<close>, if any.
  \<^item> \<open>run_proc\<close> is what the operating system does with an argument vector.
  \<^item> \<open>io_fault\<close> says which file-system calls fail for a reason outside the model
    (permissions, a full disk); such a call raises before it changes anything.
  \<^item> \<open>exn_str\<close> is Python's \<^verbatim>\<open>str\<close> of an exception.
  \<^item> \<open>stdout_encodes\<close> says which texts the encoder of \<^verbatim>\<open>sys.stdout\<close> accepts.
  \<^item> \<open>new_file_mode\<close> and \<open>new_dir_mode\<close> are the permission bits the process's
    umask leaves to a file and a directory it creates.
\<close>

record world =
  fs :: "path \<rightharpoonup> node"
  stdout :: "string list"
  spawned :: "string list list"

text \<open>
  \<open>fs\<close> is the file system, flat: one node per path string, no links, and no check
  that the directory above a path exists (a call that fails for such a reason is a
  fault of \<open>io_fault\<close>). \<open>stdout\<close> holds one entry per \<^verbatim>\<open>print\<close> call that
  succeeded; \<open>spawned\<close> holds the argument vectors handed to \<^verbatim>\<open>subprocess.run\<close>, in
  order. External processes are taken not to touch the paths of \<open>fs\<close>.
\<close>

datatype 'a outcome = Returned 'a world | Raised exn world

definition and_then :: "'a outcome \<Rightarrow> ('a \<Rightarrow> world \<Rightarrow> 'b outcome) \<Rightarrow> 'b outcome" where
  "and_then r f = (case r of Returned x w \<Rightarrow> f x w | Raised e w \<Rightarrow> Raised e w)"

fun world_of :: "'a outcome \<Rightarrow> world" where
  "world_of (Returned x w) = w"
| "world_of (Raised e w) = w"

fun raised :: "'a outcome \<Rightarrow> exn option" where
  "raised (Returned x w) = None"
| "raised (Raised e w) = Some e"

fun raises :: "'a outcome \<Rightarrow> bool" where
  "raises (Returned x w) = False"
| "raises (Raised e w) = True"

subsection \<open>Python and library primitives\<close>

definition NL :: string where
  "NL = [CHR 0x0A]"

definition GREEN :: string where
  "GREEN = CHR 0x1B # ''[92m''"

definition YELLOW :: string where
  "YELLOW = CHR 0x1B # ''[93m''"

definition RED :: string where
  "RED = CHR 0x1B # ''[91m''"

definition RESET :: string where
  "RESET = CHR 0x1B # ''[0m''"

text \<open>
  \<^verbatim>\<open>print(text)\<close> raises \<^verbatim>\<open>UnicodeEncodeError\<close>, and writes nothing, when the
  encoder of standard output rejects the text. A text of 7-bit characters only (no
  character with the highest bit set) is accepted by every encoder.
\<close>

definition is_ascii :: "string \<Rightarrow> bool" where
  "is_ascii s = list_all (\<lambda>c. \<not> digit7 c) s"

definition can_print :: "env \<Rightarrow> string \<Rightarrow> bool" where
  "can_print env text = (is_ascii text \<or> stdout_encodes env text)"

text \<open>\<^verbatim>\<open>log(msg, color)\<close>, that is \<^verbatim>\<open>print(f"{color}{msg}{RESET}")\<close>.\<close>

definition log :: "env \<Rightarrow> string \<Rightarrow> string \<Rightarrow> world \<Rightarrow> unit outcome" where
  "log env msg color w =
     (let text = color @ msg @ RESET in
      if can_print env text then Returned () (w\<lparr>stdout := stdout w @ [text]\<rparr>)
      else Raised (UnicodeEncodeError text) w)"

text \<open>Truthiness of an optional string: \<^verbatim>\<open>None\<close> and the empty string are false.\<close>

fun truthy :: "string option \<Rightarrow> bool" where
  "truthy None = False"
| "truthy (Some s) = (s \<noteq> [])"

text \<open>\<^verbatim>\<open>posixpath.join\<close> of two components, and \<^verbatim>\<open>posixpath.basename\<close>.\<close>

definition posix_join :: "path \<Rightarrow> string \<Rightarrow> path" where
  "posix_join a b =
     (if b \<noteq> [] \<and> hd b = CHR ''/'' then b
      else if a = [] \<or> last a = CHR ''/'' then a @ b
      else a @ ''/'' @ b)"

definition basename :: "path \<Rightarrow> string" where
  "basename p = rev (takeWhile (\<lambda>c. c \<noteq> CHR ''/'') (rev p))"

text \<open>\<^verbatim>\<open>sep.join(xs)\<close>.\<close>

fun str_join :: "string \<Rightarrow> string list \<Rightarrow> string" where
  "str_join sep [] = []"
| "str_join sep [x] = x"
| "str_join sep (x # y # ys) = x @ sep @ str_join sep (y # ys)"

definition os_path_exists :: "world \<Rightarrow> path \<Rightarrow> bool" where
  "os_path_exists w p = (fs w p \<noteq> None)"

text \<open>
  \<^verbatim>\<open>subprocess.run(argv, check=...)\<close>: a process that cannot be spawned raises whatever
  \<^verbatim>\<open>check\<close> is; a non-zero exit status raises only under \<^verbatim>\<open>check=True\<close>. Nothing is
  printed by the call itself.
\<close>

definition subprocess_run :: "env \<Rightarrow> string list \<Rightarrow> bool \<Rightarrow> world \<Rightarrow> unit outcome" where
  "subprocess_run env argv check w =
     (let w' = w\<lparr>spawned := spawned w @ [argv]\<rparr> in
      case run_proc env argv of
        NotSpawned \<Rightarrow> Raised (SpawnError argv) w'
      | Exited c \<Rightarrow>
          if check \<and> c \<noteq> 0 then Raised (CalledProcessError argv c) w'
          else Returned () w')"

definition os_makedirs :: "env \<Rightarrow> path \<Rightarrow> world \<Rightarrow> unit outcome" where
  "os_makedirs env p w =
     (if fs w p \<noteq> None then Raised (FileExistsError p) w
      else if io_fault env (Makedirs p) then Raised (OSError (Makedirs p)) w
      else Returned () (w\<lparr>fs := (fs w)(p \<mapsto> Dir (new_dir_mode env))\<rparr>))"

text \<open>
  \<^verbatim>\<open>shutil.copy2(src, dst)\<close>: when \<open>dst\<close> is a directory the copy goes to the file of
  the source's base name inside it; text and permission bits of the source are copied.
\<close>

definition shutil_copy2 :: "env \<Rightarrow> path \<Rightarrow> path \<Rightarrow> world \<Rightarrow> unit outcome" where
  "shutil_copy2 env src dst w =
     (case fs w src of
        None \<Rightarrow> Raised (FileNotFoundError src) w
      | Some (Dir dm) \<Rightarrow> Raised (IsADirectoryError src) w
      | Some (File c m) \<Rightarrow>
          (let real_dst = (case fs w dst of
                             Some (Dir dm) \<Rightarrow> posix_join dst (basename src)
                           | _ \<Rightarrow> dst) in
           if real_dst = src then Raised (SameFileError src) w
           else case fs w real_dst of
                  Some (Dir dm) \<Rightarrow> Raised (IsADirectoryError real_dst) w
                | _ \<Rightarrow>
                    if io_fault env (Copy2 src real_dst)
                    then Raised (OSError (Copy2 src real_dst)) w
                    else Returned () (w\<lparr>fs := (fs w)(real_dst \<mapsto> File c m)\<rparr>)))"

fun set_mode :: "node \<Rightarrow> nat \<Rightarrow> node" where
  "set_mode (File c m) m' = File c m'"
| "set_mode (Dir m) m' = Dir m'"

definition os_chmod :: "env \<Rightarrow> path \<Rightarrow> nat \<Rightarrow> world \<Rightarrow> unit outcome" where
  "os_chmod env p m w =
     (case fs w p of
        None \<Rightarrow> Raised (FileNotFoundError p) w
      | Some n \<Rightarrow>
          if io_fault env (Chmod p) then Raised (OSError (Chmod p)) w
          else Returned () (w\<lparr>fs := (fs w)(p \<mapsto> set_mode n m)\<rparr>))"

text \<open>\<^verbatim>\<open>with open(p, "r") as f: f.read()\<close>.\<close>

definition read_text :: "env \<Rightarrow> path \<Rightarrow> world \<Rightarrow> string outcome" where
  "read_text env p w =
     (case fs w p of
        None \<Rightarrow> Raised (FileNotFoundError p) w
      | Some (Dir dm) \<Rightarrow> Raised (IsADirectoryError p) w
      | Some (File c m) \<Rightarrow>
          if io_fault env (OpenRead p) then Raised (OSError (OpenRead p)) w
          else Returned c w)"

text \<open>\<^verbatim>\<open>with open(p, "a") as f:\<close> followed by the writes of \<open>txt\<close>.\<close>

definition append_text :: "env \<Rightarrow> path \<Rightarrow> string \<Rightarrow> world \<Rightarrow> unit outcome" where
  "append_text env p txt w =
     (case fs w p of
        Some (Dir dm) \<Rightarrow> Raised (IsADirectoryError p) w
      | Some (File c m) \<Rightarrow>
          if io_fault env (OpenAppend p) then Raised (OSError (OpenAppend p)) w
          else Returned () (w\<lparr>fs := (fs w)(p \<mapsto> File (c @ txt) m)\<rparr>)
      | None \<Rightarrow>
          if io_fault env (OpenAppend p) then Raised (OSError (OpenAppend p)) w
          else Returned () (w\<lparr>fs := (fs w)(p \<mapsto> File txt (new_file_mode env))\<rparr>))"

section \<open>The installer\<close>

subsection \<open>\<^verbatim>\<open>install_dependencies\<close>\<close>

definition install_dependencies :: "env \<Rightarrow> world \<Rightarrow> unit outcome" where
  "install_dependencies env w0 =
     (let system = platform_system env in
      and_then (log env (''Detected OS: '' @ system) GREEN w0)
        (\<lambda>_ w.
           if system = ''Darwin'' then
             if truthy (shutil_which env ''brew'') then
               and_then (log env ''Installing dependencies via Homebrew...'' YELLOW w)
                 (\<lambda>_ w1.
                    and_then
                      (subprocess_run env [''brew'', ''install'', ''--cask'', ''keepassxc''] False w1)
                      (\<lambda>_. subprocess_run env [''brew'', ''install'', ''jq'', ''gnupg''] True))
             else
               log env ''Homebrew not found. Please install keepassxc, jq, and gnupg manually.''
                 RED w
           else if system = ''Linux'' then
             if truthy (shutil_which env ''apt-get'') then
               and_then
                 (log env ''Installing dependencies via apt-get (sudo required)...'' YELLOW w)
                 (\<lambda>_ w1.
                    and_then (subprocess_run env [''sudo'', ''apt-get'', ''update''] True w1)
                      (\<lambda>_. subprocess_run env
                              [''sudo'', ''apt-get'', ''install'', ''-y'', ''keepassxc'', ''jq'',
                               ''gnupg'']
                              True))
             else
               log env ''apt-get not found. Please install keepassxc, jq, and gnupg manually.''
                 RED w
           else if system = ''Windows'' then
             and_then
               (log env ''Windows detected. Please ensure Chocolatey is installed.'' YELLOW w)
               (\<lambda>_ w1.
                  if truthy (shutil_which env ''choco'') then
                    subprocess_run env
                      [''choco'', ''install'', ''keepassxc'', ''jq'', ''gnupg'', ''-y''] True w1
                  else
                    log env
                      ''Chocolatey not found. Please install keepassxc, jq, and gpg4win manually.''
                      RED w1)
           else
             log env (''Unsupported OS: '' @ system
                        @ ''. Please manually install keepassxc, jq, and gnupg.'') RED w))"

subsection \<open>\<^verbatim>\<open>setup_files\<close>\<close>

definition files_to_copy :: "string list" where
  "files_to_copy = [''manage-secrets.sh'', ''get-secrets.js'']"

text \<open>The octal literal \<^verbatim>\<open>0o755\<close>.\<close>

definition mode_755 :: nat where
  "mode_755 = 7 * 64 + 5 * 8 + 5"

text \<open>The body of the \<^verbatim>\<open>for\<close> loop, for one file name.\<close>

definition copy_asset :: "env \<Rightarrow> path \<Rightarrow> path \<Rightarrow> string \<Rightarrow> world \<Rightarrow> unit outcome" where
  "copy_asset env assets_dir target_dir filename w =
     (let src = posix_join assets_dir filename;
          dst = posix_join target_dir filename in
      if os_path_exists w src then
        and_then (shutil_copy2 env src dst w)
          (\<lambda>_ w1. and_then (os_chmod env dst mode_755 w1)
             (\<lambda>_. log env (''Copied '' @ filename @ '' to '' @ target_dir) GREEN))
      else
        log env (''Warning: Asset '' @ filename @ '' not found in '' @ assets_dir) RED w)"

fun copy_assets :: "env \<Rightarrow> path \<Rightarrow> path \<Rightarrow> string list \<Rightarrow> world \<Rightarrow> unit outcome" where
  "copy_assets env assets_dir target_dir [] w = Returned () w"
| "copy_assets env assets_dir target_dir (filename # rest) w =
     and_then (copy_asset env assets_dir target_dir filename w)
       (\<lambda>_. copy_assets env assets_dir target_dir rest)"

definition setup_files :: "env \<Rightarrow> world \<Rightarrow> path outcome" where
  "setup_files env w0 =
     (let home = expanduser_home env;
          target_dir = posix_join home ''.secret-manager'' in
      and_then
        (if \<not> os_path_exists w0 target_dir then
           and_then (os_makedirs env target_dir w0)
             (\<lambda>_. log env (''Created directory: '' @ target_dir) GREEN)
         else Returned () w0)
        (\<lambda>_ w1.
           let current_dir = script_dir env;
               assets_dir = posix_join current_dir ''assets'' in
           and_then (copy_assets env assets_dir target_dir files_to_copy w1)
             (\<lambda>_. Returned target_dir)))"

subsection \<open>\<^verbatim>\<open>configure_shell\<close>\<close>

definition marker :: string where
  "marker = ''SECRETS_MANAGER_PATH''"

definition config_lines :: "path \<Rightarrow> string list" where
  "config_lines install_path =
     [ NL @ ''# Secret Manager Configuration'',
       ''export SECRETS_MANAGER_PATH='' @ [CHR 0x22] @ install_path
         @ ''/manage-secrets.sh'' @ [CHR 0x22],
       ''alias secret-add='' @ [CHR 0x27] @ ''$SECRETS_MANAGER_PATH add'' @ [CHR 0x27],
       ''alias secret-ls='' @ [CHR 0x27] @ ''$SECRETS_MANAGER_PATH ls'' @ [CHR 0x27],
       ''alias secret-apply='' @ [CHR 0x27] @ ''$SECRETS_MANAGER_PATH apply'' @ [CHR 0x27] ]"

text \<open>
  What the two \<^verbatim>\<open>f.write\<close> calls put into the file: the lines joined by newlines,
  then one more newline.
\<close>

definition config_block :: "path \<Rightarrow> string" where
  "config_block install_path = str_join NL (config_lines install_path) @ NL"

text \<open>\<^verbatim>\<open>os.environ.get("SHELL", "")\<close>.\<close>

definition environ_get_SHELL :: "env \<Rightarrow> string" where
  "environ_get_SHELL env = (case environ_SHELL env of None \<Rightarrow> [] | Some s \<Rightarrow> s)"

text \<open>
  The choice of the resource file: \<^verbatim>\<open>"zsh" in shell\<close> is tested before
  \<^verbatim>\<open>"bash" in shell\<close>; \<^verbatim>\<open>rc_file\<close> stays \<^verbatim>\<open>None\<close> when neither occurs.
\<close>

definition select_rc_file :: "env \<Rightarrow> path option" where
  "select_rc_file env =
     (let home = expanduser_home env;
          shell = environ_get_SHELL env in
      if sublist ''zsh'' shell then Some (posix_join home ''.zshrc'')
      else if sublist ''bash'' shell then
        Some (if platform_system env = ''Darwin'' then posix_join home ''.bash_profile''
              else posix_join home ''.bashrc'')
      else None)"

text \<open>
  The body of the \<^verbatim>\<open>try\<close> block. The first stage yields \<open>True\<close> for the early
  \<^verbatim>\<open>return\<close> taken when the marker is found.
\<close>

definition try_configure :: "env \<Rightarrow> path \<Rightarrow> path \<Rightarrow> world \<Rightarrow> unit outcome" where
  "try_configure env rc_file install_path w =
     and_then
       (if os_path_exists w rc_file then
          and_then (read_text env rc_file w)
            (\<lambda>content w1.
               if sublist marker content then
                 and_then
                   (log env ''Configuration already exists in RC file. Skipping append.''
                      YELLOW w1)
                   (\<lambda>_. Returned True)
               else Returned False w1)
        else Returned False w)
       (\<lambda>found w1.
          if found then Returned () w1
          else
            and_then
              (append_text env rc_file (config_block install_path) w1)
              (\<lambda>_ w2.
                 and_then (log env (''Successfully configured '' @ rc_file) GREEN w2)
                   (\<lambda>_ w3.
                      and_then
                        (log env ''IMPORTANT: Please restart your terminal or run:'' YELLOW w3)
                        (\<lambda>_. log env (''  source '' @ rc_file) YELLOW))))"

text \<open>
  The calls of \<^verbatim>\<open>log\<close> before the \<^verbatim>\<open>try\<close> block and in its handler are not guarded:
  what they raise leaves \<^verbatim>\<open>configure_shell\<close>.
\<close>

definition configure_shell :: "env \<Rightarrow> path \<Rightarrow> world \<Rightarrow> unit outcome" where
  "configure_shell env install_path w =
     (case select_rc_file env of
        None \<Rightarrow>
          log env ''Could not detect shell RC file. Please manually add configuration.'' RED w
      | Some rc_file \<Rightarrow>
          if rc_file = [] then
            log env ''Could not detect shell RC file. Please manually add configuration.'' RED w
          else
            and_then (log env (''Configuring '' @ rc_file @ ''...'') YELLOW w)
              (\<lambda>_ w1.
                 case try_configure env rc_file install_path w1 of
                   Returned _ w' \<Rightarrow> Returned () w'
                 | Raised e w' \<Rightarrow>
                     log env (''Failed to update '' @ rc_file @ '': '' @ exn_str env e) RED w'))"

subsection \<open>\<^verbatim>\<open>main\<close>\<close>

text \<open>
  The text of the closing message, with the bytes the source file has after
  \<^verbatim>\<open>Complete! \<close>.
\<close>

definition complete_msg :: string where
  "complete_msg =
     NL @ ''Installation Complete! ''
       @ [CHR 0xC3, CHR 0xB0, CHR 0xC5, CHR 0xB8, CHR 0xC5, CHR 0xA1, CHR 0xE2, CHR 0x82, CHR 0xAC]"

text \<open>
  \<open>main\<close> returns the exit status of the process with the final world: \<open>0\<close> is the
  status of a script that runs to its end, \<open>1\<close> that of \<^verbatim>\<open>sys.exit(1)\<close> and also
  that of an exception nothing catches, which is what a failing \<^verbatim>\<open>log\<close> before the
  \<^verbatim>\<open>try\<close> block or in its handler is.
\<close>

definition main :: "env \<Rightarrow> world \<Rightarrow> int \<times> world" where
  "main env w0 =
     (case log env ''=== Secret Manager Installer ==='' GREEN w0 of
        Raised e w \<Rightarrow> (1, w)
      | Returned _ w \<Rightarrow>
          (case and_then (install_dependencies env w)
                  (\<lambda>_ w1. and_then (setup_files env w1)
                     (\<lambda>target_dir w2. and_then (configure_shell env target_dir w2)
                        (\<lambda>_. log env complete_msg GREEN))) of
             Returned _ w' \<Rightarrow> (0, w')
           | Raised e w' \<Rightarrow>
               (1, world_of (log env (NL @ ''Installation failed: '' @ exn_str env e) RED w'))))"

section \<open>Notions used in the statements\<close>

text \<open>What a \<^verbatim>\<open>print\<close> that succeeds does to the world.\<close>

definition printed :: "string \<Rightarrow> string \<Rightarrow> world \<Rightarrow> world" where
  "printed msg color w = w\<lparr>stdout := stdout w @ [color @ msg @ RESET]\<rparr>"

subsection \<open>Commands of the platform branches\<close>

text \<open>
  The commands of each platform branch as the specification lists them (section 4.3):
  on macOS with Homebrew one optional command, then one required command; on Linux with
  \<^verbatim>\<open>apt-get\<close> two required commands; on Windows with Chocolatey one required command;
  none anywhere else.
\<close>

definition required_commands :: "env \<Rightarrow> string list list" where
  "required_commands env =
     (if platform_system env = ''Darwin'' then
        if truthy (shutil_which env ''brew'') then [[''brew'', ''install'', ''jq'', ''gnupg'']] else []
      else if platform_system env = ''Linux'' then
        if truthy (shutil_which env ''apt-get'') then
          [[''sudo'', ''apt-get'', ''update''],
           [''sudo'', ''apt-get'', ''install'', ''-y'', ''keepassxc'', ''jq'', ''gnupg'']]
        else []
      else if platform_system env = ''Windows'' then
        if truthy (shutil_which env ''choco'') then
          [[''choco'', ''install'', ''keepassxc'', ''jq'', ''gnupg'', ''-y'']]
        else []
      else [])"

definition optional_commands :: "env \<Rightarrow> string list list" where
  "optional_commands env =
     (if platform_system env = ''Darwin'' \<and> truthy (shutil_which env ''brew'')
      then [[''brew'', ''install'', ''--cask'', ''keepassxc'']] else [])"

text \<open>
  A required command fails when it does not exit with status \<open>0\<close>, be it that it exits
  with another status or that it cannot be spawned.
\<close>

definition required_command_fails :: "env \<Rightarrow> bool" where
  "required_command_fails env = (\<exists>argv \<in> set (required_commands env). run_proc env argv \<noteq> Exited 0)"

definition optional_command_not_spawned :: "env \<Rightarrow> bool" where
  "optional_command_not_spawned env =
     (\<exists>argv \<in> set (optional_commands env). run_proc env argv = NotSpawned)"

text \<open>
  An exception that names a failed command: a required command of the platform's branch
  that exited non-zero, or a command of the branch that could not be spawned.
\<close>

definition command_failure :: "env \<Rightarrow> exn \<Rightarrow> bool" where
  "command_failure env e =
     ((\<exists>argv \<in> set (required_commands env). \<exists>c.
         e = CalledProcessError argv c \<and> run_proc env argv = Exited c \<and> c \<noteq> 0)
      \<or> (\<exists>argv \<in> set (required_commands env @ optional_commands env).
         e = SpawnError argv \<and> run_proc env argv = NotSpawned))"

text \<open>
  The two lines \<^verbatim>\<open>install_dependencies\<close> prints on a system other than the three it
  knows hold the name of the system; they are the only lines of that function that a
  standard output can fail to encode.
\<close>

definition system_lines_fail :: "env \<Rightarrow> bool" where
  "system_lines_fail env =
     (platform_system env \<noteq> ''Darwin'' \<and> platform_system env \<noteq> ''Linux''
      \<and> platform_system env \<noteq> ''Windows''
      \<and> (\<not> can_print env (GREEN @ (''Detected OS: '' @ platform_system env) @ RESET)
         \<or> \<not> can_print env
              (RED @ (''Unsupported OS: '' @ platform_system env
                        @ ''. Please manually install keepassxc, jq, and gnupg.'') @ RESET)))"

text \<open>The body of the \<^verbatim>\<open>try\<close> block of \<^verbatim>\<open>main\<close>, and the exception that leaves it, if any.\<close>

definition try_main :: "env \<Rightarrow> world \<Rightarrow> unit outcome" where
  "try_main env w =
     and_then (install_dependencies env w)
       (\<lambda>_ w1. and_then (setup_files env w1)
          (\<lambda>target_dir w2. and_then (configure_shell env target_dir w2)
             (\<lambda>_. log env complete_msg GREEN)))"

definition first_failure :: "env \<Rightarrow> world \<Rightarrow> exn option" where
  "first_failure env w = raised (try_main env w)"

text \<open>
  The exception that leaves the \<^verbatim>\<open>try\<close> block of \<^verbatim>\<open>configure_shell\<close>, if any, given
  what is at the path of the resource file: a failure to open the file, or a failure to
  print one of the lines that confirm the append.
\<close>

definition confirm_failure :: "env \<Rightarrow> path \<Rightarrow> exn option" where
  "confirm_failure env rc =
     (if \<not> can_print env (GREEN @ (''Successfully configured '' @ rc) @ RESET)
      then Some (UnicodeEncodeError (GREEN @ (''Successfully configured '' @ rc) @ RESET))
      else if \<not> can_print env (YELLOW @ (''  source '' @ rc) @ RESET)
      then Some (UnicodeEncodeError (YELLOW @ (''  source '' @ rc) @ RESET))
      else None)"

definition try_failure :: "env \<Rightarrow> path \<Rightarrow> node option \<Rightarrow> exn option" where
  "try_failure env rc n =
     (case n of
        None \<Rightarrow>
          if io_fault env (OpenAppend rc) then Some (OSError (OpenAppend rc))
          else confirm_failure env rc
      | Some (Dir dm) \<Rightarrow> Some (IsADirectoryError rc)
      | Some (File c m) \<Rightarrow>
          if io_fault env (OpenRead rc) then Some (OSError (OpenRead rc))
          else if sublist marker c then None
          else if io_fault env (OpenAppend rc) then Some (OSError (OpenAppend rc))
          else confirm_failure env rc)"

text \<open>
  \<^verbatim>\<open>configure_shell\<close> catches what leaves its \<^verbatim>\<open>try\<close> block; it can only be left by a
  failure to print its first line or the line that reports the caught exception.
\<close>

definition shell_lines_fail :: "env \<Rightarrow> world \<Rightarrow> bool" where
  "shell_lines_fail env w =
     (case select_rc_file env of
        None \<Rightarrow> False
      | Some rc \<Rightarrow>
          \<not> can_print env (YELLOW @ (''Configuring '' @ rc @ ''...'') @ RESET)
          \<or> (case try_failure env rc (fs w rc) of
                None \<Rightarrow> False
              | Some e \<Rightarrow>
                  \<not> can_print env
                      (RED @ (''Failed to update '' @ rc @ '': '' @ exn_str env e) @ RESET)))"

text \<open>The first line printed by \<^verbatim>\<open>main\<close>.\<close>

definition banner :: string where
  "banner = ''=== Secret Manager Installer ===''"

subsection \<open>Paths and deployment\<close>

text \<open>What a join with a relative component puts in front of the component.\<close>

definition dir_prefix :: "path \<Rightarrow> path" where
  "dir_prefix a = (if a = [] \<or> last a = CHR ''/'' then a else a @ ''/'')"

text \<open>The install directory and the asset directory, as \<^verbatim>\<open>setup_files\<close> computes them.\<close>

definition target_dir :: "env \<Rightarrow> path" where
  "target_dir env = posix_join (expanduser_home env) ''.secret-manager''"

definition assets_dir :: "env \<Rightarrow> path" where
  "assets_dir env = posix_join (script_dir env) ''assets''"

text \<open>The first statement of \<^verbatim>\<open>setup_files\<close>: the directory is created unless it is there.\<close>

definition ensure_target_dir :: "env \<Rightarrow> world \<Rightarrow> unit outcome" where
  "ensure_target_dir env w =
     (if \<not> os_path_exists w (target_dir env) then
        and_then (os_makedirs env (target_dir env) w)
          (\<lambda>_. log env (''Created directory: '' @ target_dir env) GREEN)
      else Returned () w)"

text \<open>The paths \<^verbatim>\<open>setup_files\<close> can write.\<close>

definition deploy_paths :: "env \<Rightarrow> path list" where
  "deploy_paths env =
     [target_dir env,
      target_dir env @ ''/manage-secrets.sh'',
      target_dir env @ ''/manage-secrets.sh/manage-secrets.sh'',
      target_dir env @ ''/get-secrets.js'',
      target_dir env @ ''/get-secrets.js/get-secrets.js'']"

text \<open>Two outcomes that differ at most in what was printed and spawned.\<close>

definition same_result :: "'a outcome \<Rightarrow> 'a outcome \<Rightarrow> bool" where
  "same_result r r' =
     (case r of
        Returned x w \<Rightarrow> (\<exists>w'. r' = Returned x w' \<and> fs w' = fs w)
      | Raised e w \<Rightarrow> (\<exists>w'. r' = Raised e w' \<and> fs w' = fs w))"

subsection \<open>The resource file and the configuration block\<close>

text \<open>
  The text of a resource file as the installer meets it: a file that is not there yet
  counts as empty, a directory has no text.
\<close>

definition rc_text :: "(path \<rightharpoonup> node) \<Rightarrow> path \<Rightarrow> string option" where
  "rc_text f p = (case f p of None \<Rightarrow> Some [] | Some (File c m) \<Rightarrow> Some c | Some (Dir m) \<Rightarrow> None)"

text \<open>
  The five lines of the configuration block as the specification lists them: a comment
  header, one export line and three alias lines.
\<close>

definition block_lines :: "path \<Rightarrow> string list" where
  "block_lines install_path =
     [ ''# Secret Manager Configuration'',
       ''export SECRETS_MANAGER_PATH='' @ [CHR 0x22] @ install_path @ ''/manage-secrets.sh''
         @ [CHR 0x22],
       ''alias secret-add='' @ [CHR 0x27] @ ''$SECRETS_MANAGER_PATH add'' @ [CHR 0x27],
       ''alias secret-ls='' @ [CHR 0x27] @ ''$SECRETS_MANAGER_PATH ls'' @ [CHR 0x27],
       ''alias secret-apply='' @ [CHR 0x27] @ ''$SECRETS_MANAGER_PATH apply'' @ [CHR 0x27] ]"

text \<open>The number of positions of a text at which a given block starts.\<close>

definition occurrences :: "string \<Rightarrow> string \<Rightarrow> nat" where
  "occurrences b s = length (filter (\<lambda>i. prefix b (drop i s)) [0..<Suc (length s)])"

text \<open>The fixed beginning of every configuration block, up to the end of the marker.\<close>

definition block_start :: string where
  "block_start = NL @ ''# Secret Manager Configuration'' @ NL @ ''export SECRETS_MANAGER_PATH''"

subsection \<open>Concrete surroundings\<close>

text \<open>
  A Linux host with \<^verbatim>\<open>apt-get\<close> and \<^verbatim>\<open>bash\<close> where every command succeeds; the same
  host with a failing \<^verbatim>\<open>apt-get update\<close>; a macOS host with Homebrew and \<^verbatim>\<open>zsh\<close>
  where the cask install exits with status \<open>1\<close>, and the same host where it succeeds; a
  host with no package manager, no \<^verbatim>\<open>SHELL\<close> and no command that can be spawned. On
  all of them standard output encodes every text. The last host again, with a standard
  output that encodes 7-bit text only.
\<close>

definition env_linux :: env where
  "env_linux =
     \<lparr> platform_system = ''Linux'',
       shutil_which = (\<lambda>n. if n = ''apt-get'' then Some ''/usr/bin/apt-get'' else None),
       run_proc = (\<lambda>argv. Exited 0),
       expanduser_home = ''/home/u'',
       script_dir = ''/opt/sm'',
       environ_SHELL = Some ''/bin/bash'',
       io_fault = (\<lambda>op. False),
       exn_str = (\<lambda>e. ''error''),
       stdout_encodes = (\<lambda>text. True),
       new_file_mode = 420,
       new_dir_mode = 493 \<rparr>"

definition env_apt_fails :: env where
  "env_apt_fails =
     env_linux\<lparr>run_proc := (\<lambda>argv. if argv = [''sudo'', ''apt-get'', ''update''] then Exited 100
                                     else Exited 0)\<rparr>"

definition env_mac :: env where
  "env_mac =
     \<lparr> platform_system = ''Darwin'',
       shutil_which = (\<lambda>n. if n = ''brew'' then Some ''/opt/homebrew/bin/brew'' else None),
       run_proc = (\<lambda>argv. if argv = [''brew'', ''install'', ''--cask'', ''keepassxc'']
                           then Exited 1 else Exited 0),
       expanduser_home = ''/Users/u'',
       script_dir = ''/opt/sm'',
       environ_SHELL = Some ''/bin/zsh'',
       io_fault = (\<lambda>op. False),
       exn_str = (\<lambda>e. ''error''),
       stdout_encodes = (\<lambda>text. True),
       new_file_mode = 420,
       new_dir_mode = 493 \<rparr>"

definition env_mac_ok :: env where
  "env_mac_ok = env_mac\<lparr>run_proc := (\<lambda>argv. Exited 0)\<rparr>"

definition env_bare :: env where
  "env_bare =
     \<lparr> platform_system = ''Linux'',
       shutil_which = (\<lambda>n. None),
       run_proc = (\<lambda>argv. NotSpawned),
       expanduser_home = ''/home/u'',
       script_dir = ''/opt/sm'',
       environ_SHELL = None,
       io_fault = (\<lambda>op. False),
       exn_str = (\<lambda>e. ''error''),
       stdout_encodes = (\<lambda>text. True),
       new_file_mode = 420,
       new_dir_mode = 493 \<rparr>"

definition env_ascii_out :: env where
  "env_ascii_out = env_bare\<lparr>stdout_encodes := (\<lambda>text. False)\<rparr>"

text \<open>
  An empty file system; one that holds the two assets; one that holds the second asset
  only; one whose \<^verbatim>\<open>.bashrc\<close> already mentions the marker.
\<close>

definition w_empty :: world where
  "w_empty = \<lparr> fs = Map.empty, stdout = [], spawned = [] \<rparr>"

definition w_assets :: world where
  "w_assets =
     \<lparr> fs = [''/opt/sm/assets/manage-secrets.sh'' \<mapsto> File ''#!/bin/sh'' 420,
              ''/opt/sm/assets/get-secrets.js'' \<mapsto> File ''// js'' 420],
       stdout = [], spawned = [] \<rparr>"

definition w_one_asset :: world where
  "w_one_asset =
     \<lparr> fs = [''/opt/sm/assets/get-secrets.js'' \<mapsto> File ''// js'' 420],
       stdout = [], spawned = [] \<rparr>"

definition w_marked :: world where
  "w_marked =
     \<lparr> fs = [''/home/u/.bashrc'' \<mapsto> File ''export SECRETS_MANAGER_PATH=/x'' 420],
       stdout = [], spawned = [] \<rparr>"

section \<open>Basic facts\<close>

lemma and_then_Returned: "and_then (Returned x w) f = f x w"
  by (simp add: and_then_def)

lemma and_then_Raised: "and_then (Raised e w) f = Raised e w"
  by (simp add: and_then_def)

lemma fs_printed: "fs (printed msg color w) = fs w"
  by (simp add: printed_def)

lemma spawned_printed: "spawned (printed msg color w) = spawned w"
  by (simp add: printed_def)

lemma stdout_printed: "stdout (printed msg color w) = stdout w @ [color @ msg @ RESET]"
  by (simp add: printed_def)

lemma log_eq:
  "log env msg color w =
     (if can_print env (color @ msg @ RESET) then Returned () (printed msg color w)
      else Raised (UnicodeEncodeError (color @ msg @ RESET)) w)"
  by (simp add: log_def printed_def Let_def)

lemma fs_log: "fs (world_of (log env msg color w)) = fs w"
  by (simp add: log_eq fs_printed)

lemma spawned_log: "spawned (world_of (log env msg color w)) = spawned w"
  by (simp add: log_eq spawned_printed)

lemma stdout_log: "prefix (stdout w) (stdout (world_of (log env msg color w)))"
  by (simp add: log_eq stdout_printed)

lemma raises_log: "raises (log env msg color w) \<longleftrightarrow> \<not> can_print env (color @ msg @ RESET)"
  by (simp add: log_eq)

lemma raised_log:
  "raised (log env msg color w) = Some e \<Longrightarrow> e = UnicodeEncodeError (color @ msg @ RESET)"
  by (simp add: log_eq split: if_splits)

lemma is_ascii_append: "is_ascii (a @ b) \<longleftrightarrow> is_ascii a \<and> is_ascii b"
  by (simp add: is_ascii_def)

lemma is_ascii_colors: "is_ascii GREEN" "is_ascii YELLOW" "is_ascii RED" "is_ascii RESET"
  by (simp_all add: is_ascii_def GREEN_def YELLOW_def RED_def RESET_def)

lemma can_print_ascii:
  "is_ascii color \<Longrightarrow> is_ascii msg \<Longrightarrow> can_print env (color @ msg @ RESET)"
  by (simp add: can_print_def is_ascii_append is_ascii_colors)

lemma log_ascii:
  "is_ascii color \<Longrightarrow> is_ascii msg \<Longrightarrow> log env msg color w = Returned () (printed msg color w)"
  by (simp add: log_eq can_print_ascii)

lemma ascii_messages:
  "is_ascii ''=== Secret Manager Installer ===''"
  "is_ascii ''Detected OS: Darwin''"
  "is_ascii ''Detected OS: Linux''"
  "is_ascii ''Detected OS: Windows''"
  "is_ascii ''Installing dependencies via Homebrew...''"
  "is_ascii ''Homebrew not found. Please install keepassxc, jq, and gnupg manually.''"
  "is_ascii ''Installing dependencies via apt-get (sudo required)...''"
  "is_ascii ''apt-get not found. Please install keepassxc, jq, and gnupg manually.''"
  "is_ascii ''Windows detected. Please ensure Chocolatey is installed.''"
  "is_ascii ''Chocolatey not found. Please install keepassxc, jq, and gpg4win manually.''"
  "is_ascii ''Could not detect shell RC file. Please manually add configuration.''"
  "is_ascii ''Configuration already exists in RC file. Skipping append.''"
  "is_ascii ''IMPORTANT: Please restart your terminal or run:''"
  by (simp_all add: is_ascii_def)

lemma complete_msg_not_ascii: "\<not> is_ascii (GREEN @ complete_msg @ RESET)"
  by (simp add: is_ascii_def complete_msg_def)

section \<open>Facts about \<^verbatim>\<open>install_dependencies\<close>\<close>

lemma subprocess_run_unchecked:
  "run_proc env argv = Exited c \<Longrightarrow>
   subprocess_run env argv False w = Returned () (w\<lparr>spawned := spawned w @ [argv]\<rparr>)"
  by (simp add: subprocess_run_def)

lemma fs_subprocess_run: "fs (world_of (subprocess_run env argv check w)) = fs w"
  by (simp add: subprocess_run_def Let_def split: proc.splits)

lemma raises_subprocess_run:
  "raises (subprocess_run env argv check w) \<longleftrightarrow>
     run_proc env argv = NotSpawned \<or> (check \<and> run_proc env argv \<noteq> Exited 0)"
  by (cases "run_proc env argv") (simp_all add: subprocess_run_def Let_def)

lemma fs_and_then_subprocess_run:
  "fs (world_of (and_then r (\<lambda>_. subprocess_run env argv check))) = fs (world_of r)"
  by (cases r) (simp_all add: and_then_def fs_subprocess_run)

lemma raises_and_then_subprocess_run:
  "raises (and_then (subprocess_run env a c w) (\<lambda>_. subprocess_run env b d)) \<longleftrightarrow>
     raises (subprocess_run env a c w)
     \<or> run_proc env b = NotSpawned \<or> (d \<and> run_proc env b \<noteq> Exited 0)"
proof (cases "subprocess_run env a c w")
  case (Returned x w')
  then show ?thesis
    using raises_subprocess_run [of env b d w'] by (simp add: and_then_def)
next
  case (Raised e w')
  then show ?thesis by (simp add: and_then_def)
qed

lemma and_then_log:
  "and_then (log env msg color w) f =
     (if can_print env (color @ msg @ RESET) then f () (printed msg color w)
      else Raised (UnicodeEncodeError (color @ msg @ RESET)) w)"
  by (simp add: log_eq and_then_def)

lemma install_dependencies_Darwin:
  "platform_system env = ''Darwin'' \<Longrightarrow>
   install_dependencies env w =
     (if truthy (shutil_which env ''brew'') then
        and_then
          (subprocess_run env [''brew'', ''install'', ''--cask'', ''keepassxc''] False
             (printed ''Installing dependencies via Homebrew...'' YELLOW
                (printed ''Detected OS: Darwin'' GREEN w)))
          (\<lambda>_. subprocess_run env [''brew'', ''install'', ''jq'', ''gnupg''] True)
      else
        Returned ()
          (printed ''Homebrew not found. Please install keepassxc, jq, and gnupg manually.'' RED
             (printed ''Detected OS: Darwin'' GREEN w)))"
  by (simp add: install_dependencies_def Let_def log_ascii ascii_messages is_ascii_colors
      and_then_Returned)

lemma install_dependencies_Linux:
  "platform_system env = ''Linux'' \<Longrightarrow>
   install_dependencies env w =
     (if truthy (shutil_which env ''apt-get'') then
        and_then
          (subprocess_run env [''sudo'', ''apt-get'', ''update''] True
             (printed ''Installing dependencies via apt-get (sudo required)...'' YELLOW
                (printed ''Detected OS: Linux'' GREEN w)))
          (\<lambda>_. subprocess_run env
                  [''sudo'', ''apt-get'', ''install'', ''-y'', ''keepassxc'', ''jq'', ''gnupg'']
                  True)
      else
        Returned ()
          (printed ''apt-get not found. Please install keepassxc, jq, and gnupg manually.'' RED
             (printed ''Detected OS: Linux'' GREEN w)))"
  by (simp add: install_dependencies_def Let_def log_ascii ascii_messages is_ascii_colors
      and_then_Returned)

lemma install_dependencies_Windows:
  "platform_system env = ''Windows'' \<Longrightarrow>
   install_dependencies env w =
     (if truthy (shutil_which env ''choco'') then
        subprocess_run env [''choco'', ''install'', ''keepassxc'', ''jq'', ''gnupg'', ''-y''] True
          (printed ''Windows detected. Please ensure Chocolatey is installed.'' YELLOW
             (printed ''Detected OS: Windows'' GREEN w))
      else
        Returned ()
          (printed ''Chocolatey not found. Please install keepassxc, jq, and gpg4win manually.'' RED
             (printed ''Windows detected. Please ensure Chocolatey is installed.'' YELLOW
                (printed ''Detected OS: Windows'' GREEN w))))"
  by (simp add: install_dependencies_def Let_def log_ascii ascii_messages is_ascii_colors
      and_then_Returned)

lemma install_dependencies_other:
  "platform_system env \<noteq> ''Darwin'' \<Longrightarrow> platform_system env \<noteq> ''Linux'' \<Longrightarrow>
   platform_system env \<noteq> ''Windows'' \<Longrightarrow>
   install_dependencies env w =
     and_then (log env (''Detected OS: '' @ platform_system env) GREEN w)
       (\<lambda>_. log env (''Unsupported OS: '' @ platform_system env
                       @ ''. Please manually install keepassxc, jq, and gnupg.'') RED)"
  by (simp add: install_dependencies_def Let_def)

lemma world_of_and_then:
  "world_of (and_then r f) = (case r of Returned x w \<Rightarrow> world_of (f x w) | Raised e w \<Rightarrow> w)"
  by (cases r) (simp_all add: and_then_def)

lemma fs_and_then_log:
  "fs (world_of (and_then r (\<lambda>_. log env msg color))) = fs (world_of r)"
  by (cases r) (simp_all add: and_then_def fs_log)

lemma spawned_and_then_log:
  "spawned (world_of (and_then r (\<lambda>_. log env msg color))) = spawned (world_of r)"
  by (cases r) (simp_all add: and_then_def spawned_log)

lemma raises_and_then_log:
  "raises (and_then r (\<lambda>_. log env msg color)) \<longleftrightarrow>
     raises r \<or> \<not> can_print env (color @ msg @ RESET)"
  by (cases r) (simp_all add: and_then_def raises_log)

lemma fs_install_dependencies: "fs (world_of (install_dependencies env w)) = fs w"
proof -
  consider "platform_system env = ''Darwin''" | "platform_system env = ''Linux''"
    | "platform_system env = ''Windows''"
    | "platform_system env \<noteq> ''Darwin''" "platform_system env \<noteq> ''Linux''"
      "platform_system env \<noteq> ''Windows''"
    by blast
  then show ?thesis
  proof cases
    case 1
    then show ?thesis
      by (simp add: install_dependencies_Darwin fs_and_then_subprocess_run fs_subprocess_run
          fs_printed)
  next
    case 2
    then show ?thesis
      by (simp add: install_dependencies_Linux fs_and_then_subprocess_run fs_subprocess_run
          fs_printed)
  next
    case 3
    then show ?thesis
      by (simp add: install_dependencies_Windows fs_subprocess_run fs_printed)
  next
    case 4
    then show ?thesis
      by (simp add: install_dependencies_other fs_and_then_log fs_log)
  qed
qed

lemma command_failures_Darwin:
  "platform_system env = ''Darwin'' \<Longrightarrow>
   (required_command_fails env \<longleftrightarrow>
      truthy (shutil_which env ''brew'')
      \<and> run_proc env [''brew'', ''install'', ''jq'', ''gnupg''] \<noteq> Exited 0)
   \<and> (optional_command_not_spawned env \<longleftrightarrow>
      truthy (shutil_which env ''brew'')
      \<and> run_proc env [''brew'', ''install'', ''--cask'', ''keepassxc''] = NotSpawned)"
  by (simp add: required_command_fails_def optional_command_not_spawned_def
      required_commands_def optional_commands_def)

lemma command_failures_Linux:
  "platform_system env = ''Linux'' \<Longrightarrow>
   (required_command_fails env \<longleftrightarrow>
      truthy (shutil_which env ''apt-get'')
      \<and> (run_proc env [''sudo'', ''apt-get'', ''update''] \<noteq> Exited 0
         \<or> run_proc env [''sudo'', ''apt-get'', ''install'', ''-y'', ''keepassxc'', ''jq'', ''gnupg'']
             \<noteq> Exited 0))
   \<and> \<not> optional_command_not_spawned env"
  by (simp add: required_command_fails_def optional_command_not_spawned_def
      required_commands_def optional_commands_def) blast

lemma command_failures_Windows:
  "platform_system env = ''Windows'' \<Longrightarrow>
   (required_command_fails env \<longleftrightarrow>
      truthy (shutil_which env ''choco'')
      \<and> run_proc env [''choco'', ''install'', ''keepassxc'', ''jq'', ''gnupg'', ''-y''] \<noteq> Exited 0)
   \<and> \<not> optional_command_not_spawned env"
  by (simp add: required_command_fails_def optional_command_not_spawned_def
      required_commands_def optional_commands_def)

lemma command_failures_other:
  "platform_system env \<noteq> ''Darwin'' \<Longrightarrow> platform_system env \<noteq> ''Linux'' \<Longrightarrow>
   platform_system env \<noteq> ''Windows'' \<Longrightarrow>
   \<not> required_command_fails env \<and> \<not> optional_command_not_spawned env"
  by (simp add: required_command_fails_def optional_command_not_spawned_def
      required_commands_def optional_commands_def)

lemma system_lines_fail_named:
  "platform_system env = ''Darwin'' \<or> platform_system env = ''Linux''
     \<or> platform_system env = ''Windows'' \<Longrightarrow> \<not> system_lines_fail env"
  by (auto simp: system_lines_fail_def)

lemma raises_install_dependencies:
  "raises (install_dependencies env w) \<longleftrightarrow>
     required_command_fails env \<or> optional_command_not_spawned env \<or> system_lines_fail env"
proof -
  consider "platform_system env = ''Darwin''" | "platform_system env = ''Linux''"
    | "platform_system env = ''Windows''"
    | "platform_system env \<noteq> ''Darwin''" "platform_system env \<noteq> ''Linux''"
      "platform_system env \<noteq> ''Windows''"
    by blast
  then show ?thesis
  proof cases
    case 1
    have "raises (install_dependencies env w) \<longleftrightarrow>
        truthy (shutil_which env ''brew'')
        \<and> (run_proc env [''brew'', ''install'', ''--cask'', ''keepassxc''] = NotSpawned
           \<or> run_proc env [''brew'', ''install'', ''jq'', ''gnupg''] \<noteq> Exited 0)"
      unfolding install_dependencies_Darwin [OF 1]
      by (auto simp: raises_and_then_subprocess_run raises_subprocess_run)
    with command_failures_Darwin [OF 1] system_lines_fail_named [of env] 1 show ?thesis by blast
  next
    case 2
    have "raises (install_dependencies env w) \<longleftrightarrow>
        truthy (shutil_which env ''apt-get'')
        \<and> (run_proc env [''sudo'', ''apt-get'', ''update''] \<noteq> Exited 0
           \<or> run_proc env [''sudo'', ''apt-get'', ''install'', ''-y'', ''keepassxc'', ''jq'', ''gnupg'']
               \<noteq> Exited 0)"
      unfolding install_dependencies_Linux [OF 2]
      by (auto simp: raises_and_then_subprocess_run raises_subprocess_run)
    with command_failures_Linux [OF 2] system_lines_fail_named [of env] 2 show ?thesis by blast
  next
    case 3
    have "raises (install_dependencies env w) \<longleftrightarrow>
        truthy (shutil_which env ''choco'')
        \<and> run_proc env [''choco'', ''install'', ''keepassxc'', ''jq'', ''gnupg'', ''-y''] \<noteq> Exited 0"
      unfolding install_dependencies_Windows [OF 3]
      by (auto simp: raises_subprocess_run)
    with command_failures_Windows [OF 3] system_lines_fail_named [of env] 3 show ?thesis by blast
  next
    case 4
    have "raises (install_dependencies env w) \<longleftrightarrow> system_lines_fail env"
      using 4 by (simp add: install_dependencies_other raises_and_then_log raises_log
          system_lines_fail_def)
    with command_failures_other [OF 4] show ?thesis by blast
  qed
qed

section \<open>Facts about \<^verbatim>\<open>configure_shell\<close>\<close>

lemma posix_join_rel: "b \<noteq> [] \<Longrightarrow> hd b \<noteq> CHR ''/'' \<Longrightarrow> posix_join a b = dir_prefix a @ b"
  by (simp add: posix_join_def dir_prefix_def)

lemma posix_join_nonempty: "b \<noteq> [] \<Longrightarrow> posix_join a b \<noteq> []"
  by (simp add: posix_join_def)

lemma select_rc_file_cases:
  "select_rc_file env = Some rc \<Longrightarrow>
   rc = dir_prefix (expanduser_home env) @ ''.zshrc''
   \<or> rc = dir_prefix (expanduser_home env) @ ''.bash_profile''
   \<or> rc = dir_prefix (expanduser_home env) @ ''.bashrc''"
  by (auto simp: select_rc_file_def Let_def posix_join_rel split: if_splits)

lemma select_rc_file_nonempty: "select_rc_file env = Some rc \<Longrightarrow> rc \<noteq> []"
  by (auto dest: select_rc_file_cases)

lemma configure_shell_unclassified:
  "select_rc_file env = None \<Longrightarrow>
   configure_shell env p w =
     Returned ()
       (printed ''Could not detect shell RC file. Please manually add configuration.'' RED w)"
  by (simp add: configure_shell_def log_ascii ascii_messages is_ascii_colors)

lemma configure_shell_classified:
  "select_rc_file env = Some rc \<Longrightarrow>
   configure_shell env p w =
     (if can_print env (YELLOW @ (''Configuring '' @ rc @ ''...'') @ RESET) then
        case try_configure env rc p (printed (''Configuring '' @ rc @ ''...'') YELLOW w) of
          Returned u w' \<Rightarrow> Returned () w'
        | Raised e w' \<Rightarrow> log env (''Failed to update '' @ rc @ '': '' @ exn_str env e) RED w'
      else Raised (UnicodeEncodeError (YELLOW @ (''Configuring '' @ rc @ ''...'') @ RESET)) w)"
  by (frule select_rc_file_nonempty) (simp add: configure_shell_def and_then_log)

text \<open>The ways through the \<^verbatim>\<open>try\<close> block.\<close>

lemma log_exists:
  "log env ''Configuration already exists in RC file. Skipping append.'' YELLOW w =
     Returned () (printed ''Configuration already exists in RC file. Skipping append.'' YELLOW w)"
  by (simp add: log_ascii ascii_messages is_ascii_colors)

lemma log_important:
  "log env ''IMPORTANT: Please restart your terminal or run:'' YELLOW w =
     Returned () (printed ''IMPORTANT: Please restart your terminal or run:'' YELLOW w)"
  by (simp add: log_ascii ascii_messages is_ascii_colors)

lemma try_configure_present:
  "fs w rc = Some (File c m) \<Longrightarrow> sublist marker c \<Longrightarrow> \<not> io_fault env (OpenRead rc) \<Longrightarrow>
   try_configure env rc p w =
     Returned ()
       (printed ''Configuration already exists in RC file. Skipping append.'' YELLOW w)"
  by (simp add: try_configure_def os_path_exists_def read_text_def and_then_def log_exists)

text \<open>The three lines printed after the block has been appended.\<close>

lemma try_configure_append:
  "fs w rc = Some (File c m) \<Longrightarrow> \<not> sublist marker c \<Longrightarrow> \<not> io_fault env (OpenRead rc) \<Longrightarrow>
   \<not> io_fault env (OpenAppend rc) \<Longrightarrow>
   try_configure env rc p w =
     and_then
       (log env (''Successfully configured '' @ rc) GREEN
          (w\<lparr>fs := (fs w)(rc \<mapsto> File (c @ config_block p) m)\<rparr>))
       (\<lambda>_ w3. and_then (log env ''IMPORTANT: Please restart your terminal or run:'' YELLOW w3)
          (\<lambda>_. log env (''  source '' @ rc) YELLOW))"
  by (simp add: try_configure_def os_path_exists_def read_text_def append_text_def and_then_def)

lemma try_configure_create:
  "fs w rc = None \<Longrightarrow> \<not> io_fault env (OpenAppend rc) \<Longrightarrow>
   try_configure env rc p w =
     and_then
       (log env (''Successfully configured '' @ rc) GREEN
          (w\<lparr>fs := (fs w)(rc \<mapsto> File (config_block p) (new_file_mode env))\<rparr>))
       (\<lambda>_ w3. and_then (log env ''IMPORTANT: Please restart your terminal or run:'' YELLOW w3)
          (\<lambda>_. log env (''  source '' @ rc) YELLOW))"
  by (simp add: try_configure_def os_path_exists_def append_text_def and_then_def)

lemma fs_three_lines:
  "fs (world_of (and_then (log env a GREEN w)
       (\<lambda>_ w3. and_then (log env b YELLOW w3) (\<lambda>_. log env c YELLOW)))) = fs w"
  by (simp add: world_of_and_then fs_and_then_log fs_log fs_printed log_eq)

lemma spawned_three_lines:
  "spawned (world_of (and_then (log env a GREEN w)
       (\<lambda>_ w3. and_then (log env b YELLOW w3) (\<lambda>_. log env c YELLOW)))) = spawned w"
  by (simp add: world_of_and_then spawned_and_then_log spawned_log spawned_printed log_eq)

lemma try_configure_fs:
  "fs (world_of (try_configure env rc p w)) =
     (case fs w rc of
        None \<Rightarrow> if io_fault env (OpenAppend rc) then fs w
                else (fs w)(rc \<mapsto> File (config_block p) (new_file_mode env))
      | Some (Dir dm) \<Rightarrow> fs w
      | Some (File c m) \<Rightarrow>
          if io_fault env (OpenRead rc) \<or> sublist marker c \<or> io_fault env (OpenAppend rc) then fs w
          else (fs w)(rc \<mapsto> File (c @ config_block p) m))"
proof (cases "fs w rc")
  case None
  then show ?thesis
    by (cases "io_fault env (OpenAppend rc)")
      (simp_all add: try_configure_create fs_three_lines,
        simp add: try_configure_def os_path_exists_def append_text_def and_then_def)
next
  case (Some n)
  show ?thesis
  proof (cases n)
    case (Dir dm)
    with Some show ?thesis
      by (simp add: try_configure_def os_path_exists_def read_text_def and_then_def)
  next
    case (File c m)
    show ?thesis
    proof (cases "io_fault env (OpenRead rc) \<or> sublist marker c \<or> io_fault env (OpenAppend rc)")
      case True
      with Some File show ?thesis
        by (auto simp: try_configure_def os_path_exists_def read_text_def append_text_def
            and_then_def log_exists fs_printed)
    next
      case False
      with Some File show ?thesis
        by (simp add: try_configure_append fs_three_lines)
    qed
  qed
qed

lemma configure_shell_fs_try:
  assumes "select_rc_file env = Some rc"
  shows "fs (world_of (configure_shell env p w)) =
     (if can_print env (YELLOW @ (''Configuring '' @ rc @ ''...'') @ RESET) then
        fs (world_of (try_configure env rc p (printed (''Configuring '' @ rc @ ''...'') YELLOW w)))
      else fs w)"
  unfolding configure_shell_classified [OF assms]
  by (cases "try_configure env rc p (printed (''Configuring '' @ rc @ ''...'') YELLOW w)")
    (simp_all add: fs_log)

lemma configure_shell_fs:
  assumes "select_rc_file env = Some rc"
  shows "fs (world_of (configure_shell env p w)) =
     (if \<not> can_print env (YELLOW @ (''Configuring '' @ rc @ ''...'') @ RESET) then fs w
      else
        case fs w rc of
          None \<Rightarrow> if io_fault env (OpenAppend rc) then fs w
                  else (fs w)(rc \<mapsto> File (config_block p) (new_file_mode env))
        | Some (Dir dm) \<Rightarrow> fs w
        | Some (File c m) \<Rightarrow>
            if io_fault env (OpenRead rc) \<or> sublist marker c \<or> io_fault env (OpenAppend rc)
            then fs w
            else (fs w)(rc \<mapsto> File (c @ config_block p) m))"
  by (simp add: configure_shell_fs_try [OF assms] try_configure_fs fs_printed
      split: option.splits node.splits)

lemma try_configure_spawned: "spawned (world_of (try_configure env rc p w)) = spawned w"
proof -
  have "spawned (world_of (and_then (append_text env rc t w1)
         (\<lambda>_ w2. and_then (log env a GREEN w2)
            (\<lambda>_ w3. and_then (log env b YELLOW w3) (\<lambda>_. log env c YELLOW))))) = spawned w1"
    for t w1 a b c
    by (cases "append_text env rc t w1")
      (auto simp: and_then_def spawned_three_lines [unfolded and_then_def] append_text_def
        split: option.splits node.splits if_splits)
  then show ?thesis
    by (simp add: try_configure_def os_path_exists_def read_text_def and_then_Returned
        and_then_Raised log_exists spawned_printed split: option.splits node.splits)
qed

lemma configure_shell_spawned: "spawned (world_of (configure_shell env p w)) = spawned w"
proof (cases "select_rc_file env")
  case None
  then show ?thesis by (simp add: configure_shell_unclassified spawned_printed)
next
  case (Some rc)
  let ?w = "printed (''Configuring '' @ rc @ ''...'') YELLOW w"
  show ?thesis
    unfolding configure_shell_classified [OF Some]
    using try_configure_spawned [of env rc p ?w]
    by (cases "try_configure env rc p ?w") (simp_all add: spawned_log spawned_printed)
qed

lemma marker_in_config_block: "sublist marker (c @ config_block p)"
proof -
  have "config_block p =
      (NL @ ''# Secret Manager Configuration'' @ NL @ ''export '') @ marker
        @ (''='' @ [CHR 0x22] @ p @ ''/manage-secrets.sh'' @ [CHR 0x22] @ NL
           @ ''alias secret-add='' @ [CHR 0x27] @ ''$SECRETS_MANAGER_PATH add'' @ [CHR 0x27] @ NL
           @ ''alias secret-ls='' @ [CHR 0x27] @ ''$SECRETS_MANAGER_PATH ls'' @ [CHR 0x27] @ NL
           @ ''alias secret-apply='' @ [CHR 0x27] @ ''$SECRETS_MANAGER_PATH apply'' @ [CHR 0x27] @ NL)"
    by (simp add: config_block_def config_lines_def marker_def NL_def)
  then have "c @ config_block p = (c @ NL @ ''# Secret Manager Configuration'' @ NL @ ''export '') @ marker
        @ (''='' @ [CHR 0x22] @ p @ ''/manage-secrets.sh'' @ [CHR 0x22] @ NL
           @ ''alias secret-add='' @ [CHR 0x27] @ ''$SECRETS_MANAGER_PATH add'' @ [CHR 0x27] @ NL
           @ ''alias secret-ls='' @ [CHR 0x27] @ ''$SECRETS_MANAGER_PATH ls'' @ [CHR 0x27] @ NL
           @ ''alias secret-apply='' @ [CHR 0x27] @ ''$SECRETS_MANAGER_PATH apply'' @ [CHR 0x27] @ NL)"
    by simp
  then show ?thesis
    unfolding sublist_def by blast
qed

section \<open>Facts about \<^verbatim>\<open>setup_files\<close>\<close>

lemma setup_files_unfold:
  "setup_files env w =
     and_then (ensure_target_dir env w)
       (\<lambda>_ w1. and_then (copy_asset env (assets_dir env) (target_dir env) ''manage-secrets.sh'' w1)
          (\<lambda>_ w2. and_then (copy_asset env (assets_dir env) (target_dir env) ''get-secrets.js'' w2)
             (\<lambda>_. Returned (target_dir env))))"
  by (simp add: setup_files_def Let_def files_to_copy_def ensure_target_dir_def
      target_dir_def assets_dir_def and_then_def split: outcome.splits)

subsection \<open>Paths\<close>

lemma target_dir_eq: "target_dir env = dir_prefix (expanduser_home env) @ ''.secret-manager''"
  by (simp add: target_dir_def posix_join_rel)

lemma posix_join_target:
  "f \<noteq> [] \<Longrightarrow> hd f \<noteq> CHR ''/'' \<Longrightarrow> posix_join (target_dir env) f = target_dir env @ ''/'' @ f"
  by (simp add: target_dir_eq posix_join_def)

lemma basename_posix_join:
  assumes "CHR ''/'' \<notin> set f" and "f \<noteq> []"
  shows "basename (posix_join a f) = f"
proof -
  from assms have "hd f \<noteq> CHR ''/''" by (cases f) auto
  with assms have j: "posix_join a f = dir_prefix a @ f" by (simp add: posix_join_rel)
  have "takeWhile (\<lambda>c. c \<noteq> CHR ''/'') (rev (dir_prefix a)) = []"
    by (cases "rev a") (auto simp: dir_prefix_def last_rev [symmetric] simp del: last_rev)
  moreover have "takeWhile (\<lambda>c. c \<noteq> CHR ''/'') (rev f @ rev (dir_prefix a)) =
      rev f @ takeWhile (\<lambda>c. c \<noteq> CHR ''/'') (rev (dir_prefix a))"
    using assms by (intro takeWhile_append2) auto
  ultimately show ?thesis
    by (simp add: j basename_def)
qed

subsection \<open>What the library calls write\<close>

lemma os_makedirs_frame: "q \<noteq> p \<Longrightarrow> fs (world_of (os_makedirs env p w)) q = fs w q"
  by (simp add: os_makedirs_def)

lemma shutil_copy2_frame:
  "q \<noteq> dst \<Longrightarrow> q \<noteq> posix_join dst (basename src) \<Longrightarrow>
   fs (world_of (shutil_copy2 env src dst w)) q = fs w q"
  by (simp add: shutil_copy2_def Let_def split: option.splits node.splits)

lemma os_chmod_frame: "q \<noteq> p \<Longrightarrow> fs (world_of (os_chmod env p m w)) q = fs w q"
  by (simp add: os_chmod_def split: option.splits)

lemma os_makedirs_keeps: "fs w q \<noteq> None \<Longrightarrow> fs (world_of (os_makedirs env p w)) q \<noteq> None"
  by (simp add: os_makedirs_def)

lemma shutil_copy2_keeps:
  "fs w q \<noteq> None \<Longrightarrow> fs (world_of (shutil_copy2 env src dst w)) q \<noteq> None"
  by (simp add: shutil_copy2_def Let_def split: option.splits node.splits)

lemma os_chmod_keeps: "fs w q \<noteq> None \<Longrightarrow> fs (world_of (os_chmod env p m w)) q \<noteq> None"
  by (simp add: os_chmod_def split: option.splits)

lemma os_chmod_mode:
  "os_chmod env p m w = Returned u w' \<Longrightarrow> \<exists>n. fs w' p = Some n \<and> mode n = m"
  by (cases "fs w p"; cases "the (fs w p)") (auto simp: os_chmod_def split: if_splits)

lemma shutil_copy2_file:
  "shutil_copy2 env src dst w = Returned u w' \<Longrightarrow>
   \<exists>c m. fs w src = Some (File c m) \<and>
     (case fs w dst of
        Some (Dir dm) \<Rightarrow> fs w' = (fs w)(posix_join dst (basename src) \<mapsto> File c m)
      | _ \<Rightarrow> fs w' = (fs w)(dst \<mapsto> File c m))"
  by (auto simp: shutil_copy2_def Let_def split: option.splits node.splits if_splits)

lemma os_chmod_node:
  "os_chmod env p m w = Returned u w' \<Longrightarrow>
   \<exists>n. fs w p = Some n \<and> fs w' = (fs w)(p \<mapsto> set_mode n m)"
  by (auto simp: os_chmod_def split: option.splits if_splits)

subsection \<open>One asset\<close>

lemma copy_asset_absent:
  "fs w (posix_join a f) = None \<Longrightarrow>
   copy_asset env a t f w = log env (''Warning: Asset '' @ f @ '' not found in '' @ a) RED w"
  by (simp add: copy_asset_def Let_def os_path_exists_def)

lemma copy_asset_present:
  "fs w (posix_join a f) \<noteq> None \<Longrightarrow>
   copy_asset env a t f w =
     and_then (shutil_copy2 env (posix_join a f) (posix_join t f) w)
       (\<lambda>_ w1. and_then (os_chmod env (posix_join t f) mode_755 w1)
          (\<lambda>_. log env (''Copied '' @ f @ '' to '' @ t) GREEN))"
  by (simp add: copy_asset_def Let_def os_path_exists_def)

lemma copy_asset_frame:
  assumes "q \<noteq> posix_join t f"
    and "q \<noteq> posix_join (posix_join t f) (basename (posix_join a f))"
  shows "fs (world_of (copy_asset env a t f w)) q = fs w q"
proof (cases "fs w (posix_join a f) = None")
  case True
  then show ?thesis by (simp add: copy_asset_absent fs_log)
next
  case False
  let ?src = "posix_join a f" and ?dst = "posix_join t f"
  show ?thesis
  proof (cases "shutil_copy2 env ?src ?dst w")
    case (Returned u w1)
    have 1: "fs w1 q = fs w q"
      using shutil_copy2_frame [OF assms, of env w] Returned by simp
    have "fs (world_of (os_chmod env ?dst mode_755 w1)) q = fs w1 q"
      using assms(1) by (rule os_chmod_frame)
    with 1 Returned False show ?thesis
      by (simp add: copy_asset_present and_then_Returned fs_and_then_log)
  next
    case (Raised e w1)
    with shutil_copy2_frame [OF assms, of env w] have "fs w1 q = fs w q" by simp
    with Raised False show ?thesis
      by (simp add: copy_asset_present and_then_def)
  qed
qed

lemma copy_asset_keeps:
  assumes "fs w q \<noteq> None"
  shows "fs (world_of (copy_asset env a t f w)) q \<noteq> None"
proof (cases "fs w (posix_join a f) = None")
  case True
  with assms show ?thesis by (simp add: copy_asset_absent fs_log)
next
  case False
  let ?src = "posix_join a f" and ?dst = "posix_join t f"
  have 1: "fs (world_of (shutil_copy2 env ?src ?dst w)) q \<noteq> None"
    using assms by (rule shutil_copy2_keeps)
  show ?thesis
  proof (cases "shutil_copy2 env ?src ?dst w")
    case (Returned u w1)
    with 1 have "fs (world_of (os_chmod env ?dst mode_755 w1)) q \<noteq> None"
      by (simp add: os_chmod_keeps)
    with Returned False show ?thesis
      by (simp add: copy_asset_present and_then_Returned fs_and_then_log)
  next
    case (Raised e w1)
    with 1 False show ?thesis
      by (simp add: copy_asset_present and_then_def)
  qed
qed

lemma copy_asset_Returned:
  assumes "copy_asset env a t f w = Returned u w'" and "fs w (posix_join a f) \<noteq> None"
  obtains u1 w1 u2 w2 where
    "shutil_copy2 env (posix_join a f) (posix_join t f) w = Returned u1 w1"
    and "os_chmod env (posix_join t f) mode_755 w1 = Returned u2 w2"
    and "fs w' = fs w2"
proof -
  let ?src = "posix_join a f" and ?dst = "posix_join t f"
  from assms obtain u1 w1 u2 w2 where
    c: "shutil_copy2 env ?src ?dst w = Returned u1 w1"
    and m: "os_chmod env ?dst mode_755 w1 = Returned u2 w2"
    and l: "log env (''Copied '' @ f @ '' to '' @ t) GREEN w2 = Returned u w'"
    by (auto simp: copy_asset_present and_then_def split: outcome.splits)
  from fs_log [of env "''Copied '' @ f @ '' to '' @ t" GREEN w2] l have "fs w' = fs w2"
    by simp
  with c m that show ?thesis by blast
qed

lemma copy_asset_mode:
  assumes "copy_asset env a t f w = Returned u w'" and "fs w (posix_join a f) \<noteq> None"
  shows "\<exists>n. fs w' (posix_join t f) = Some n \<and> mode n = mode_755"
proof -
  from assms obtain u1 w1 u2 w2 where
    m: "os_chmod env (posix_join t f) mode_755 w1 = Returned u2 w2"
    and w': "fs w' = fs w2"
    by (rule copy_asset_Returned)
  from os_chmod_mode [OF m] w' show ?thesis by simp
qed

lemma copy_asset_file:
  assumes "copy_asset env a t f w = Returned u w'"
    and "fs w (posix_join a f) = Some (File c m)"
    and "\<forall>dm. fs w (posix_join t f) \<noteq> Some (Dir dm)"
  shows "fs w' = (fs w)(posix_join t f \<mapsto> File c mode_755)"
proof -
  let ?src = "posix_join a f" and ?dst = "posix_join t f"
  from assms(2) have "fs w ?src \<noteq> None" by simp
  with assms(1) obtain u1 w1 u2 w2 where
    c: "shutil_copy2 env ?src ?dst w = Returned u1 w1"
    and m: "os_chmod env ?dst mode_755 w1 = Returned u2 w2"
    and w': "fs w' = fs w2"
    by (rule copy_asset_Returned)
  from shutil_copy2_file [OF c] assms(2,3) have "fs w1 = (fs w)(?dst \<mapsto> File c m)"
    by (auto split: option.splits node.splits)
  with os_chmod_node [OF m] w' show ?thesis by auto
qed

subsection \<open>The whole of \<^verbatim>\<open>setup_files\<close>\<close>

lemma ensure_target_dir_frame:
  "q \<noteq> target_dir env \<Longrightarrow> fs (world_of (ensure_target_dir env w)) q = fs w q"
  by (simp add: ensure_target_dir_def fs_and_then_log os_makedirs_frame)

lemma ensure_target_dir_keeps:
  "fs w q \<noteq> None \<Longrightarrow> fs (world_of (ensure_target_dir env w)) q \<noteq> None"
  by (simp add: ensure_target_dir_def fs_and_then_log os_makedirs_def)

lemma ensure_target_dir_raises:
  "raises (ensure_target_dir env w) \<longleftrightarrow>
     fs w (target_dir env) = None
     \<and> (io_fault env (Makedirs (target_dir env))
        \<or> \<not> can_print env (GREEN @ (''Created directory: '' @ target_dir env) @ RESET))"
  by (auto simp: ensure_target_dir_def raises_and_then_log os_makedirs_def os_path_exists_def)

lemma dst_manage: "posix_join (target_dir env) ''manage-secrets.sh'' = target_dir env @ ''/manage-secrets.sh''"
  by (simp add: posix_join_target)

lemma dst_get: "posix_join (target_dir env) ''get-secrets.js'' = target_dir env @ ''/get-secrets.js''"
  by (simp add: posix_join_target)

lemma inner_manage:
  "posix_join (target_dir env @ ''/manage-secrets.sh'') (basename (posix_join a ''manage-secrets.sh''))
     = target_dir env @ ''/manage-secrets.sh/manage-secrets.sh''"
  by (simp add: basename_posix_join) (simp add: posix_join_def)

lemma inner_get:
  "posix_join (target_dir env @ ''/get-secrets.js'') (basename (posix_join a ''get-secrets.js''))
     = target_dir env @ ''/get-secrets.js/get-secrets.js''"
  by (simp add: basename_posix_join) (simp add: posix_join_def)

lemma copy_manage_frame:
  "q \<noteq> target_dir env @ ''/manage-secrets.sh'' \<Longrightarrow>
   q \<noteq> target_dir env @ ''/manage-secrets.sh/manage-secrets.sh'' \<Longrightarrow>
   fs (world_of (copy_asset env a (target_dir env) ''manage-secrets.sh'' w)) q = fs w q"
  by (rule copy_asset_frame) (simp_all only: dst_manage inner_manage, simp_all)

lemma copy_get_frame:
  "q \<noteq> target_dir env @ ''/get-secrets.js'' \<Longrightarrow>
   q \<noteq> target_dir env @ ''/get-secrets.js/get-secrets.js'' \<Longrightarrow>
   fs (world_of (copy_asset env a (target_dir env) ''get-secrets.js'' w)) q = fs w q"
  by (rule copy_asset_frame) (simp_all only: dst_get inner_get, simp_all)

lemma setup_files_frame:
  assumes "q \<notin> set (deploy_paths env)"
  shows "fs (world_of (setup_files env w)) q = fs w q"
proof -
  from assms have q: "q \<noteq> target_dir env"
    "q \<noteq> target_dir env @ ''/manage-secrets.sh''"
    "q \<noteq> target_dir env @ ''/manage-secrets.sh/manage-secrets.sh''"
    "q \<noteq> target_dir env @ ''/get-secrets.js''"
    "q \<noteq> target_dir env @ ''/get-secrets.js/get-secrets.js''"
    by (simp_all add: deploy_paths_def)
  show ?thesis
  proof (cases "ensure_target_dir env w")
    case (Raised e w1)
    with ensure_target_dir_frame [OF q(1), of w] show ?thesis
      by (simp add: setup_files_unfold and_then_def)
  next
    case r1: (Returned u1 w1)
    with ensure_target_dir_frame [OF q(1), of w] have 1: "fs w1 q = fs w q" by simp
    show ?thesis
    proof (cases "copy_asset env (assets_dir env) (target_dir env) ''manage-secrets.sh'' w1")
      case (Raised e w2)
      with copy_manage_frame [OF q(2,3), of "assets_dir env" w1] 1 r1 show ?thesis
        by (simp add: setup_files_unfold and_then_def)
    next
      case r2: (Returned u2 w2)
      with copy_manage_frame [OF q(2,3), of "assets_dir env" w1] 1
      have 2: "fs w2 q = fs w q" by simp
      show ?thesis
      proof (cases "copy_asset env (assets_dir env) (target_dir env) ''get-secrets.js'' w2")
        case (Raised e w3)
        with copy_get_frame [OF q(4,5), of "assets_dir env" w2] 2 r1 r2 show ?thesis
          by (simp add: setup_files_unfold and_then_def)
      next
        case (Returned u3 w3)
        with copy_get_frame [OF q(4,5), of "assets_dir env" w2] 2 r1 r2 show ?thesis
          by (simp add: setup_files_unfold and_then_def)
      qed
    qed
  qed
qed

lemma setup_files_Returned:
  assumes "setup_files env w = Returned p w'"
  obtains w1 w2 where "p = target_dir env"
    and "ensure_target_dir env w = Returned () w1"
    and "copy_asset env (assets_dir env) (target_dir env) ''manage-secrets.sh'' w1 = Returned () w2"
    and "copy_asset env (assets_dir env) (target_dir env) ''get-secrets.js'' w2 = Returned () w'"
  using assms
  by (auto simp: setup_files_unfold and_then_def split: outcome.splits)

lemma rc_not_deployed:
  assumes "select_rc_file env = Some rc"
  shows "rc \<notin> set (deploy_paths env)"
  using select_rc_file_cases [OF assms]
  by (auto simp: deploy_paths_def target_dir_eq)

section \<open>The stages see the world only through the file system\<close>

lemma same_result_raised: "same_result r r' \<Longrightarrow> raised r' = raised r"
  by (cases r) (auto simp: same_result_def)

lemma same_result_raises: "same_result r r' \<Longrightarrow> raises r' = raises r"
  by (cases r) (auto simp: same_result_def)

lemma same_result_Returned: "fs w = fs w' \<Longrightarrow> same_result (Returned x w) (Returned x w')"
  by (simp add: same_result_def)

lemma same_result_and_then:
  assumes "same_result r r'"
    and "\<And>x w w'. fs w = fs w' \<Longrightarrow> same_result (f x w) (g x w')"
  shows "same_result (and_then r f) (and_then r' g)"
proof (cases r)
  case (Returned x w)
  with assms(1) obtain w' where "r' = Returned x w'" "fs w' = fs w"
    by (auto simp: same_result_def)
  with Returned assms(2) [of w w' x] show ?thesis by (simp add: and_then_def)
next
  case (Raised e w)
  with assms(1) obtain w' where "r' = Raised e w'" "fs w' = fs w"
    by (auto simp: same_result_def)
  with Raised show ?thesis by (simp add: and_then_def same_result_def)
qed

lemma same_result_subprocess_run:
  "fs w = fs w' \<Longrightarrow> same_result (subprocess_run env argv c w) (subprocess_run env argv c w')"
  by (simp add: subprocess_run_def Let_def same_result_def split: proc.splits)

lemma same_result_os_makedirs:
  "fs w = fs w' \<Longrightarrow> same_result (os_makedirs env p w) (os_makedirs env p w')"
  by (simp add: os_makedirs_def same_result_def)

lemma same_result_shutil_copy2:
  "fs w = fs w' \<Longrightarrow> same_result (shutil_copy2 env src dst w) (shutil_copy2 env src dst w')"
  by (simp add: shutil_copy2_def Let_def same_result_def split: option.splits node.splits)

lemma same_result_os_chmod:
  "fs w = fs w' \<Longrightarrow> same_result (os_chmod env p m w) (os_chmod env p m w')"
  by (simp add: os_chmod_def same_result_def split: option.splits)

lemma same_result_log:
  "fs w = fs w' \<Longrightarrow> same_result (log env msg color w) (log env msg color w')"
  by (simp add: log_eq same_result_def fs_printed)

lemma same_result_read_text:
  "fs w = fs w' \<Longrightarrow> same_result (read_text env p w) (read_text env p w')"
  by (simp add: read_text_def same_result_def split: option.splits node.splits)

lemma same_result_append_text:
  "fs w = fs w' \<Longrightarrow> same_result (append_text env p t w) (append_text env p t w')"
  by (simp add: append_text_def same_result_def split: option.splits node.splits)

lemma same_result_copy_asset:
  assumes "fs w = fs w'"
  shows "same_result (copy_asset env a t f w) (copy_asset env a t f w')"
proof (cases "fs w (posix_join a f) = None")
  case True
  with assms show ?thesis
    by (simp add: copy_asset_absent same_result_log)
next
  case False
  with assms have "fs w' (posix_join a f) \<noteq> None" by simp
  with False show ?thesis
    unfolding copy_asset_present [OF False] copy_asset_present [OF \<open>fs w' (posix_join a f) \<noteq> None\<close>]
    by (intro same_result_and_then same_result_shutil_copy2 same_result_os_chmod
        same_result_log assms)
qed

lemma same_result_ensure_target_dir:
  assumes "fs w = fs w'"
  shows "same_result (ensure_target_dir env w) (ensure_target_dir env w')"
proof (cases "fs w (target_dir env) = None")
  case True
  with assms have "fs w' (target_dir env) = None" by simp
  with True show ?thesis
    unfolding ensure_target_dir_def os_path_exists_def
    by (simp add: same_result_and_then same_result_os_makedirs same_result_log assms)
next
  case False
  with assms have "fs w' (target_dir env) \<noteq> None" by simp
  with False assms show ?thesis
    by (simp add: ensure_target_dir_def os_path_exists_def same_result_Returned)
qed

lemma same_result_setup_files:
  assumes "fs w = fs w'"
  shows "same_result (setup_files env w) (setup_files env w')"
  unfolding setup_files_unfold
  by (intro same_result_and_then same_result_ensure_target_dir same_result_copy_asset
      same_result_Returned assms)

lemma same_result_install_dependencies:
  assumes "fs w = fs w'"
  shows "same_result (install_dependencies env w) (install_dependencies env w')"
proof -
  have l2: "fs (printed m c (printed m2 c2 w)) = fs (printed m' c' (printed m3 c3 w'))"
    for m c m' c' m2 c2 m3 c3
    using assms by (simp add: fs_printed)
  have l3: "fs (printed m c (printed m2 c2 (printed m4 c4 w)))
      = fs (printed m' c' (printed m3 c3 (printed m5 c5 w')))"
    for m c m' c' m2 c2 m3 c3 m4 c4 m5 c5
    using assms by (simp add: fs_printed)
  consider "platform_system env = ''Darwin''" | "platform_system env = ''Linux''"
    | "platform_system env = ''Windows''"
    | "platform_system env \<noteq> ''Darwin''" "platform_system env \<noteq> ''Linux''"
      "platform_system env \<noteq> ''Windows''"
    by blast
  then show ?thesis
  proof cases
    case 1
    show ?thesis
      unfolding install_dependencies_Darwin [OF 1]
      by (auto intro!: same_result_and_then same_result_subprocess_run same_result_Returned l2)
  next
    case 2
    show ?thesis
      unfolding install_dependencies_Linux [OF 2]
      by (auto intro!: same_result_and_then same_result_subprocess_run same_result_Returned l2)
  next
    case 3
    show ?thesis
      unfolding install_dependencies_Windows [OF 3]
      by (auto intro!: same_result_subprocess_run same_result_Returned l2 l3)
  next
    case 4
    show ?thesis
      unfolding install_dependencies_other [OF 4]
      by (intro same_result_and_then same_result_log assms)
  qed
qed

lemma same_result_try_configure:
  assumes "fs w = fs w'"
  shows "same_result (try_configure env rc p w) (try_configure env rc p w')"
proof -
  have 1: "same_result
      (if os_path_exists w rc then
         and_then (read_text env rc w)
           (\<lambda>content w1.
              if sublist marker content then
                and_then
                  (log env ''Configuration already exists in RC file. Skipping append.'' YELLOW w1)
                  (\<lambda>_. Returned True)
              else Returned False w1)
       else Returned False w)
      (if os_path_exists w' rc then
         and_then (read_text env rc w')
           (\<lambda>content w1.
              if sublist marker content then
                and_then
                  (log env ''Configuration already exists in RC file. Skipping append.'' YELLOW w1)
                  (\<lambda>_. Returned True)
              else Returned False w1)
       else Returned False w')"
    using assms
    by (auto simp: os_path_exists_def
        intro!: same_result_and_then same_result_read_text same_result_log same_result_Returned)
  show ?thesis
    unfolding try_configure_def
    by (rule same_result_and_then [OF 1])
      (auto intro!: same_result_and_then same_result_append_text same_result_log
        same_result_Returned)
qed

lemma same_result_handler:
  assumes "same_result r r'"
  shows "same_result
      (case r of Returned u w' \<Rightarrow> Returned () w' | Raised e w' \<Rightarrow> log env (msg e) RED w')
      (case r' of Returned u w' \<Rightarrow> Returned () w' | Raised e w' \<Rightarrow> log env (msg e) RED w')"
proof (cases r)
  case (Returned x w)
  with assms obtain w' where "r' = Returned x w'" "fs w' = fs w"
    by (auto simp: same_result_def)
  with Returned show ?thesis by (simp add: same_result_def)
next
  case (Raised e w)
  with assms obtain w' where "r' = Raised e w'" "fs w' = fs w"
    by (auto simp: same_result_def)
  with Raised show ?thesis by (simp add: same_result_log)
qed

lemma same_result_configure_shell:
  assumes "fs w = fs w'"
  shows "same_result (configure_shell env p w) (configure_shell env p w')"
proof (cases "select_rc_file env")
  case None
  with assms show ?thesis
    by (simp add: configure_shell_unclassified same_result_def fs_printed)
next
  case (Some rc)
  let ?w = "printed (''Configuring '' @ rc @ ''...'') YELLOW w"
  let ?w' = "printed (''Configuring '' @ rc @ ''...'') YELLOW w'"
  from assms have "fs ?w = fs ?w'" by (simp add: fs_printed)
  then have "same_result (try_configure env rc p ?w) (try_configure env rc p ?w')"
    by (rule same_result_try_configure)
  then have h: "same_result
      (case try_configure env rc p ?w of
         Returned u w' \<Rightarrow> Returned () w'
       | Raised e w' \<Rightarrow> log env (''Failed to update '' @ rc @ '': '' @ exn_str env e) RED w')
      (case try_configure env rc p ?w' of
         Returned u w' \<Rightarrow> Returned () w'
       | Raised e w' \<Rightarrow> log env (''Failed to update '' @ rc @ '': '' @ exn_str env e) RED w')"
    by (rule same_result_handler)
  show ?thesis
  proof (cases "can_print env (YELLOW @ (''Configuring '' @ rc @ ''...'') @ RESET)")
    case True
    with h show ?thesis
      unfolding configure_shell_classified [OF Some] by simp
  next
    case False
    with assms show ?thesis
      unfolding configure_shell_classified [OF Some] by (simp add: same_result_def)
  qed
qed

lemma same_result_try_main:
  assumes "fs w = fs w'"
  shows "same_result (try_main env w) (try_main env w')"
  unfolding try_main_def
  by (intro same_result_and_then same_result_install_dependencies same_result_setup_files
      same_result_configure_shell same_result_log assms)

lemma first_failure_same_fs:
  assumes "fs w = fs w'"
  shows "first_failure env w' = first_failure env w"
  unfolding first_failure_def
  by (intro same_result_raised same_result_try_main assms)

lemma raises_setup_files_same_fs:
  "fs w = fs w' \<Longrightarrow> raises (setup_files env w') = raises (setup_files env w)"
  by (intro same_result_raises same_result_setup_files)

lemma raised_None_iff: "raised r = None \<longleftrightarrow> \<not> raises r"
  by (cases r) simp_all

lemma raises_iff_raised: "raises r \<longleftrightarrow> (\<exists>e. raised r = Some e)"
  by (cases r) simp_all

section \<open>What leaves \<^verbatim>\<open>configure_shell\<close>\<close>

lemma raised_three_lines:
  "raised (and_then (log env a GREEN w)
       (\<lambda>_ w3. and_then (log env ''IMPORTANT: Please restart your terminal or run:'' YELLOW w3)
          (\<lambda>_. log env c YELLOW))) =
     (if \<not> can_print env (GREEN @ a @ RESET) then Some (UnicodeEncodeError (GREEN @ a @ RESET))
      else if \<not> can_print env (YELLOW @ c @ RESET)
      then Some (UnicodeEncodeError (YELLOW @ c @ RESET))
      else None)"
proof -
  have "can_print env (YELLOW @ ''IMPORTANT: Please restart your terminal or run:'' @ RESET)"
    by (rule can_print_ascii) (simp_all add: ascii_messages is_ascii_colors)
  then show ?thesis
    by (simp add: log_eq and_then_Returned and_then_Raised)
qed

lemma raised_try_configure: "raised (try_configure env rc p w) = try_failure env rc (fs w rc)"
proof (cases "fs w rc")
  case None
  then show ?thesis
    by (cases "io_fault env (OpenAppend rc)")
      (simp_all add: try_configure_create raised_three_lines try_failure_def confirm_failure_def,
        simp add: try_configure_def os_path_exists_def append_text_def and_then_def)
next
  case (Some n)
  show ?thesis
  proof (cases n)
    case (Dir dm)
    with Some show ?thesis
      by (simp add: try_configure_def os_path_exists_def read_text_def and_then_def
          try_failure_def)
  next
    case (File c m)
    show ?thesis
    proof (cases "io_fault env (OpenRead rc) \<or> sublist marker c \<or> io_fault env (OpenAppend rc)")
      case True
      with Some File show ?thesis
        by (auto simp: try_configure_def os_path_exists_def read_text_def append_text_def
            and_then_def log_exists try_failure_def)
    next
      case False
      with Some File show ?thesis
        by (simp add: try_configure_append raised_three_lines try_failure_def
            confirm_failure_def)
    qed
  qed
qed

lemma raises_configure_shell:
  "raises (configure_shell env p w) \<longleftrightarrow> shell_lines_fail env w"
proof (cases "select_rc_file env")
  case None
  then show ?thesis
    by (simp add: configure_shell_unclassified shell_lines_fail_def)
next
  case (Some rc)
  let ?w = "printed (''Configuring '' @ rc @ ''...'') YELLOW w"
  have "try_failure env rc (fs w rc) = raised (try_configure env rc p ?w)"
    by (simp add: raised_try_configure fs_printed)
  then show ?thesis
    unfolding configure_shell_classified [OF Some]
    by (cases "try_configure env rc p ?w")
      (auto simp: shell_lines_fail_def Some raises_log)
qed

lemma raised_configure_shell:
  "raised (configure_shell env p w) = Some e \<Longrightarrow> \<exists>t. e = UnicodeEncodeError t"
proof (cases "select_rc_file env")
  case None
  assume "raised (configure_shell env p w) = Some e"
  with None show ?thesis
    by (simp add: configure_shell_unclassified)
next
  case (Some rc)
  let ?w = "printed (''Configuring '' @ rc @ ''...'') YELLOW w"
  assume "raised (configure_shell env p w) = Some e"
  then show ?thesis
    unfolding configure_shell_classified [OF Some]
    by (cases "try_configure env rc p ?w") (auto simp: log_eq split: if_splits)
qed

lemma shell_lines_fail_same_rc:
  assumes "\<And>rc. select_rc_file env = Some rc \<Longrightarrow> fs w' rc = fs w rc"
  shows "shell_lines_fail env w' = shell_lines_fail env w"
  using assms by (cases "select_rc_file env") (simp_all add: shell_lines_fail_def)

lemma setup_files_rc:
  "select_rc_file env = Some rc \<Longrightarrow> fs (world_of (setup_files env w)) rc = fs w rc"
  by (rule setup_files_frame) (rule rc_not_deployed)

section \<open>Facts about \<^verbatim>\<open>main\<close>\<close>

lemma raises_try_main:
  "raises (try_main env w) \<longleftrightarrow>
     required_command_fails env \<or> optional_command_not_spawned env \<or> system_lines_fail env
     \<or> raises (setup_files env w) \<or> shell_lines_fail env w
     \<or> \<not> can_print env (GREEN @ complete_msg @ RESET)"
proof (cases "install_dependencies env w")
  case (Raised e w1)
  with raises_install_dependencies [of env w] show ?thesis
    by (auto simp: try_main_def and_then_def)
next
  case d: (Returned u w1)
  with raises_install_dependencies [of env w]
  have no: "\<not> (required_command_fails env \<or> optional_command_not_spawned env
      \<or> system_lines_fail env)"
    by simp
  from d fs_install_dependencies [of env w] have f1: "fs w = fs w1" by simp
  then have same: "same_result (setup_files env w) (setup_files env w1)"
    by (rule same_result_setup_files)
  show ?thesis
  proof (cases "setup_files env w1")
    case (Raised e w2)
    with same_result_raises [OF same] have "raises (setup_files env w)" by simp
    with d Raised show ?thesis
      by (simp add: try_main_def and_then_def)
  next
    case s: (Returned t w2)
    with same_result_raises [OF same] have ns: "\<not> raises (setup_files env w)" by simp
    have "fs w2 rc = fs w rc" if "select_rc_file env = Some rc" for rc
      using setup_files_rc [OF that, of w1] s f1 by simp
    then have "shell_lines_fail env w2 = shell_lines_fail env w"
      by (rule shell_lines_fail_same_rc)
    with d s no ns show ?thesis
      by (simp add: try_main_def and_then_Returned raises_and_then_log raises_configure_shell)
  qed
qed

lemma main_eq:
  "main env w =
     (case try_main env (printed banner GREEN w) of
        Returned u w' \<Rightarrow> (0, w')
      | Raised e w' \<Rightarrow>
          (1, world_of (log env (NL @ ''Installation failed: '' @ exn_str env e) RED w')))"
  by (simp add: main_def try_main_def banner_def log_ascii ascii_messages is_ascii_colors)

lemma first_failure_banner:
  "first_failure env (printed banner GREEN w) = first_failure env w"
  by (rule first_failure_same_fs) (simp add: fs_printed)

lemma main_exit:
  "fst (main env w) = (if first_failure env w = None then 0 else 1)"
proof -
  have "first_failure env w = raised (try_main env (printed banner GREEN w))"
    using first_failure_banner [of env w] by (simp add: first_failure_def)
  then show ?thesis
    by (cases "try_main env (printed banner GREEN w)") (simp_all add: main_eq)
qed

lemma first_failure_iff:
  "first_failure env w \<noteq> None \<longleftrightarrow>
     required_command_fails env \<or> optional_command_not_spawned env \<or> system_lines_fail env
     \<or> raises (setup_files env w) \<or> shell_lines_fail env w
     \<or> \<not> can_print env (GREEN @ complete_msg @ RESET)"
  using raises_try_main [of env w]
  by (simp add: first_failure_def raised_None_iff)

lemma try_main_Returned:
  assumes "try_main env w = Returned u w'"
  shows "\<exists>w3. w' = printed complete_msg GREEN w3"
proof -
  from assms obtain u3 w3 where "log env complete_msg GREEN w3 = Returned u3 w'"
    by (auto simp: try_main_def and_then_def split: outcome.splits)
  then show ?thesis
    by (auto simp: log_eq split: if_splits)
qed

lemma main_last_line_complete:
  assumes "first_failure env w = None"
  shows "last (stdout (snd (main env w))) = GREEN @ complete_msg @ RESET"
proof -
  from assms have "first_failure env (printed banner GREEN w) = None"
    by (simp add: first_failure_banner)
  then obtain u w' where r: "try_main env (printed banner GREEN w) = Returned u w'"
    by (cases "try_main env (printed banner GREEN w)") (simp_all add: first_failure_def)
  from try_main_Returned [OF r] r show ?thesis
    by (auto simp: main_eq stdout_printed)
qed

lemma main_last_line_failed:
  assumes "first_failure env w = Some e"
    and "can_print env (RED @ (NL @ ''Installation failed: '' @ exn_str env e) @ RESET)"
  shows "last (stdout (snd (main env w))) =
      RED @ (NL @ ''Installation failed: '' @ exn_str env e) @ RESET"
proof -
  from assms have "first_failure env (printed banner GREEN w) = Some e"
    by (simp add: first_failure_banner)
  then obtain w' where r: "try_main env (printed banner GREEN w) = Raised e w'"
    by (cases "try_main env (printed banner GREEN w)") (simp_all add: first_failure_def)
  with assms(2) show ?thesis
    by (simp add: main_eq log_eq stdout_printed)
qed

subsection \<open>Sources and destinations of the two assets\<close>

lemma src_eq:
  "f \<noteq> [] \<Longrightarrow> hd f \<noteq> CHR ''/'' \<Longrightarrow> posix_join (assets_dir env) f = dir_prefix (assets_dir env) @ f"
  by (simp add: posix_join_rel)

lemma in_files_to_copy: "f \<in> set files_to_copy \<longleftrightarrow> f = ''manage-secrets.sh'' \<or> f = ''get-secrets.js''"
  by (auto simp: files_to_copy_def)

lemma src_manage_not_target:
  "posix_join (assets_dir env) ''manage-secrets.sh'' \<noteq> target_dir env"
proof
  assume "posix_join (assets_dir env) ''manage-secrets.sh'' = target_dir env"
  then have "last (posix_join (assets_dir env) ''manage-secrets.sh'') = last (target_dir env)"
    by simp
  then show False by (simp add: src_eq target_dir_eq)
qed

lemma src_get_not_written:
  "posix_join (assets_dir env) ''get-secrets.js'' \<noteq> target_dir env"
  "posix_join (assets_dir env) ''get-secrets.js'' \<noteq> target_dir env @ ''/manage-secrets.sh''"
  "posix_join (assets_dir env) ''get-secrets.js''
     \<noteq> target_dir env @ ''/manage-secrets.sh/manage-secrets.sh''"
proof -
  let ?s = "posix_join (assets_dir env) ''get-secrets.js''"
  have l: "last ?s = CHR ''s''" by (simp add: src_eq)
  show "?s \<noteq> target_dir env"
  proof
    assume "?s = target_dir env"
    then have "last ?s = last (target_dir env)" by simp
    with l show False by (simp add: target_dir_eq)
  qed
  show "?s \<noteq> target_dir env @ ''/manage-secrets.sh''"
  proof
    assume "?s = target_dir env @ ''/manage-secrets.sh''"
    then have "last ?s = last (target_dir env @ ''/manage-secrets.sh'')" by simp
    with l show False by simp
  qed
  show "?s \<noteq> target_dir env @ ''/manage-secrets.sh/manage-secrets.sh''"
  proof
    assume "?s = target_dir env @ ''/manage-secrets.sh/manage-secrets.sh''"
    then have "last ?s = last (target_dir env @ ''/manage-secrets.sh/manage-secrets.sh'')" by simp
    with l show False by simp
  qed
qed

subsection \<open>What is printed only grows\<close>

lemma stdout_shutil_copy2: "stdout (world_of (shutil_copy2 env src dst w)) = stdout w"
  by (simp add: shutil_copy2_def Let_def split: option.splits node.splits)

lemma stdout_os_chmod: "stdout (world_of (os_chmod env p m w)) = stdout w"
  by (simp add: os_chmod_def split: option.splits)

lemma stdout_and_then_log:
  "prefix (stdout (world_of r)) (stdout (world_of (and_then r (\<lambda>_. log env msg color))))"
  by (cases r) (simp_all add: and_then_def stdout_log)

lemma stdout_copy_asset: "prefix (stdout w) (stdout (world_of (copy_asset env a t f w)))"
proof (cases "fs w (posix_join a f) = None")
  case True
  then show ?thesis by (simp add: copy_asset_absent stdout_log)
next
  case False
  let ?src = "posix_join a f" and ?dst = "posix_join t f"
  show ?thesis
  proof (cases "shutil_copy2 env ?src ?dst w")
    case (Returned u w1)
    with stdout_shutil_copy2 [of env ?src ?dst w] have 1: "stdout w1 = stdout w" by simp
    have "prefix (stdout (world_of (os_chmod env ?dst mode_755 w1)))
        (stdout (world_of (and_then (os_chmod env ?dst mode_755 w1)
           (\<lambda>_. log env (''Copied '' @ f @ '' to '' @ t) GREEN))))"
      by (rule stdout_and_then_log)
    with 1 Returned False show ?thesis
      by (simp add: copy_asset_present and_then_Returned stdout_os_chmod)
  next
    case (Raised e w1)
    with stdout_shutil_copy2 [of env ?src ?dst w] have "stdout w1 = stdout w" by simp
    with Raised False show ?thesis
      by (simp add: copy_asset_present and_then_def)
  qed
qed

subsection \<open>Permission bits after deployment\<close>

lemma setup_files_mode:
  assumes ret: "setup_files env w = Returned p w'"
    and f: "f \<in> set files_to_copy"
    and src: "fs w (posix_join (assets_dir env) f) \<noteq> None"
  shows "\<exists>n. fs w' (posix_join p f) = Some n \<and> mode n = mode_755"
proof -
  let ?a = "assets_dir env" and ?t = "target_dir env"
  from ret obtain w1 w2 where p: "p = ?t"
    and e: "ensure_target_dir env w = Returned () w1"
    and c1: "copy_asset env ?a ?t ''manage-secrets.sh'' w1 = Returned () w2"
    and c2: "copy_asset env ?a ?t ''get-secrets.js'' w2 = Returned () w'"
    by (rule setup_files_Returned)
  from ensure_target_dir_keeps [OF src, of env] e
  have src1: "fs w1 (posix_join ?a f) \<noteq> None" by simp
  from copy_asset_keeps [OF src1, of env ?a ?t "''manage-secrets.sh''"] c1
  have src2: "fs w2 (posix_join ?a f) \<noteq> None" by simp
  from f consider "f = ''manage-secrets.sh''" | "f = ''get-secrets.js''"
    by (auto simp: in_files_to_copy)
  then show ?thesis
  proof cases
    case 1
    with src1 copy_asset_mode [OF c1] obtain n where
      n: "fs w2 (posix_join ?t ''manage-secrets.sh'') = Some n" "mode n = mode_755"
      by auto
    have "fs w' (?t @ ''/manage-secrets.sh'') = fs w2 (?t @ ''/manage-secrets.sh'')"
      using copy_get_frame [of "?t @ ''/manage-secrets.sh''" env ?a w2] c2 by simp
    with n 1 p show ?thesis by (simp add: dst_manage)
  next
    case 2
    with src2 copy_asset_mode [OF c2] p show ?thesis by auto
  qed
qed

lemma setup_files_regular:
  assumes ret: "setup_files env w = Returned p w'"
    and f: "f \<in> set files_to_copy"
    and src: "fs w (posix_join (assets_dir env) f) \<noteq> None"
    and dst: "\<forall>dm. fs w (posix_join (target_dir env) f) \<noteq> Some (Dir dm)"
  shows "\<exists>c. fs w' (posix_join p f) = Some (File c mode_755)"
proof -
  let ?a = "assets_dir env" and ?t = "target_dir env"
  from ret obtain w1 w2 where p: "p = ?t"
    and e: "ensure_target_dir env w = Returned () w1"
    and c1: "copy_asset env ?a ?t ''manage-secrets.sh'' w1 = Returned () w2"
    and c2: "copy_asset env ?a ?t ''get-secrets.js'' w2 = Returned () w'"
    by (rule setup_files_Returned)
  from ensure_target_dir_keeps [OF src, of env] e
  have src1: "fs w1 (posix_join ?a f) \<noteq> None" by simp
  from copy_asset_keeps [OF src1, of env ?a ?t "''manage-secrets.sh''"] c1
  have src2: "fs w2 (posix_join ?a f) \<noteq> None" by simp
  from f consider "f = ''manage-secrets.sh''" | "f = ''get-secrets.js''"
    by (auto simp: in_files_to_copy)
  then show ?thesis
  proof cases
    case 1
    have "fs w1 (?t @ ''/manage-secrets.sh'') = fs w (?t @ ''/manage-secrets.sh'')"
      using ensure_target_dir_frame [of "?t @ ''/manage-secrets.sh''" env w] e by simp
    with dst 1 have d1: "\<forall>dm. fs w1 (posix_join ?t ''manage-secrets.sh'') \<noteq> Some (Dir dm)"
      by (simp add: dst_manage)
    from c1 src1 1 obtain c m where cm: "fs w1 (posix_join ?a ''manage-secrets.sh'') = Some (File c m)"
      by (auto simp: copy_asset_present and_then_def shutil_copy2_def
          split: option.splits node.splits)
    from copy_asset_file [OF c1 cm d1]
    have "fs w2 (?t @ ''/manage-secrets.sh'') = Some (File c mode_755)"
      by (simp add: dst_manage)
    moreover have "fs w' (?t @ ''/manage-secrets.sh'') = fs w2 (?t @ ''/manage-secrets.sh'')"
      using copy_get_frame [of "?t @ ''/manage-secrets.sh''" env ?a w2] c2 by simp
    ultimately show ?thesis using 1 p by (simp add: dst_manage)
  next
    case 2
    have "fs w1 (?t @ ''/get-secrets.js'') = fs w (?t @ ''/get-secrets.js'')"
      using ensure_target_dir_frame [of "?t @ ''/get-secrets.js''" env w] e by simp
    moreover have "fs w2 (?t @ ''/get-secrets.js'') = fs w1 (?t @ ''/get-secrets.js'')"
      using copy_manage_frame [of "?t @ ''/get-secrets.js''" env ?a w1] c1 by simp
    ultimately have d2: "\<forall>dm. fs w2 (posix_join ?t ''get-secrets.js'') \<noteq> Some (Dir dm)"
      using dst 2 by (simp add: dst_get)
    from c2 src2 2 obtain c m where cm: "fs w2 (posix_join ?a ''get-secrets.js'') = Some (File c m)"
      by (auto simp: copy_asset_present and_then_def shutil_copy2_def
          split: option.splits node.splits)
    from copy_asset_file [OF c2 cm d2] 2 p show ?thesis by simp
  qed
qed


subsection \<open>When a loop step raises\<close>

lemma raises_shutil_copy2_cong:
  assumes "fs w' src = fs w src" and "fs w' dst = fs w dst"
    and "fs w' (posix_join dst (basename src)) = fs w (posix_join dst (basename src))"
  shows "raises (shutil_copy2 env src dst w') = raises (shutil_copy2 env src dst w)"
  using assms
  by (auto simp: shutil_copy2_def Let_def split: option.splits node.splits)

lemma shutil_copy2_dst:
  assumes "shutil_copy2 env src dst w = Returned u w1"
  shows "fs w1 dst \<noteq> None"
  using assms
  by (auto simp: shutil_copy2_def Let_def split: option.splits node.splits if_splits)

lemma raises_os_chmod:
  "fs w p \<noteq> None \<Longrightarrow> raises (os_chmod env p m w) \<longleftrightarrow> io_fault env (Chmod p)"
  by (auto simp: os_chmod_def split: if_splits)

lemma raises_copy_asset:
  "raises (copy_asset env a t f w) \<longleftrightarrow>
     (if fs w (posix_join a f) = None
      then \<not> can_print env (RED @ (''Warning: Asset '' @ f @ '' not found in '' @ a) @ RESET)
      else raises (shutil_copy2 env (posix_join a f) (posix_join t f) w)
           \<or> io_fault env (Chmod (posix_join t f))
           \<or> \<not> can_print env (GREEN @ (''Copied '' @ f @ '' to '' @ t) @ RESET))"
proof (cases "fs w (posix_join a f) = None")
  case True
  then show ?thesis by (simp add: copy_asset_absent raises_log)
next
  case False
  let ?src = "posix_join a f" and ?dst = "posix_join t f"
  from False obtain n where n: "fs w ?src = Some n" by auto
  show ?thesis
  proof (cases "shutil_copy2 env ?src ?dst w")
    case (Returned u w1)
    from shutil_copy2_dst [OF Returned]
    have "raises (os_chmod env ?dst mode_755 w1) \<longleftrightarrow> io_fault env (Chmod ?dst)"
      by (rule raises_os_chmod)
    with Returned n show ?thesis
      unfolding copy_asset_present [OF False]
      by (simp add: and_then_Returned raises_and_then_log)
  next
    case (Raised e w1)
    with n show ?thesis
      unfolding copy_asset_present [OF False]
      by (simp add: and_then_Raised)
  qed
qed

lemma raises_copy_asset_cong:
  assumes "fs w' (posix_join a f) = fs w (posix_join a f)"
    and "fs w' (posix_join t f) = fs w (posix_join t f)"
    and "fs w' (posix_join (posix_join t f) (basename (posix_join a f)))
         = fs w (posix_join (posix_join t f) (basename (posix_join a f)))"
  shows "raises (copy_asset env a t f w') = raises (copy_asset env a t f w)"
  using raises_shutil_copy2_cong [OF assms] assms(1)
  by (simp add: raises_copy_asset)

lemma raises_setup_files:
  "raises (setup_files env w) \<longleftrightarrow>
     raises (ensure_target_dir env w)
     \<or> raises (copy_asset env (assets_dir env) (target_dir env) ''manage-secrets.sh'' w)
     \<or> raises (copy_asset env (assets_dir env) (target_dir env) ''get-secrets.js'' w)"
proof (cases "ensure_target_dir env w")
  case (Raised e w1)
  then show ?thesis
    by (simp add: setup_files_unfold and_then_def)
next
  case e: (Returned u w1)
  let ?a = "assets_dir env" and ?t = "target_dir env"
  have f1: "fs w1 q = fs w q" if "q \<noteq> ?t" for q
    using ensure_target_dir_frame [OF that, of w] e by simp
  have m: "raises (copy_asset env ?a ?t ''manage-secrets.sh'' w1)
      = raises (copy_asset env ?a ?t ''manage-secrets.sh'' w)"
    by (rule raises_copy_asset_cong)
      (simp_all only: dst_manage inner_manage, simp_all add: f1 src_manage_not_target)
  show ?thesis
  proof (cases "copy_asset env ?a ?t ''manage-secrets.sh'' w1")
    case (Raised e2 w2)
    with e m show ?thesis
      by (simp add: setup_files_unfold and_then_def)
  next
    case c: (Returned u2 w2)
    have f2: "fs w2 q = fs w1 q"
      if "q \<noteq> ?t @ ''/manage-secrets.sh''" "q \<noteq> ?t @ ''/manage-secrets.sh/manage-secrets.sh''"
      for q
      using copy_manage_frame [OF that, of ?a w1] c by simp
    have "raises (copy_asset env ?a ?t ''get-secrets.js'' w2)
        = raises (copy_asset env ?a ?t ''get-secrets.js'' w)"
      by (rule raises_copy_asset_cong)
        (simp_all only: dst_get inner_get, simp_all add: f1 f2 src_get_not_written)
    with e c m show ?thesis
      by (cases "copy_asset env ?a ?t ''get-secrets.js'' w2")
        (simp_all add: setup_files_unfold and_then_def)
  qed
qed

subsection \<open>A missing asset\<close>

lemma copy_assets_absent:
  "fs w (posix_join a f) = None \<Longrightarrow>
   copy_assets env a t (f # rest) w =
     (if can_print env (RED @ (''Warning: Asset '' @ f @ '' not found in '' @ a) @ RESET)
      then copy_assets env a t rest
             (printed (''Warning: Asset '' @ f @ '' not found in '' @ a) RED w)
      else Raised
             (UnicodeEncodeError (RED @ (''Warning: Asset '' @ f @ '' not found in '' @ a) @ RESET))
             w)"
  by (simp add: copy_asset_absent and_then_log)

lemma log_Returned:
  "log env msg color w = Returned u w' \<Longrightarrow> w' = printed msg color w"
  by (simp add: log_eq split: if_splits)

lemma setup_files_absent:
  assumes ret: "setup_files env w = Returned p w'"
    and f: "f \<in> set files_to_copy"
    and src: "fs w (posix_join (assets_dir env) f) = None"
  shows "p = target_dir env
    \<and> RED @ (''Warning: Asset '' @ f @ '' not found in '' @ assets_dir env) @ RESET \<in> set (stdout w')
    \<and> fs w' (posix_join (target_dir env) f) = fs w (posix_join (target_dir env) f)"
proof -
  let ?a = "assets_dir env" and ?t = "target_dir env"
  from ret obtain w1 w2 where p: "p = ?t"
    and e: "ensure_target_dir env w = Returned () w1"
    and c1: "copy_asset env ?a ?t ''manage-secrets.sh'' w1 = Returned () w2"
    and c2: "copy_asset env ?a ?t ''get-secrets.js'' w2 = Returned () w'"
    by (rule setup_files_Returned)
  from f consider "f = ''manage-secrets.sh''" | "f = ''get-secrets.js''"
    by (auto simp: in_files_to_copy)
  then show ?thesis
  proof cases
    case 1
    have "fs w1 (posix_join ?a f) = fs w (posix_join ?a f)"
      using ensure_target_dir_frame [of "posix_join ?a f" env w] e src_manage_not_target [of env] 1
      by simp
    with src 1 have "fs w1 (posix_join ?a ''manage-secrets.sh'') = None" by simp
    from copy_asset_absent [OF this, of env ?t] c1
    have w2: "w2 = printed (''Warning: Asset '' @ f @ '' not found in '' @ ?a) RED w1"
      using 1 by (simp add: log_Returned)
    then have "RED @ (''Warning: Asset '' @ f @ '' not found in '' @ ?a) @ RESET \<in> set (stdout w2)"
      by (simp add: stdout_printed)
    moreover have "prefix (stdout w2) (stdout w')"
      using stdout_copy_asset [of w2 env ?a ?t "''get-secrets.js''"] c2 by simp
    ultimately have line: "RED @ (''Warning: Asset '' @ f @ '' not found in '' @ ?a) @ RESET
        \<in> set (stdout w')"
      using set_mono_prefix by blast
    have "fs w1 (?t @ ''/manage-secrets.sh'') = fs w (?t @ ''/manage-secrets.sh'')"
      using ensure_target_dir_frame [of "?t @ ''/manage-secrets.sh''" env w] e by simp
    moreover have "fs w2 = fs w1" using w2 by (simp add: fs_printed)
    moreover have "fs w' (?t @ ''/manage-secrets.sh'') = fs w2 (?t @ ''/manage-secrets.sh'')"
      using copy_get_frame [of "?t @ ''/manage-secrets.sh''" env ?a w2] c2 by simp
    ultimately have "fs w' (posix_join ?t f) = fs w (posix_join ?t f)"
      using 1 by (simp add: dst_manage)
    with p line show ?thesis by simp
  next
    case 2
    let ?s = "posix_join ?a ''get-secrets.js''"
    have "fs w1 ?s = fs w ?s"
      using ensure_target_dir_frame [of ?s env w] e src_get_not_written(1) [of env] by simp
    moreover have "fs w2 ?s = fs w1 ?s"
      using copy_manage_frame [of ?s env ?a w1] c1 src_get_not_written(2,3) [of env] by simp
    ultimately have "fs w2 ?s = None" using src 2 by simp
    from copy_asset_absent [OF this, of env ?t] c2
    have w': "w' = printed (''Warning: Asset '' @ f @ '' not found in '' @ ?a) RED w2"
      using 2 by (simp add: log_Returned)
    then have line: "RED @ (''Warning: Asset '' @ f @ '' not found in '' @ ?a) @ RESET
        \<in> set (stdout w')"
      by (simp add: stdout_printed)
    have "fs w1 (?t @ ''/get-secrets.js'') = fs w (?t @ ''/get-secrets.js'')"
      using ensure_target_dir_frame [of "?t @ ''/get-secrets.js''" env w] e by simp
    moreover have "fs w2 (?t @ ''/get-secrets.js'') = fs w1 (?t @ ''/get-secrets.js'')"
      using copy_manage_frame [of "?t @ ''/get-secrets.js''" env ?a w1] c1 by simp
    moreover have "fs w' = fs w2" using w' by (simp add: fs_printed)
    ultimately have "fs w' (posix_join ?t f) = fs w (posix_join ?t f)"
      using 2 by (simp add: dst_get)
    with p line show ?thesis by simp
  qed
qed

lemma raises_setup_files_absent:
  assumes "f \<in> set files_to_copy" and "fs w (posix_join (assets_dir env) f) = None"
  shows "raises (setup_files env w) \<longleftrightarrow>
     raises (ensure_target_dir env w)
     \<or> \<not> can_print env
          (RED @ (''Warning: Asset '' @ f @ '' not found in '' @ assets_dir env) @ RESET)
     \<or> (\<exists>g \<in> set files_to_copy. g \<noteq> f
          \<and> raises (copy_asset env (assets_dir env) (target_dir env) g w))"
proof -
  from assms(2)
  have "raises (copy_asset env (assets_dir env) (target_dir env) f w) \<longleftrightarrow>
      \<not> can_print env
          (RED @ (''Warning: Asset '' @ f @ '' not found in '' @ assets_dir env) @ RESET)"
    by (simp add: raises_copy_asset)
  with assms(1) show ?thesis
    unfolding raises_setup_files in_files_to_copy files_to_copy_def by auto
qed

lemma setup_files_all_absent:
  assumes "\<forall>f \<in> set files_to_copy. fs w (posix_join (assets_dir env) f) = None"
  shows "raises (setup_files env w) \<longleftrightarrow>
     raises (ensure_target_dir env w)
     \<or> (\<exists>f \<in> set files_to_copy.
          \<not> can_print env
              (RED @ (''Warning: Asset '' @ f @ '' not found in '' @ assets_dir env) @ RESET))"
  using assms
  by (simp add: raises_setup_files raises_copy_asset files_to_copy_def)

section \<open>More facts about \<^verbatim>\<open>configure_shell\<close> and \<^verbatim>\<open>main\<close>\<close>

lemma grows_and_then:
  assumes "prefix s (stdout (world_of r))"
    and "\<And>x w1. prefix (stdout w1) (stdout (world_of (f x w1)))"
  shows "prefix s (stdout (world_of (and_then r f)))"
proof (cases r)
  case (Returned x w1)
  with assms(1) assms(2) [of w1 x] show ?thesis
    by (auto simp: and_then_def intro: prefix_order.trans)
next
  case (Raised e w1)
  with assms(1) show ?thesis by (simp add: and_then_def)
qed

lemma stdout_read_text: "stdout (world_of (read_text env p w)) = stdout w"
  by (simp add: read_text_def split: option.splits node.splits)

lemma stdout_append_text: "stdout (world_of (append_text env p t w)) = stdout w"
  by (simp add: append_text_def split: option.splits node.splits)

lemma try_configure_stdout: "prefix (stdout w) (stdout (world_of (try_configure env rc p w)))"
  unfolding try_configure_def
  by (intro grows_and_then)
    (auto simp: stdout_read_text stdout_append_text stdout_log intro!: grows_and_then)

lemma configure_shell_first_line:
  assumes "select_rc_file env = Some rc"
    and "can_print env (YELLOW @ (''Configuring '' @ rc @ ''...'') @ RESET)"
  shows "prefix (stdout w @ [YELLOW @ (''Configuring '' @ rc @ ''...'') @ RESET])
           (stdout (world_of (configure_shell env p w)))"
proof -
  let ?w = "printed (''Configuring '' @ rc @ ''...'') YELLOW w"
  have 1: "prefix (stdout ?w) (stdout (world_of (try_configure env rc p ?w)))"
    by (rule try_configure_stdout)
  have "prefix (stdout ?w) (stdout (world_of (configure_shell env p w)))"
  proof (cases "try_configure env rc p ?w")
    case (Returned u w')
    with 1 assms(2) show ?thesis
      unfolding configure_shell_classified [OF assms(1)] by simp
  next
    case (Raised e w')
    with 1 have "prefix (stdout ?w) (stdout w')" by simp
    moreover have "prefix (stdout w')
        (stdout (world_of (log env (''Failed to update '' @ rc @ '': '' @ exn_str env e) RED w')))"
      by (rule stdout_log)
    ultimately have "prefix (stdout ?w)
        (stdout (world_of (log env (''Failed to update '' @ rc @ '': '' @ exn_str env e) RED w')))"
      by (rule prefix_order.trans)
    with Raised assms(2) show ?thesis
      unfolding configure_shell_classified [OF assms(1)] by simp
  qed
  then show ?thesis by (simp add: stdout_printed)
qed

lemma configure_shell_unprintable:
  assumes "select_rc_file env = Some rc"
    and "\<not> can_print env (YELLOW @ (''Configuring '' @ rc @ ''...'') @ RESET)"
  shows "configure_shell env p w =
      Raised (UnicodeEncodeError (YELLOW @ (''Configuring '' @ rc @ ''...'') @ RESET)) w"
  using assms(2) by (simp add: configure_shell_classified [OF assms(1)])

lemma configure_shell_frame:
  assumes "select_rc_file env = Some rc" and "q \<noteq> rc"
  shows "fs (world_of (configure_shell env p w)) q = fs w q"
  using assms(2)
  by (simp add: configure_shell_fs [OF assms(1)] split: option.splits node.splits)

lemma configure_shell_present:
  assumes "select_rc_file env = Some rc" and "fs w rc = Some (File c m)" and "sublist marker c"
    and "\<not> io_fault env (OpenRead rc)"
  shows "configure_shell env p w =
     (if can_print env (YELLOW @ (''Configuring '' @ rc @ ''...'') @ RESET) then
        Returned ()
          (printed ''Configuration already exists in RC file. Skipping append.'' YELLOW
             (printed (''Configuring '' @ rc @ ''...'') YELLOW w))
      else Raised (UnicodeEncodeError (YELLOW @ (''Configuring '' @ rc @ ''...'') @ RESET)) w)"
proof -
  let ?w = "printed (''Configuring '' @ rc @ ''...'') YELLOW w"
  from assms(2) have "fs ?w rc = Some (File c m)" by (simp add: fs_printed)
  from try_configure_present [OF this assms(3,4), of p] show ?thesis
    by (simp add: configure_shell_classified [OF assms(1)])
qed

lemma configure_shell_keeps_marked:
  assumes "select_rc_file env = Some rc" and "fs w rc = Some (File c m)" and "sublist marker c"
  shows "fs (world_of (configure_shell env p w)) = fs w"
  using assms(2,3) by (simp add: configure_shell_fs [OF assms(1)])

lemma configure_shell_rc_text:
  assumes "select_rc_file env = Some rc" and "rc_text (fs w) rc = Some c0"
    and "\<not> sublist marker c0"
    and "\<not> io_fault env (OpenRead rc)" and "\<not> io_fault env (OpenAppend rc)"
    and "can_print env (YELLOW @ (''Configuring '' @ rc @ ''...'') @ RESET)"
  shows "rc_text (fs (world_of (configure_shell env p w))) rc = Some (c0 @ config_block p)"
  using assms(2-)
  by (auto simp: configure_shell_fs [OF assms(1)] rc_text_def split: option.splits node.splits)

lemma configure_shell_rc_cong:
  assumes "select_rc_file env = Some rc" and "fs w' rc = fs w rc"
  shows "fs (world_of (configure_shell env p w')) rc = fs (world_of (configure_shell env p w)) rc"
  using assms(2)
  by (simp add: configure_shell_fs [OF assms(1)] split: option.splits node.splits)

lemma try_main_fs_rc:
  assumes sel: "select_rc_file env = Some rc"
  shows "fs (world_of (try_main env w)) rc =
      (if raises (install_dependencies env w) \<or> raises (setup_files env w) then fs w rc
       else fs (world_of (configure_shell env (target_dir env) w)) rc)"
proof (cases "install_dependencies env w")
  case (Raised e w1)
  with fs_install_dependencies [of env w] show ?thesis
    by (simp add: try_main_def and_then_def)
next
  case d: (Returned u w1)
  with fs_install_dependencies [of env w] have f1: "fs w = fs w1" by simp
  then have same: "same_result (setup_files env w) (setup_files env w1)"
    by (rule same_result_setup_files)
  have rc: "fs (world_of (setup_files env w1)) rc = fs w rc"
    using setup_files_rc [OF sel, of w1] f1 by simp
  show ?thesis
  proof (cases "setup_files env w1")
    case (Raised e w2)
    with same_result_raises [OF same] have "raises (setup_files env w)" by simp
    with d Raised rc show ?thesis
      by (simp add: try_main_def and_then_def)
  next
    case s: (Returned t w2)
    with same_result_raises [OF same] have ns: "\<not> raises (setup_files env w)" by simp
    from s have t: "t = target_dir env" by (rule setup_files_Returned)
    from s rc have "fs w2 rc = fs w rc" by simp
    then have "fs (world_of (configure_shell env t w2)) rc
        = fs (world_of (configure_shell env t w)) rc"
      by (rule configure_shell_rc_cong [OF sel])
    with d s ns t show ?thesis
      by (simp add: try_main_def and_then_Returned fs_and_then_log)
  qed
qed

lemma main_fs:
  "fs (snd (main env w)) = fs (world_of (try_main env (printed banner GREEN w)))"
  by (cases "try_main env (printed banner GREEN w)") (simp_all add: main_eq fs_log)

lemma main_fs_rc:
  assumes sel: "select_rc_file env = Some rc"
  shows "fs (snd (main env w)) rc =
      (if raises (install_dependencies env w) \<or> raises (setup_files env w) then fs w rc
       else fs (world_of (configure_shell env (target_dir env) w)) rc)"
proof -
  let ?w = "printed banner GREEN w"
  have 1: "fs ?w = fs w" by (simp add: fs_printed)
  then have "raises (setup_files env ?w) = raises (setup_files env w)"
    using raises_setup_files_same_fs [of w ?w env] by simp
  moreover have "raises (install_dependencies env ?w) = raises (install_dependencies env w)"
    by (simp add: raises_install_dependencies)
  moreover have "fs (world_of (configure_shell env (target_dir env) ?w)) rc
      = fs (world_of (configure_shell env (target_dir env) w)) rc"
    by (rule configure_shell_rc_cong [OF sel]) (simp add: 1)
  ultimately show ?thesis
    by (simp add: main_fs try_main_fs_rc [OF sel] 1)
qed

lemma main_keeps_marked:
  assumes sel: "select_rc_file env = Some rc" and rc: "fs w rc = Some (File c m)"
    and mk: "sublist marker c"
  shows "fs (snd (main env w)) rc = Some (File c m)"
  using configure_shell_keeps_marked [OF sel rc mk, of "target_dir env"] rc
  by (simp add: main_fs_rc [OF sel])

lemma main_appends:
  assumes sel: "select_rc_file env = Some rc" and rc: "rc_text (fs w) rc = Some c0"
    and mk: "\<not> sublist marker c0"
    and io: "\<not> io_fault env (OpenRead rc)" "\<not> io_fault env (OpenAppend rc)"
    and ok: "fst (main env w) = 0"
  shows "rc_text (fs (snd (main env w))) rc = Some (c0 @ config_block (target_dir env))"
proof -
  from ok have "first_failure env w = None"
    by (simp add: main_exit split: if_splits)
  with first_failure_iff [of env w]
  have no: "\<not> raises (setup_files env w)" "\<not> shell_lines_fail env w"
    "\<not> (required_command_fails env \<or> optional_command_not_spawned env \<or> system_lines_fail env)"
    by auto
  from no(2) sel have cp: "can_print env (YELLOW @ (''Configuring '' @ rc @ ''...'') @ RESET)"
    by (auto simp: shell_lines_fail_def)
  from no(3) have "\<not> raises (install_dependencies env w)"
    by (simp add: raises_install_dependencies)
  with no(1) have "fs (snd (main env w)) rc
      = fs (world_of (configure_shell env (target_dir env) w)) rc"
    by (simp add: main_fs_rc [OF sel])
  with configure_shell_rc_text [OF sel rc mk io cp, of "target_dir env"] show ?thesis
    by (simp add: rc_text_def)
qed

lemma config_block_lines:
  "config_block p = NL @ concat (map (\<lambda>l. l @ NL) (block_lines p))"
  by (simp add: config_block_def config_lines_def block_lines_def)

lemma subprocess_run_SHELL:
  "subprocess_run (env\<lparr>environ_SHELL := s\<rparr>) = subprocess_run env"
  by (intro ext) (simp add: subprocess_run_def)

lemma log_SHELL: "log (env\<lparr>environ_SHELL := s\<rparr>) = log env"
  by (intro ext) (simp add: log_def can_print_def)

lemma install_dependencies_SHELL:
  "install_dependencies (env\<lparr>environ_SHELL := s\<rparr>) w = install_dependencies env w"
  by (simp add: install_dependencies_def Let_def subprocess_run_SHELL log_SHELL cong: if_cong)

lemma copy_asset_SHELL:
  "copy_asset (env\<lparr>environ_SHELL := s\<rparr>) = copy_asset env"
proof -
  have "shutil_copy2 (env\<lparr>environ_SHELL := s\<rparr>) = shutil_copy2 env"
    by (intro ext) (simp add: shutil_copy2_def Let_def cong: option.case_cong node.case_cong if_cong)
  moreover have "os_chmod (env\<lparr>environ_SHELL := s\<rparr>) = os_chmod env"
    by (intro ext) (simp add: os_chmod_def cong: option.case_cong if_cong)
  ultimately show ?thesis
    by (intro ext) (simp add: copy_asset_def Let_def log_SHELL cong: if_cong)
qed

lemma copy_assets_SHELL:
  "copy_assets (env\<lparr>environ_SHELL := s\<rparr>) a t names w = copy_assets env a t names w"
  proof (induction names arbitrary: w)
  case Nil
  show ?case by simp
next
  case (Cons f names)
  then have "copy_assets (env\<lparr>environ_SHELL := s\<rparr>) a t names = copy_assets env a t names"
    by (intro ext)
  then show ?case by (simp add: copy_asset_SHELL)
qed

lemma setup_files_SHELL:
  "setup_files (env\<lparr>environ_SHELL := s\<rparr>) = setup_files env"
proof -
  have "os_makedirs (env\<lparr>environ_SHELL := s\<rparr>) = os_makedirs env"
    by (intro ext) (simp add: os_makedirs_def cong: if_cong)
  moreover have "copy_assets (env\<lparr>environ_SHELL := s\<rparr>) = copy_assets env"
    by (intro ext) (rule copy_assets_SHELL)
  ultimately show ?thesis
    by (intro ext) (simp add: setup_files_def Let_def log_SHELL cong: if_cong)
qed

lemma command_failures_SHELL:
  "required_command_fails (env\<lparr>environ_SHELL := s\<rparr>) = required_command_fails env"
  "optional_command_not_spawned (env\<lparr>environ_SHELL := s\<rparr>) = optional_command_not_spawned env"
  "system_lines_fail (env\<lparr>environ_SHELL := s\<rparr>) = system_lines_fail env"
  "can_print (env\<lparr>environ_SHELL := s\<rparr>) = can_print env"
  by (simp_all add: required_command_fails_def optional_command_not_spawned_def
      required_commands_def optional_commands_def system_lines_fail_def can_print_def
      fun_eq_iff)

lemma rc_text_File:
  "rc_text f p = Some c \<Longrightarrow> c \<noteq> [] \<Longrightarrow> \<exists>m. f p = Some (File c m)"
  by (auto simp: rc_text_def split: option.splits node.splits)

lemma config_block_nonempty: "config_block p \<noteq> []"
  by (simp add: config_block_lines NL_def)

section \<open>The block occurs once\<close>

lemma config_block_start: "\<exists>r. config_block p = block_start @ r"
  by (simp add: config_block_def config_lines_def block_start_def)

lemma length_block_start: "length block_start = 59"
  by (simp add: block_start_def NL_def)

lemma marker_in_block_start: "sublist marker (block_start @ r)"
proof -
  have "block_start @ r = (NL @ ''# Secret Manager Configuration'' @ NL @ ''export '') @ marker @ r"
    by (simp add: block_start_def marker_def)
  then show ?thesis unfolding sublist_def by blast
qed

lemma block_start_newlines:
  assumes "k < 59" and "block_start ! k = CHR 0x0A"
  shows "k = 0 \<or> k = 31"
proof (cases k)
  case 0
  then show ?thesis by simp
next
  case (Suc j)
  let ?l1 = "''# Secret Manager Configuration''" and ?l2 = "''export SECRETS_MANAGER_PATH''"
  have n1: "CHR 0x0A \<notin> set ?l1" and n2: "CHR 0x0A \<notin> set ?l2" by simp_all
  have len: "length ?l1 = 30" "length ?l2 = 27" by simp_all
  have b: "block_start = CHR 0x0A # ?l1 @ CHR 0x0A # ?l2"
    by (simp add: block_start_def NL_def)
  from assms(2) Suc have a: "(?l1 @ CHR 0x0A # ?l2) ! j = CHR 0x0A"
    unfolding b by simp
  show ?thesis
  proof (cases "j < 30")
    case True
    with a have "?l1 ! j = CHR 0x0A" unfolding nth_append len by simp
    moreover from True have "?l1 ! j \<in> set ?l1" unfolding len [symmetric] by (intro nth_mem) simp
    ultimately show ?thesis using n1 by metis
  next
    case False
    show ?thesis
    proof (cases "j = 30")
      case True
      with Suc show ?thesis by simp
    next
      case False
      define i where "i = j - 31"
      with False \<open>\<not> j < 30\<close> have i: "j = 31 + i" by simp
      with assms(1) Suc have "i < 27" by simp
      from a i have "?l2 ! i = CHR 0x0A"
        unfolding nth_append len by simp
      moreover from \<open>i < 27\<close> have "?l2 ! i \<in> set ?l2" unfolding len [symmetric] by (intro nth_mem) simp
      ultimately show ?thesis using n2 by metis
    qed
  qed
qed

lemma block_start_no_overlap:
  assumes pre: "prefix (block_start @ r) (zs @ block_start @ r)"
    and zs: "zs \<noteq> []" "length zs < 59"
  shows False
proof -
  let ?k = "length zs"
  from pre obtain t where eq: "zs @ block_start @ r = (block_start @ r) @ t"
    by (auto simp: prefix_def)
  have at: "(block_start @ r) ! j = (zs @ block_start @ r) ! j" if "j < 59" for j
    using that unfolding eq nth_append length_block_start [symmetric] by simp
  have low: "(block_start @ r) ! j = block_start ! j" if "j < 59" for j
    using that unfolding nth_append length_block_start by simp
  have shift: "(zs @ block_start @ r) ! (?k + j) = block_start ! j" if "j < 59" for j
    using that unfolding nth_append length_block_start by simp
  from zs have k: "0 < ?k" "?k < 59" by simp_all
  have "block_start ! ?k = block_start ! 0"
    using at [OF k(2)] low [OF k(2)] shift [of 0] by simp
  also have "\<dots> = CHR 0x0A" by (simp add: block_start_def NL_def)
  finally have "?k = 0 \<or> ?k = 31" using block_start_newlines [OF k(2)] by blast
  with k have k31: "?k = 31" by simp
  have "block_start ! 32 = block_start ! 1"
    using at [of 32] low [of 32] shift [of 1] k31 by simp
  then show False by (simp add: block_start_def NL_def)
qed

lemma prefix_append_long:
  assumes "prefix xs (ys @ zs)" and "length xs \<le> length ys"
  shows "prefix xs ys"
proof -
  from assms(1) consider "prefix xs ys" | us where "xs = ys @ us"
    by (auto simp: prefix_append)
  then show ?thesis
  proof cases
    case 1
    then show ?thesis .
  next
    case 2
    with assms(2) have "us = []" by simp
    with 2 show ?thesis by simp
  qed
qed

lemma block_occurs_at:
  assumes c0: "\<not> sublist marker c0" and i: "i \<le> length (c0 @ config_block p)"
  shows "prefix (config_block p) (drop i (c0 @ config_block p)) \<longleftrightarrow> i = length c0"
proof -
  obtain r where b: "config_block p = block_start @ r"
    using config_block_start by blast
  let ?b = "block_start @ r"
  consider "i = length c0" | "length c0 < i" | "i < length c0" by linarith
  then show ?thesis
  proof cases
    case 1
    then show ?thesis by simp
  next
    case 2
    then have "length (drop i (c0 @ ?b)) < length ?b" using i b by simp
    then have "\<not> prefix ?b (drop i (c0 @ ?b))"
      using prefix_length_le by fastforce
    with 2 b show ?thesis by simp
  next
    case 3
    let ?zs = "drop i c0"
    from 3 have d: "drop i (c0 @ ?b) = ?zs @ ?b" and nz: "?zs \<noteq> []" by simp_all
    have "\<not> prefix ?b (?zs @ ?b)"
    proof
      assume pre: "prefix ?b (?zs @ ?b)"
      show False
      proof (cases "length ?zs < 59")
        case True
        with pre nz show False using block_start_no_overlap [of r ?zs] by simp
      next
        case False
        from pre have "prefix block_start (?zs @ ?b)"
          using prefix_order.trans [of block_start ?b] by simp
        with False have "prefix block_start ?zs"
          by (intro prefix_append_long [of block_start ?zs ?b]) (simp_all add: length_block_start)
        then obtain u where "?zs = block_start @ u" by (auto simp: prefix_def)
        then have "sublist marker ?zs" using marker_in_block_start [of u] by simp
        moreover have "sublist ?zs c0" by simp
        ultimately have "sublist marker c0" using sublist_order.order.trans by blast
        with c0 show False by simp
      qed
    qed
    with 3 d b show ?thesis by simp
  qed
qed

lemma filter_single_index: "n < m \<Longrightarrow> filter (\<lambda>i. i = n) [0..<m] = [n]"
proof (induction m)
  case 0
  then show ?case by simp
next
  case (Suc m)
  show ?case
  proof (cases "n = m")
    case True
    then have "filter (\<lambda>i. i = n) [0..<m] = []" by (auto simp: filter_empty_conv)
    with True show ?thesis by simp
  next
    case False
    with Suc show ?thesis by simp
  qed
qed

lemma block_occurs_once:
  assumes "\<not> sublist marker c0"
  shows "occurrences (config_block p) (c0 @ config_block p) = 1"
proof -
  let ?s = "c0 @ config_block p"
  have "filter (\<lambda>i. prefix (config_block p) (drop i ?s)) [0..<Suc (length ?s)] =
      filter (\<lambda>i. i = length c0) [0..<Suc (length ?s)]"
    using block_occurs_at [OF assms] by (intro filter_cong) auto
  also have "\<dots> = [length c0]" by (rule filter_single_index) simp
  finally show ?thesis by (simp add: occurrences_def)
qed

section \<open>Facts about the concrete surroundings\<close>

lemma prints_all: "stdout_encodes env = (\<lambda>text. True) \<Longrightarrow> can_print env t"
  by (simp add: can_print_def)

lemma all_printable:
  assumes "\<And>t. can_print env t"
  shows "\<not> system_lines_fail env" and "\<not> shell_lines_fail env w"
    and "confirm_failure env rc = None"
  using assms
  by (auto simp: system_lines_fail_def shell_lines_fail_def confirm_failure_def
      split: option.splits)

lemma env_linux_prints: "can_print env_linux t"
  by (rule prints_all) (simp add: env_linux_def)

lemma env_bare_prints: "can_print env_bare t"
  by (rule prints_all) (simp add: env_bare_def)

lemma env_linux_ok:
  "\<not> required_command_fails env_linux" "\<not> optional_command_not_spawned env_linux"
  by (simp_all add: required_command_fails_def optional_command_not_spawned_def
      required_commands_def optional_commands_def env_linux_def)

lemma env_linux_lines:
  "\<not> system_lines_fail env_linux" "\<not> shell_lines_fail env_linux w"
  by (rule all_printable, rule env_linux_prints)+

lemma env_bare_ok:
  "\<not> required_command_fails env_bare" "\<not> optional_command_not_spawned env_bare"
  by (simp_all add: required_command_fails_def optional_command_not_spawned_def
      required_commands_def optional_commands_def env_bare_def)

lemma env_bare_lines:
  "\<not> system_lines_fail env_bare" "\<not> shell_lines_fail env_bare w"
  by (rule all_printable, rule env_bare_prints)+

lemma env_linux_rc: "select_rc_file env_linux = Some ''/home/u/.bashrc''"
  by (simp add: select_rc_file_def environ_get_SHELL_def env_linux_def sublist_code
      posix_join_def)

lemma env_linux_no_files: "\<not> raises (setup_files env_linux w_empty)"
proof -
  have "\<forall>f \<in> set files_to_copy. fs w_empty (posix_join (assets_dir env_linux) f) = None"
    by (simp add: w_empty_def)
  then show ?thesis
    by (simp add: setup_files_all_absent ensure_target_dir_raises env_linux_prints)
      (simp add: env_linux_def)
qed

lemma env_bare_no_files: "\<not> raises (setup_files env_bare w_empty)"
proof -
  have "\<forall>f \<in> set files_to_copy. fs w_empty (posix_join (assets_dir env_bare) f) = None"
    by (simp add: w_empty_def)
  then show ?thesis
    by (simp add: setup_files_all_absent ensure_target_dir_raises env_bare_prints)
      (simp add: env_bare_def)
qed

section \<open>The cause of a failed run\<close>

lemma raised_subprocess_run:
  "raised (subprocess_run env argv check w) = Some e \<Longrightarrow>
   (\<exists>c. e = CalledProcessError argv c \<and> check \<and> run_proc env argv = Exited c \<and> c \<noteq> 0)
   \<or> (e = SpawnError argv \<and> run_proc env argv = NotSpawned)"
  by (cases "run_proc env argv") (auto simp: subprocess_run_def Let_def split: if_splits)

lemma raised_and_then_subprocess_run:
  assumes "raised (and_then (subprocess_run env a c w) (\<lambda>_. subprocess_run env b d)) = Some e"
  shows "raised (subprocess_run env a c w) = Some e
    \<or> (\<exists>w'. raised (subprocess_run env b d w') = Some e)"
  using assms by (cases "subprocess_run env a c w") (auto simp: and_then_def)

lemma raised_install_dependencies:
  assumes "raised (install_dependencies env w) = Some e"
  shows "command_failure env e \<or> (\<exists>t. e = UnicodeEncodeError t) \<and> system_lines_fail env"
proof -
  consider "platform_system env = ''Darwin''" | "platform_system env = ''Linux''"
    | "platform_system env = ''Windows''"
    | "platform_system env \<noteq> ''Darwin''" "platform_system env \<noteq> ''Linux''"
      "platform_system env \<noteq> ''Windows''"
    by blast
  then show ?thesis
  proof cases
    case 1
    show ?thesis
    proof (cases "truthy (shutil_which env ''brew'')")
      case True
      with assms 1 have "raised (and_then
          (subprocess_run env [''brew'', ''install'', ''--cask'', ''keepassxc''] False
             (printed ''Installing dependencies via Homebrew...'' YELLOW
                (printed ''Detected OS: Darwin'' GREEN w)))
          (\<lambda>_. subprocess_run env [''brew'', ''install'', ''jq'', ''gnupg''] True)) = Some e"
        by (simp add: install_dependencies_Darwin)
      from raised_and_then_subprocess_run [OF this] 1 True show ?thesis
        by (auto simp: command_failure_def required_commands_def optional_commands_def
            dest!: raised_subprocess_run)
    next
      case False
      with assms 1 show ?thesis by (simp add: install_dependencies_Darwin)
    qed
  next
    case 2
    show ?thesis
    proof (cases "truthy (shutil_which env ''apt-get'')")
      case True
      with assms 2 have "raised (and_then
          (subprocess_run env [''sudo'', ''apt-get'', ''update''] True
             (printed ''Installing dependencies via apt-get (sudo required)...'' YELLOW
                (printed ''Detected OS: Linux'' GREEN w)))
          (\<lambda>_. subprocess_run env
                  [''sudo'', ''apt-get'', ''install'', ''-y'', ''keepassxc'', ''jq'', ''gnupg'']
                  True)) = Some e"
        by (simp add: install_dependencies_Linux)
      from raised_and_then_subprocess_run [OF this] 2 True show ?thesis
        by (auto simp: command_failure_def required_commands_def optional_commands_def
            dest!: raised_subprocess_run)
    next
      case False
      with assms 2 show ?thesis by (simp add: install_dependencies_Linux)
    qed
  next
    case 3
    show ?thesis
    proof (cases "truthy (shutil_which env ''choco'')")
      case True
      with assms 3 have "raised
          (subprocess_run env [''choco'', ''install'', ''keepassxc'', ''jq'', ''gnupg'', ''-y''] True
            (printed ''Windows detected. Please ensure Chocolatey is installed.'' YELLOW
               (printed ''Detected OS: Windows'' GREEN w))) = Some e"
        by (simp add: install_dependencies_Windows)
      from raised_subprocess_run [OF this] 3 True show ?thesis
        by (auto simp: command_failure_def required_commands_def optional_commands_def)
    next
      case False
      with assms 3 show ?thesis by (simp add: install_dependencies_Windows)
    qed
  next
    case 4
    from assms have "raises (install_dependencies env w)"
      by (simp add: raises_iff_raised)
    with command_failures_other [OF 4] have s: "system_lines_fail env"
      by (simp add: raises_install_dependencies)
    from assms have "\<exists>t. e = UnicodeEncodeError t"
      unfolding install_dependencies_other [OF 4]
      by (auto simp: log_eq and_then_def split: if_splits)
    with s show ?thesis by simp
  qed
qed

lemma first_failure_command:
  assumes "first_failure env w = Some e"
    and "required_command_fails env \<or> optional_command_not_spawned env"
  shows "command_failure env e"
proof (cases "install_dependencies env w")
  case (Returned u w1)
  with raises_install_dependencies [of env w] assms(2) show ?thesis by simp
next
  case (Raised e' w1)
  with assms(1) have "raised (install_dependencies env w) = Some e"
    by (simp add: first_failure_def try_main_def and_then_def)
  from raised_install_dependencies [OF this] assms(2) command_failures_other [of env]
  show ?thesis
    by (auto simp: system_lines_fail_def)
qed

lemma setup_files_not_raises:
  assumes "\<not> raises (setup_files env w)"
  obtains w' where "setup_files env w = Returned (target_dir env) w'"
proof (cases "setup_files env w")
  case (Returned p w')
  moreover from Returned have "p = target_dir env" by (rule setup_files_Returned)
  ultimately show ?thesis using that by simp
next
  case (Raised e w')
  with assms show ?thesis by simp
qed

lemma w_assets_deploys: "\<not> raises (setup_files env_linux w_assets)"
  by (simp add: raises_setup_files raises_copy_asset ensure_target_dir_raises env_linux_prints)
    (simp add: shutil_copy2_def Let_def target_dir_def assets_dir_def posix_join_def
      basename_def env_linux_def w_assets_def)

lemma w_one_asset_deploys: "\<not> raises (setup_files env_linux w_one_asset)"
  by (simp add: raises_setup_files raises_copy_asset ensure_target_dir_raises env_linux_prints)
    (simp add: shutil_copy2_def Let_def target_dir_def assets_dir_def posix_join_def
      basename_def env_linux_def w_one_asset_def)

section \<open>The exit status\<close>

lemma main_exit_fails:
  "fst (main env w) =
     (if required_command_fails env \<or> optional_command_not_spawned env
         \<or> system_lines_fail env \<or> raises (setup_files env w) \<or> shell_lines_fail env w
         \<or> \<not> can_print env (GREEN @ complete_msg @ RESET) then 1 else 0)"
  using first_failure_iff [of env w] unfolding main_exit
  by (cases "first_failure env w") simp_all

lemma shell_lines_fail_unclassified:
  "select_rc_file env = None \<Longrightarrow> \<not> shell_lines_fail env w"
  by (simp add: shell_lines_fail_def)

lemma main_exit_SHELL:
  assumes "select_rc_file env = None"
  shows "fst (main (env\<lparr>environ_SHELL := s\<rparr>) w) = 0 \<Longrightarrow> fst (main env w) = 0"
    and "select_rc_file (env\<lparr>environ_SHELL := s\<rparr>) = None \<Longrightarrow>
         fst (main (env\<lparr>environ_SHELL := s\<rparr>) w) = fst (main env w)"
  using shell_lines_fail_unclassified [OF assms, of w]
    shell_lines_fail_unclassified [of "env\<lparr>environ_SHELL := s\<rparr>" w]
  by (simp_all add: main_exit_fails command_failures_SHELL setup_files_SHELL split: if_splits)
section \<open>Properties of the installer\<close>

text \<open>
  \<^bold>\<open>C1.\<close> \<^verbatim>\<open>configure_shell\<close> is idempotent. Whenever the selected resource file
  holds the marker \<^verbatim>\<open>SECRETS_MANAGER_PATH\<close>, \<^verbatim>\<open>configure_shell\<close> writes nothing, and
  when the file can be read it prints that the configuration already exists and
  returns (unless standard output cannot encode the name of the file in the line
  printed first: then that \<^verbatim>\<open>print\<close> raises, and still nothing is written). Hence two
  runs of the installer leave one block: when the first run completes on a resource file
  without the marker (a file that is not there counts as empty), the file holds its old
  text followed by one configuration block after the first run, and exactly the same
  after a second run that selects the same file; the block starts at exactly one
  position of that text.
\<close>

theorem C1_configure_shell_idempotent:
  assumes sel: "select_rc_file env = Some rc"
  shows "(\<forall>c m. fs w rc = Some (File c m) \<and> sublist marker c \<longrightarrow>
            fs (world_of (configure_shell env p w)) = fs w
            \<and> (\<not> io_fault env (OpenRead rc) \<longrightarrow>
                 configure_shell env p w =
                   (if can_print env (YELLOW @ (''Configuring '' @ rc @ ''...'') @ RESET) then
                      Returned ()
                        (printed ''Configuration already exists in RC file. Skipping append.''
                           YELLOW (printed (''Configuring '' @ rc @ ''...'') YELLOW w))
                    else
                      Raised
                        (UnicodeEncodeError (YELLOW @ (''Configuring '' @ rc @ ''...'') @ RESET))
                        w)))
    \<and> (\<forall>c0 env'. rc_text (fs w) rc = Some c0 \<and> \<not> sublist marker c0
           \<and> \<not> io_fault env (OpenRead rc) \<and> \<not> io_fault env (OpenAppend rc)
           \<and> fst (main env w) = 0 \<and> select_rc_file env' = Some rc \<longrightarrow>
          rc_text (fs (snd (main env w))) rc = Some (c0 @ config_block (target_dir env))
          \<and> rc_text (fs (snd (main env' (snd (main env w))))) rc =
              Some (c0 @ config_block (target_dir env))
          \<and> occurrences (config_block (target_dir env))
                (c0 @ config_block (target_dir env)) = 1)"
proof (intro conjI allI impI)
  fix c m
  assume a: "fs w rc = Some (File c m) \<and> sublist marker c"
  then show "fs (world_of (configure_shell env p w)) = fs w"
    using configure_shell_keeps_marked [OF sel] by blast
  assume "\<not> io_fault env (OpenRead rc)"
  with a show "configure_shell env p w =
      (if can_print env (YELLOW @ (''Configuring '' @ rc @ ''...'') @ RESET) then
         Returned ()
           (printed ''Configuration already exists in RC file. Skipping append.''
              YELLOW (printed (''Configuring '' @ rc @ ''...'') YELLOW w))
       else
         Raised (UnicodeEncodeError (YELLOW @ (''Configuring '' @ rc @ ''...'') @ RESET)) w)"
    using configure_shell_present [OF sel] by blast
next
  fix c0 env'
  assume a: "rc_text (fs w) rc = Some c0 \<and> \<not> sublist marker c0
      \<and> \<not> io_fault env (OpenRead rc) \<and> \<not> io_fault env (OpenAppend rc)
      \<and> fst (main env w) = 0 \<and> select_rc_file env' = Some rc"
  let ?b = "config_block (target_dir env)"
  from a show 1: "rc_text (fs (snd (main env w))) rc = Some (c0 @ ?b)"
    using main_appends [OF sel] by blast
  then obtain m where "fs (snd (main env w)) rc = Some (File (c0 @ ?b) m)"
    using rc_text_File [of "fs (snd (main env w))" rc "c0 @ ?b"] config_block_nonempty by auto
  moreover from a have "select_rc_file env' = Some rc" by simp
  ultimately have "fs (snd (main env' (snd (main env w)))) rc = Some (File (c0 @ ?b) m)"
    using main_keeps_marked [of env' rc "snd (main env w)" "c0 @ ?b" m] marker_in_config_block
    by simp
  then show "rc_text (fs (snd (main env' (snd (main env w))))) rc = Some (c0 @ ?b)"
    by (simp add: rc_text_def)
  from a show "occurrences ?b (c0 @ ?b) = 1"
    using block_occurs_once by blast
qed

theorem C1_configure_shell_idempotent_witness:
  "configure_shell env_linux ''/home/u/.secret-manager'' w_marked =
     Returned ()
       (printed ''Configuration already exists in RC file. Skipping append.'' YELLOW
          (printed ''Configuring /home/u/.bashrc...'' YELLOW w_marked))
   \<and> fs (world_of (configure_shell env_linux ''/home/u/.secret-manager'' w_marked)) = fs w_marked
   \<and> rc_text (fs (snd (main env_linux w_empty))) ''/home/u/.bashrc''
     = Some (config_block ''/home/u/.secret-manager'')
   \<and> rc_text (fs (snd (main env_linux (snd (main env_linux w_empty))))) ''/home/u/.bashrc''
     = Some (config_block ''/home/u/.secret-manager'')
   \<and> occurrences (config_block ''/home/u/.secret-manager'')
         (config_block ''/home/u/.secret-manager'') = 1"
proof -
  have 2: "rc_text (fs w_empty) ''/home/u/.bashrc'' = Some []"
    by (simp add: rc_text_def w_empty_def)
  have 3: "\<not> sublist marker []"
    by (simp add: marker_def)
  have 4: "\<not> io_fault env_linux (OpenRead ''/home/u/.bashrc'')"
    "\<not> io_fault env_linux (OpenAppend ''/home/u/.bashrc'')"
    by (simp_all add: env_linux_def)
  have 5: "fst (main env_linux w_empty) = 0"
    using first_failure_iff [of env_linux w_empty] env_linux_ok env_linux_lines
      env_linux_no_files env_linux_prints
    by (simp add: main_exit)
  have 6: "target_dir env_linux = ''/home/u/.secret-manager''"
    by (simp add: target_dir_def env_linux_def posix_join_def)
  have 7: "fs w_marked ''/home/u/.bashrc'' = Some (File ''export SECRETS_MANAGER_PATH=/x'' 420)"
    by (simp add: w_marked_def)
  have 8: "sublist marker ''export SECRETS_MANAGER_PATH=/x''"
    by (simp add: marker_def sublist_code)
  have 9: "can_print env_linux (YELLOW @ (''Configuring '' @ ''/home/u/.bashrc'' @ ''...'') @ RESET)"
    by (rule env_linux_prints)
  from C1_configure_shell_idempotent [OF env_linux_rc, of w_marked "''/home/u/.secret-manager''"]
    4 7 8 9
  have a: "configure_shell env_linux ''/home/u/.secret-manager'' w_marked =
      Returned ()
        (printed ''Configuration already exists in RC file. Skipping append.'' YELLOW
           (printed ''Configuring /home/u/.bashrc...'' YELLOW w_marked))
    \<and> fs (world_of (configure_shell env_linux ''/home/u/.secret-manager'' w_marked))
        = fs w_marked"
    by (simp add: fs_printed)
  from C1_configure_shell_idempotent [OF env_linux_rc, of w_empty "''/x''"]
    env_linux_rc 2 3 4 5 6
  have "rc_text (fs (snd (main env_linux w_empty))) ''/home/u/.bashrc''
      = Some (config_block ''/home/u/.secret-manager'')
    \<and> rc_text (fs (snd (main env_linux (snd (main env_linux w_empty))))) ''/home/u/.bashrc''
      = Some (config_block ''/home/u/.secret-manager'')
    \<and> occurrences (config_block ''/home/u/.secret-manager'')
          (config_block ''/home/u/.secret-manager'') = 1"
    by simp
  with a show ?thesis by blast
qed

text \<open>
  \<^bold>\<open>C2.\<close> The exit status of \<^verbatim>\<open>main\<close> is \<open>1\<close> exactly when an exception leaves one
  of the three stages or the closing \<^verbatim>\<open>print\<close>, and \<open>0\<close> otherwise. What can leave
  the stages is: a required command of the platform's branch that fails, the optional
  command when it cannot be spawned, a failure of the deployment, and a \<^verbatim>\<open>print\<close> of a
  text that standard output cannot encode (the lines that hold the name of an unknown
  system, the lines of \<^verbatim>\<open>configure_shell\<close> outside its \<^verbatim>\<open>try\<close> block, which hold the
  name of the resource file and the text of a caught exception, and the closing message,
  which is not 7-bit text). Nothing else enters: a missing package manager, a missing
  asset, an unclassifiable shell and a failure on the resource file leave the status
  \<open>0\<close> as long as the lines that report them can be printed; \<^verbatim>\<open>configure_shell\<close> is
  left by no exception other than that of \<^verbatim>\<open>print\<close>. On a standard output that
  encodes every text the status is \<open>1\<close> exactly when a command fails as above or the
  deployment raises. A run that completes ends with the success line. A failed run
  ends by printing the installation-failed line with the text of the exception that
  ended it, unless that line cannot be printed either: then the handler is left by the
  exception of \<^verbatim>\<open>print\<close> and prints nothing. When a command failed, the exception that
  ended the run names the command.
\<close>

theorem C2_exit_code:
  "fst (main env w) =
     (if required_command_fails env \<or> optional_command_not_spawned env
         \<or> system_lines_fail env \<or> raises (setup_files env w) \<or> shell_lines_fail env w
         \<or> \<not> can_print env (GREEN @ complete_msg @ RESET) then 1 else 0)
   \<and> (first_failure env w \<noteq> None \<longleftrightarrow>
        required_command_fails env \<or> optional_command_not_spawned env
        \<or> system_lines_fail env \<or> raises (setup_files env w) \<or> shell_lines_fail env w
        \<or> \<not> can_print env (GREEN @ complete_msg @ RESET))
   \<and> (raises (install_dependencies env w) \<longleftrightarrow>
        required_command_fails env \<or> optional_command_not_spawned env
        \<or> system_lines_fail env)
   \<and> (raises (configure_shell env p w) \<longleftrightarrow> shell_lines_fail env w)
   \<and> (\<forall>e. raised (configure_shell env p w) = Some e \<longrightarrow> (\<exists>t. e = UnicodeEncodeError t))
   \<and> ((\<forall>t. can_print env t) \<longrightarrow>
        (fst (main env w) = 1 \<longleftrightarrow>
           required_command_fails env \<or> optional_command_not_spawned env
           \<or> raises (setup_files env w)))
   \<and> (first_failure env w = None \<longrightarrow>
        last (stdout (snd (main env w))) = GREEN @ complete_msg @ RESET)
   \<and> (\<forall>e. first_failure env w = Some e \<longrightarrow>
        (if can_print env (RED @ (NL @ ''Installation failed: '' @ exn_str env e) @ RESET)
         then last (stdout (snd (main env w))) =
                RED @ (NL @ ''Installation failed: '' @ exn_str env e) @ RESET
         else snd (main env w) = world_of (try_main env (printed banner GREEN w))))
   \<and> (\<forall>e. first_failure env w = Some e
          \<and> (required_command_fails env \<or> optional_command_not_spawned env) \<longrightarrow>
        command_failure env e)"
proof -
  let ?fails = "required_command_fails env \<or> optional_command_not_spawned env
      \<or> system_lines_fail env \<or> raises (setup_files env w) \<or> shell_lines_fail env w
      \<or> \<not> can_print env (GREEN @ complete_msg @ RESET)"
  have ff: "first_failure env w \<noteq> None \<longleftrightarrow> ?fails"
    by (rule first_failure_iff)
  then have ex: "fst (main env w) = (if ?fails then 1 else 0)"
    unfolding main_exit by (cases "first_failure env w") simp_all
  have all: "fst (main env w) = 1 \<longleftrightarrow>
      required_command_fails env \<or> optional_command_not_spawned env \<or> raises (setup_files env w)"
    if "\<forall>t. can_print env t"
    using that all_printable(1) [of env] all_printable(2) [of env w] unfolding ex by simp
  have handler: "snd (main env w) = world_of (try_main env (printed banner GREEN w))"
    if "first_failure env w = Some e"
      "\<not> can_print env (RED @ (NL @ ''Installation failed: '' @ exn_str env e) @ RESET)" for e
  proof -
    from that(1) have "first_failure env (printed banner GREEN w) = Some e"
      by (simp add: first_failure_banner)
    then obtain w' where "try_main env (printed banner GREEN w) = Raised e w'"
      by (cases "try_main env (printed banner GREEN w)") (simp_all add: first_failure_def)
    with that(2) show ?thesis
      by (simp add: main_eq log_eq)
  qed
  have 1: "\<forall>e. raised (configure_shell env p w) = Some e \<longrightarrow> (\<exists>t. e = UnicodeEncodeError t)"
    using raised_configure_shell [of env p w] by blast
  have 2: "\<forall>e. first_failure env w = Some e \<longrightarrow>
      (if can_print env (RED @ (NL @ ''Installation failed: '' @ exn_str env e) @ RESET)
       then last (stdout (snd (main env w))) =
              RED @ (NL @ ''Installation failed: '' @ exn_str env e) @ RESET
       else snd (main env w) = world_of (try_main env (printed banner GREEN w)))"
    using main_last_line_failed [of env w] handler by simp
  have 3: "\<forall>e. first_failure env w = Some e
      \<and> (required_command_fails env \<or> optional_command_not_spawned env) \<longrightarrow>
      command_failure env e"
    using first_failure_command [of env w] by blast
  have 4: "first_failure env w = None \<longrightarrow>
      last (stdout (snd (main env w))) = GREEN @ complete_msg @ RESET"
    using main_last_line_complete [of env w] by blast
  have 5: "raises (install_dependencies env w) \<longleftrightarrow>
      required_command_fails env \<or> optional_command_not_spawned env \<or> system_lines_fail env"
    by (rule raises_install_dependencies)
  have 6: "raises (configure_shell env p w) \<longleftrightarrow> shell_lines_fail env w"
    by (rule raises_configure_shell)
  from ex ff 5 6 1 all 4 2 3 show ?thesis by blast
qed

theorem C2_exit_code_witness:
  "fst (main env_bare w_empty) = 0
   \<and> last (stdout (snd (main env_bare w_empty))) = GREEN @ complete_msg @ RESET
   \<and> fst (main env_apt_fails w_empty) = 1
   \<and> last (stdout (snd (main env_apt_fails w_empty))) =
       RED @ (NL @ ''Installation failed: error'') @ RESET
   \<and> first_failure env_apt_fails w_empty =
       Some (CalledProcessError [''sudo'', ''apt-get'', ''update''] 100)
   \<and> fst (main env_ascii_out w_empty) = 1
   \<and> last (stdout (snd (main env_ascii_out w_empty))) =
       RED @ (NL @ ''Installation failed: error'') @ RESET"
proof -
  have 1: "\<not> required_command_fails env_bare" "\<not> optional_command_not_spawned env_bare"
    "\<not> system_lines_fail env_bare" "\<not> shell_lines_fail env_bare w_empty"
    "\<not> raises (setup_files env_bare w_empty)"
    "can_print env_bare (GREEN @ complete_msg @ RESET)"
    by (rule env_bare_ok env_bare_lines env_bare_no_files env_bare_prints)+
  have 3: "required_command_fails env_apt_fails"
    "\<not> optional_command_not_spawned env_apt_fails"
    by (simp_all add: required_command_fails_def optional_command_not_spawned_def
        required_commands_def optional_commands_def env_apt_fails_def env_linux_def)
  have 4: "exn_str env_apt_fails = (\<lambda>e. ''error'')" "exn_str env_ascii_out = (\<lambda>e. ''error'')"
    by (simp_all add: env_apt_fails_def env_linux_def env_ascii_out_def env_bare_def)
  have 5: "command_failure env_apt_fails e \<longleftrightarrow>
      e = CalledProcessError [''sudo'', ''apt-get'', ''update''] 100" for e
    by (auto simp: command_failure_def required_commands_def optional_commands_def
        env_apt_fails_def env_linux_def)
  have 6: "can_print env (RED @ (NL @ ''Installation failed: '' @ ''error'') @ RESET)" for env
    by (rule can_print_ascii [OF is_ascii_colors(3)]) (simp add: is_ascii_def NL_def)
  have 7: "\<not> can_print env_ascii_out (GREEN @ complete_msg @ RESET)"
    using complete_msg_not_ascii by (simp add: can_print_def env_ascii_out_def)
  from C2_exit_code [of env_bare w_empty "''/x''"] 1
  have a: "fst (main env_bare w_empty) = 0
      \<and> last (stdout (snd (main env_bare w_empty))) = GREEN @ complete_msg @ RESET"
    by simp
  from C2_exit_code [of env_apt_fails w_empty "''/x''"] 3
  obtain e where e: "first_failure env_apt_fails w_empty = Some e"
    and e1: "fst (main env_apt_fails w_empty) = 1"
    by auto
  from C2_exit_code [of env_apt_fails w_empty "''/x''"] 3 e 6 [of env_apt_fails]
  have "command_failure env_apt_fails e
      \<and> last (stdout (snd (main env_apt_fails w_empty))) =
          RED @ (NL @ ''Installation failed: error'') @ RESET"
    unfolding 4 by simp
  with e e1 have b: "fst (main env_apt_fails w_empty) = 1
      \<and> last (stdout (snd (main env_apt_fails w_empty))) =
          RED @ (NL @ ''Installation failed: error'') @ RESET
      \<and> first_failure env_apt_fails w_empty =
          Some (CalledProcessError [''sudo'', ''apt-get'', ''update''] 100)"
    by (simp add: 5)
  from C2_exit_code [of env_ascii_out w_empty "''/x''"] 7
  obtain e' where e': "first_failure env_ascii_out w_empty = Some e'"
    and e1': "fst (main env_ascii_out w_empty) = 1"
    by auto
  from C2_exit_code [of env_ascii_out w_empty "''/x''"] e' 6 [of env_ascii_out]
  have "last (stdout (snd (main env_ascii_out w_empty))) =
      RED @ (NL @ ''Installation failed: error'') @ RESET"
    unfolding 4 by simp
  with a b e1' show ?thesis by blast
qed

text \<open>
  \<^bold>\<open>C3.\<close> The specification has a command run with \<^verbatim>\<open>check=False\<close> that exits
  non-zero reported as a warning. The code prints nothing for it: at a cask install
  that exits with status \<open>1\<close> the call leaves the output as it was, and the dependency
  stage prints the same two lines as when the cask install succeeds.
\<close>

theorem C3_optional_failure_counterexample:
  "run_proc env_mac [''brew'', ''install'', ''--cask'', ''keepassxc''] = Exited 1
   \<and> stdout (world_of (subprocess_run env_mac [''brew'', ''install'', ''--cask'', ''keepassxc'']
                          False w_empty)) = stdout w_empty
   \<and> stdout (world_of (install_dependencies env_mac w_empty)) =
       [GREEN @ ''Detected OS: Darwin'' @ RESET,
        YELLOW @ ''Installing dependencies via Homebrew...'' @ RESET]
   \<and> stdout (world_of (install_dependencies env_mac w_empty)) =
       stdout (world_of (install_dependencies env_mac_ok w_empty))"
proof -
  have 1: "platform_system env_mac = ''Darwin''" "truthy (shutil_which env_mac ''brew'')"
    "run_proc env_mac [''brew'', ''install'', ''--cask'', ''keepassxc''] = Exited 1"
    "run_proc env_mac [''brew'', ''install'', ''jq'', ''gnupg''] = Exited 0"
    by (simp_all add: env_mac_def)
  have 2: "platform_system env_mac_ok = ''Darwin''"
    "truthy (shutil_which env_mac_ok ''brew'')"
    "run_proc env_mac_ok = (\<lambda>argv. Exited 0)"
    by (simp_all add: env_mac_ok_def env_mac_def)
  show ?thesis
    using 1 2(3)
    by (simp add: install_dependencies_Darwin [OF 1(1)] install_dependencies_Darwin [OF 2(1)] 2(2)
        subprocess_run_def and_then_def stdout_printed w_empty_def)
qed

text \<open>
  \<^bold>\<open>C3, as the code has it.\<close> A command run with \<^verbatim>\<open>check=False\<close> that exits with any
  status, zero or not, prints nothing and execution continues. In particular, on macOS
  with Homebrew, after the optional cask install has exited with whatever status, the
  installer goes on to the required \<^verbatim>\<open>brew install jq gnupg\<close> in a world that does not
  depend on that status.
\<close>

theorem C3_optional_failure_silent:
  "(run_proc env argv = Exited c \<longrightarrow>
      subprocess_run env argv False w = Returned () (w\<lparr>spawned := spawned w @ [argv]\<rparr>))
   \<and> (platform_system env = ''Darwin'' \<and> truthy (shutil_which env ''brew'')
        \<and> run_proc env [''brew'', ''install'', ''--cask'', ''keepassxc''] = Exited c \<longrightarrow>
      install_dependencies env w =
        subprocess_run env [''brew'', ''install'', ''jq'', ''gnupg''] True
          ((printed ''Installing dependencies via Homebrew...'' YELLOW
              (printed ''Detected OS: Darwin'' GREEN w))
           \<lparr>spawned := spawned w @ [[''brew'', ''install'', ''--cask'', ''keepassxc'']]\<rparr>))"
  by (simp add: install_dependencies_Darwin subprocess_run_def and_then_def spawned_printed)

theorem C3_optional_failure_silent_witness:
  "subprocess_run env_mac [''brew'', ''install'', ''--cask'', ''keepassxc''] False w_empty =
     Returned () (w_empty\<lparr>spawned := [[''brew'', ''install'', ''--cask'', ''keepassxc'']]\<rparr>)
   \<and> install_dependencies env_mac w_empty =
       subprocess_run env_mac [''brew'', ''install'', ''jq'', ''gnupg''] True
         ((printed ''Installing dependencies via Homebrew...'' YELLOW
             (printed ''Detected OS: Darwin'' GREEN w_empty))
          \<lparr>spawned := [[''brew'', ''install'', ''--cask'', ''keepassxc'']]\<rparr>)"
proof -
  have 1: "platform_system env_mac = ''Darwin''" "truthy (shutil_which env_mac ''brew'')"
    "run_proc env_mac [''brew'', ''install'', ''--cask'', ''keepassxc''] = Exited 1"
    by (simp_all add: env_mac_def)
  have 2: "spawned w_empty = []" by (simp add: w_empty_def)
  from C3_optional_failure_silent
    [of env_mac "[''brew'', ''install'', ''--cask'', ''keepassxc'']" 1 w_empty] 1 2
  show ?thesis by simp
qed

text \<open>
  \<^bold>\<open>C4.\<close> On every platform, when the package manager of that platform is not on the
  search path, \<^verbatim>\<open>install_dependencies\<close> spawns no command and changes no file: it only
  prints the detected system and the guidance for a manual installation, and returns.
  (On Linux without \<^verbatim>\<open>apt-get\<close> and on any other system than the three named ones
  there is no package manager to look for.) It returns without raising on the three
  named systems, and on any other system whose name is 7-bit text; in general it raises
  exactly when one of the two lines that hold the name of an unknown system cannot be
  encoded by standard output, and what it raises then is the exception of \<^verbatim>\<open>print\<close>.
\<close>

theorem C4_absent_package_manager:
  "(platform_system env = ''Darwin'' \<and> shutil_which env ''brew'' = None \<longrightarrow>
      install_dependencies env w =
        Returned ()
          (printed ''Homebrew not found. Please install keepassxc, jq, and gnupg manually.'' RED
             (printed ''Detected OS: Darwin'' GREEN w)))
   \<and> (platform_system env = ''Linux'' \<and> shutil_which env ''apt-get'' = None \<longrightarrow>
      install_dependencies env w =
        Returned ()
          (printed ''apt-get not found. Please install keepassxc, jq, and gnupg manually.'' RED
             (printed ''Detected OS: Linux'' GREEN w)))
   \<and> (platform_system env = ''Windows'' \<and> shutil_which env ''choco'' = None \<longrightarrow>
      install_dependencies env w =
        Returned ()
          (printed ''Chocolatey not found. Please install keepassxc, jq, and gpg4win manually.''
             RED
             (printed ''Windows detected. Please ensure Chocolatey is installed.'' YELLOW
                (printed ''Detected OS: Windows'' GREEN w))))
   \<and> (platform_system env \<noteq> ''Darwin'' \<and> platform_system env \<noteq> ''Linux''
        \<and> platform_system env \<noteq> ''Windows'' \<and> \<not> system_lines_fail env \<longrightarrow>
      install_dependencies env w =
        Returned ()
          (printed (''Unsupported OS: '' @ platform_system env
                      @ ''. Please manually install keepassxc, jq, and gnupg.'') RED
             (printed (''Detected OS: '' @ platform_system env) GREEN w)))
   \<and> ((platform_system env = ''Darwin'' \<longrightarrow> shutil_which env ''brew'' = None)
        \<and> (platform_system env = ''Linux'' \<longrightarrow> shutil_which env ''apt-get'' = None)
        \<and> (platform_system env = ''Windows'' \<longrightarrow> shutil_which env ''choco'' = None) \<longrightarrow>
      (raises (install_dependencies env w) \<longleftrightarrow> system_lines_fail env)
      \<and> (\<forall>e. raised (install_dependencies env w) = Some e \<longrightarrow> (\<exists>t. e = UnicodeEncodeError t))
      \<and> spawned (world_of (install_dependencies env w)) = spawned w
      \<and> fs (world_of (install_dependencies env w)) = fs w)
   \<and> (platform_system env = ''Darwin'' \<or> platform_system env = ''Linux''
        \<or> platform_system env = ''Windows'' \<or> is_ascii (platform_system env) \<longrightarrow>
      \<not> system_lines_fail env)"
proof -
  have ascii: "\<not> system_lines_fail env" if "is_ascii (platform_system env)"
  proof -
    have "can_print env (GREEN @ (''Detected OS: '' @ platform_system env) @ RESET)"
      using that by (intro can_print_ascii is_ascii_colors) (simp add: is_ascii_def)
    moreover have "can_print env
        (RED @ (''Unsupported OS: '' @ platform_system env
                  @ ''. Please manually install keepassxc, jq, and gnupg.'') @ RESET)"
      using that by (intro can_print_ascii is_ascii_colors) (simp add: is_ascii_def)
    ultimately show ?thesis by (simp add: system_lines_fail_def)
  qed
  have last: "platform_system env = ''Darwin'' \<or> platform_system env = ''Linux''
      \<or> platform_system env = ''Windows'' \<or> is_ascii (platform_system env) \<longrightarrow>
      \<not> system_lines_fail env"
    using ascii system_lines_fail_named [of env] by blast
  consider "platform_system env = ''Darwin''" | "platform_system env = ''Linux''"
    | "platform_system env = ''Windows''"
    | "platform_system env \<noteq> ''Darwin''" "platform_system env \<noteq> ''Linux''"
      "platform_system env \<noteq> ''Windows''"
    by blast
  then have "(platform_system env = ''Darwin'' \<and> shutil_which env ''brew'' = None \<longrightarrow>
      install_dependencies env w =
        Returned ()
          (printed ''Homebrew not found. Please install keepassxc, jq, and gnupg manually.'' RED
             (printed ''Detected OS: Darwin'' GREEN w)))
   \<and> (platform_system env = ''Linux'' \<and> shutil_which env ''apt-get'' = None \<longrightarrow>
      install_dependencies env w =
        Returned ()
          (printed ''apt-get not found. Please install keepassxc, jq, and gnupg manually.'' RED
             (printed ''Detected OS: Linux'' GREEN w)))
   \<and> (platform_system env = ''Windows'' \<and> shutil_which env ''choco'' = None \<longrightarrow>
      install_dependencies env w =
        Returned ()
          (printed ''Chocolatey not found. Please install keepassxc, jq, and gpg4win manually.''
             RED
             (printed ''Windows detected. Please ensure Chocolatey is installed.'' YELLOW
                (printed ''Detected OS: Windows'' GREEN w))))
   \<and> (platform_system env \<noteq> ''Darwin'' \<and> platform_system env \<noteq> ''Linux''
        \<and> platform_system env \<noteq> ''Windows'' \<and> \<not> system_lines_fail env \<longrightarrow>
      install_dependencies env w =
        Returned ()
          (printed (''Unsupported OS: '' @ platform_system env
                      @ ''. Please manually install keepassxc, jq, and gnupg.'') RED
             (printed (''Detected OS: '' @ platform_system env) GREEN w)))
   \<and> ((platform_system env = ''Darwin'' \<longrightarrow> shutil_which env ''brew'' = None)
        \<and> (platform_system env = ''Linux'' \<longrightarrow> shutil_which env ''apt-get'' = None)
        \<and> (platform_system env = ''Windows'' \<longrightarrow> shutil_which env ''choco'' = None) \<longrightarrow>
      (raises (install_dependencies env w) \<longleftrightarrow> system_lines_fail env)
      \<and> (\<forall>e. raised (install_dependencies env w) = Some e \<longrightarrow> (\<exists>t. e = UnicodeEncodeError t))
      \<and> spawned (world_of (install_dependencies env w)) = spawned w
      \<and> fs (world_of (install_dependencies env w)) = fs w)"
  proof cases
    case 1
    then show ?thesis
      using system_lines_fail_named [of env]
      by (simp add: install_dependencies_Darwin spawned_printed fs_printed)
  next
    case 2
    then show ?thesis
      using system_lines_fail_named [of env]
      by (simp add: install_dependencies_Linux spawned_printed fs_printed)
  next
    case 3
    then show ?thesis
      using system_lines_fail_named [of env]
      by (simp add: install_dependencies_Windows spawned_printed fs_printed)
  next
    case 4
    have "raises (install_dependencies env w) \<longleftrightarrow> system_lines_fail env"
      using command_failures_other [OF 4] by (simp add: raises_install_dependencies)
    moreover have "\<exists>t. e = UnicodeEncodeError t"
      if "raised (install_dependencies env w) = Some e" for e
    proof -
      have "\<not> command_failure env e"
        using 4 by (simp add: command_failure_def required_commands_def optional_commands_def)
      with raised_install_dependencies [OF that] show ?thesis by blast
    qed
    moreover have "spawned (world_of (install_dependencies env w)) = spawned w"
      by (simp add: install_dependencies_other [OF 4] spawned_and_then_log spawned_log)
    moreover have "install_dependencies env w =
        Returned ()
          (printed (''Unsupported OS: '' @ platform_system env
                      @ ''. Please manually install keepassxc, jq, and gnupg.'') RED
             (printed (''Detected OS: '' @ platform_system env) GREEN w))"
      if "\<not> system_lines_fail env"
      using that 4
      by (simp add: install_dependencies_other [OF 4] system_lines_fail_def log_eq
          and_then_Returned)
    ultimately show ?thesis
      using 4 by (simp add: fs_install_dependencies)
  qed
  with last show ?thesis by blast
qed

theorem C4_absent_package_manager_witness:
  "install_dependencies env_bare w_empty =
     Returned ()
       (printed ''apt-get not found. Please install keepassxc, jq, and gnupg manually.'' RED
          (printed ''Detected OS: Linux'' GREEN w_empty))
   \<and> install_dependencies (env_bare\<lparr>platform_system := ''Darwin''\<rparr>) w_empty =
       Returned ()
         (printed ''Homebrew not found. Please install keepassxc, jq, and gnupg manually.'' RED
            (printed ''Detected OS: Darwin'' GREEN w_empty))
   \<and> install_dependencies (env_bare\<lparr>platform_system := ''Windows''\<rparr>) w_empty =
       Returned ()
         (printed ''Chocolatey not found. Please install keepassxc, jq, and gpg4win manually.''
            RED
            (printed ''Windows detected. Please ensure Chocolatey is installed.'' YELLOW
               (printed ''Detected OS: Windows'' GREEN w_empty)))
   \<and> install_dependencies (env_ascii_out\<lparr>platform_system := ''FreeBSD''\<rparr>) w_empty =
       Returned ()
         (printed ''Unsupported OS: FreeBSD. Please manually install keepassxc, jq, and gnupg.''
            RED (printed ''Detected OS: FreeBSD'' GREEN w_empty))
   \<and> \<not> raises (install_dependencies env_bare w_empty)
   \<and> spawned (world_of (install_dependencies env_bare w_empty)) = []"
proof -
  have 1: "platform_system env_bare = ''Linux''" and 2: "shutil_which env_bare ''apt-get'' = None"
    and 3: "shutil_which env_bare ''brew'' = None" and 4: "shutil_which env_bare ''choco'' = None"
    by (simp_all add: env_bare_def)
  have 5: "spawned w_empty = []" by (simp add: w_empty_def)
  have 6: "is_ascii (platform_system (env_ascii_out\<lparr>platform_system := ''FreeBSD''\<rparr>))"
    by (simp add: is_ascii_def)
  from C4_absent_package_manager [of env_bare w_empty] 1 2 3 4 5
  have a: "install_dependencies env_bare w_empty =
      Returned ()
        (printed ''apt-get not found. Please install keepassxc, jq, and gnupg manually.'' RED
           (printed ''Detected OS: Linux'' GREEN w_empty))
    \<and> \<not> raises (install_dependencies env_bare w_empty)
    \<and> spawned (world_of (install_dependencies env_bare w_empty)) = []"
    by (simp add: spawned_printed)
  from C4_absent_package_manager [of "env_bare\<lparr>platform_system := ''Darwin''\<rparr>" w_empty] 3
  have b: "install_dependencies (env_bare\<lparr>platform_system := ''Darwin''\<rparr>) w_empty =
      Returned ()
        (printed ''Homebrew not found. Please install keepassxc, jq, and gnupg manually.'' RED
           (printed ''Detected OS: Darwin'' GREEN w_empty))"
    by simp
  from C4_absent_package_manager [of "env_bare\<lparr>platform_system := ''Windows''\<rparr>" w_empty] 4
  have c: "install_dependencies (env_bare\<lparr>platform_system := ''Windows''\<rparr>) w_empty =
      Returned ()
        (printed ''Chocolatey not found. Please install keepassxc, jq, and gpg4win manually.''
           RED
           (printed ''Windows detected. Please ensure Chocolatey is installed.'' YELLOW
              (printed ''Detected OS: Windows'' GREEN w_empty)))"
    by simp
  from C4_absent_package_manager [of "env_ascii_out\<lparr>platform_system := ''FreeBSD''\<rparr>" w_empty] 6
  have d: "install_dependencies (env_ascii_out\<lparr>platform_system := ''FreeBSD''\<rparr>) w_empty =
      Returned ()
        (printed ''Unsupported OS: FreeBSD. Please manually install keepassxc, jq, and gnupg.''
           RED (printed ''Detected OS: FreeBSD'' GREEN w_empty))"
    by simp
  from a b c d show ?thesis by blast
qed

text \<open>
  \<^bold>\<open>C5.\<close> The shell is classified by substring on \<^verbatim>\<open>SHELL\<close>, case-sensitively,
  \<^verbatim>\<open>zsh\<close> before \<^verbatim>\<open>bash\<close>: a value containing \<^verbatim>\<open>zsh\<close> selects \<^verbatim>\<open>.zshrc\<close> in the
  home directory; a value containing \<^verbatim>\<open>bash\<close> and not \<^verbatim>\<open>zsh\<close> selects
  \<^verbatim>\<open>.bash_profile\<close> on Darwin and \<^verbatim>\<open>.bashrc\<close> elsewhere; any other value makes
  \<^verbatim>\<open>configure_shell\<close> print its one message, change no file and return. The selected
  file is the one \<^verbatim>\<open>configure_shell\<close> announces in the line it prints first (when
  standard output cannot encode that line, \<^verbatim>\<open>configure_shell\<close> is left by the exception
  of \<^verbatim>\<open>print\<close> with the world as it was) and the only one it can change.
\<close>

theorem C5_shell_classification:
  "(sublist ''zsh'' (environ_get_SHELL env) \<longrightarrow>
      select_rc_file env = Some (posix_join (expanduser_home env) ''.zshrc''))
   \<and> (\<not> sublist ''zsh'' (environ_get_SHELL env) \<and> sublist ''bash'' (environ_get_SHELL env) \<longrightarrow>
      select_rc_file env =
        Some (posix_join (expanduser_home env)
                (if platform_system env = ''Darwin'' then ''.bash_profile'' else ''.bashrc'')))
   \<and> (\<not> sublist ''zsh'' (environ_get_SHELL env) \<and> \<not> sublist ''bash'' (environ_get_SHELL env) \<longrightarrow>
      select_rc_file env = None
      \<and> configure_shell env p w =
          Returned ()
            (printed ''Could not detect shell RC file. Please manually add configuration.'' RED w)
      \<and> fs (world_of (configure_shell env p w)) = fs w)
   \<and> (\<forall>rc. select_rc_file env = Some rc \<longrightarrow>
        (if can_print env (YELLOW @ (''Configuring '' @ rc @ ''...'') @ RESET)
         then prefix (stdout w @ [YELLOW @ (''Configuring '' @ rc @ ''...'') @ RESET])
                (stdout (world_of (configure_shell env p w)))
         else configure_shell env p w =
                Raised (UnicodeEncodeError (YELLOW @ (''Configuring '' @ rc @ ''...'') @ RESET)) w)
        \<and> (\<forall>q. q \<noteq> rc \<longrightarrow> fs (world_of (configure_shell env p w)) q = fs w q))"
proof -
  have none: "select_rc_file env = None"
    if "\<not> sublist ''zsh'' (environ_get_SHELL env)" "\<not> sublist ''bash'' (environ_get_SHELL env)"
    using that by (simp add: select_rc_file_def Let_def)
  have 1: "sublist ''zsh'' (environ_get_SHELL env) \<longrightarrow>
      select_rc_file env = Some (posix_join (expanduser_home env) ''.zshrc'')"
    by (simp add: select_rc_file_def Let_def)
  have 2: "\<not> sublist ''zsh'' (environ_get_SHELL env) \<and> sublist ''bash'' (environ_get_SHELL env) \<longrightarrow>
      select_rc_file env =
        Some (posix_join (expanduser_home env)
                (if platform_system env = ''Darwin'' then ''.bash_profile'' else ''.bashrc''))"
    by (simp add: select_rc_file_def Let_def)
  have 3: "\<not> sublist ''zsh'' (environ_get_SHELL env) \<and> \<not> sublist ''bash'' (environ_get_SHELL env) \<longrightarrow>
      select_rc_file env = None
      \<and> configure_shell env p w =
          Returned ()
            (printed ''Could not detect shell RC file. Please manually add configuration.'' RED w)
      \<and> fs (world_of (configure_shell env p w)) = fs w"
    using none by (auto simp: configure_shell_unclassified fs_printed)
  have 4: "\<forall>rc. select_rc_file env = Some rc \<longrightarrow>
        (if can_print env (YELLOW @ (''Configuring '' @ rc @ ''...'') @ RESET)
         then prefix (stdout w @ [YELLOW @ (''Configuring '' @ rc @ ''...'') @ RESET])
                (stdout (world_of (configure_shell env p w)))
         else configure_shell env p w =
                Raised (UnicodeEncodeError (YELLOW @ (''Configuring '' @ rc @ ''...'') @ RESET)) w)
        \<and> (\<forall>q. q \<noteq> rc \<longrightarrow> fs (world_of (configure_shell env p w)) q = fs w q)"
    using configure_shell_first_line [of env _ w p] configure_shell_unprintable [of env _ p w]
      configure_shell_frame [of env _ _ p w]
    by simp
  from 1 2 3 4 show ?thesis by blast
qed

theorem C5_shell_classification_witness:
  "select_rc_file env_mac = Some ''/Users/u/.zshrc''
   \<and> select_rc_file env_linux = Some ''/home/u/.bashrc''
   \<and> select_rc_file (env_mac\<lparr>environ_SHELL := Some ''/bin/bash''\<rparr>) = Some ''/Users/u/.bash_profile''
   \<and> select_rc_file (env_mac\<lparr>environ_SHELL := Some ''/bin/zsh-bash''\<rparr>) = Some ''/Users/u/.zshrc''
   \<and> configure_shell (env_linux\<lparr>environ_SHELL := Some ''/bin/ZSH''\<rparr>) ''/x'' w_empty =
       Returned ()
         (printed ''Could not detect shell RC file. Please manually add configuration.'' RED
            w_empty)
   \<and> prefix [YELLOW @ ''Configuring /home/u/.bashrc...'' @ RESET]
         (stdout (world_of (configure_shell env_linux ''/x'' w_empty)))
   \<and> fs (world_of (configure_shell env_linux ''/x'' w_empty)) ''/home/u/.zshrc'' = None"
proof -
  let ?mac_bash = "env_mac\<lparr>environ_SHELL := Some ''/bin/bash''\<rparr>"
  let ?mac_both = "env_mac\<lparr>environ_SHELL := Some ''/bin/zsh-bash''\<rparr>"
  let ?linux_upper = "env_linux\<lparr>environ_SHELL := Some ''/bin/ZSH''\<rparr>"
  have 1: "sublist ''zsh'' (environ_get_SHELL env_mac)"
    by (simp add: env_mac_def environ_get_SHELL_def sublist_code)
  have 2: "\<not> sublist ''zsh'' (environ_get_SHELL env_linux)"
    "sublist ''bash'' (environ_get_SHELL env_linux)"
    by (simp_all add: env_linux_def environ_get_SHELL_def sublist_code)
  have 3: "\<not> sublist ''zsh'' (environ_get_SHELL ?mac_bash)"
    "sublist ''bash'' (environ_get_SHELL ?mac_bash)"
    by (simp_all add: environ_get_SHELL_def sublist_code)
  have 4: "sublist ''zsh'' (environ_get_SHELL ?mac_both)"
    by (simp add: environ_get_SHELL_def sublist_code)
  have 5: "\<not> sublist ''zsh'' (environ_get_SHELL ?linux_upper)"
    "\<not> sublist ''bash'' (environ_get_SHELL ?linux_upper)"
    by (simp_all add: environ_get_SHELL_def sublist_code)
  have home: "posix_join (expanduser_home env_mac) ''.zshrc'' = ''/Users/u/.zshrc''"
    "posix_join (expanduser_home env_linux) ''.bashrc'' = ''/home/u/.bashrc''"
    "posix_join (expanduser_home ?mac_bash) ''.bash_profile'' = ''/Users/u/.bash_profile''"
    "posix_join (expanduser_home ?mac_both) ''.zshrc'' = ''/Users/u/.zshrc''"
    by (simp_all add: env_mac_def env_linux_def posix_join_def)
  have sys: "platform_system env_linux \<noteq> ''Darwin''" "platform_system ?mac_bash = ''Darwin''"
    by (simp_all add: env_mac_def env_linux_def)
  from C5_shell_classification [of env_mac "''/x''" w_empty] 1 home
  have a: "select_rc_file env_mac = Some ''/Users/u/.zshrc''" by simp
  from C5_shell_classification [of env_linux "''/x''" w_empty] 2 home sys
  have b: "select_rc_file env_linux = Some ''/home/u/.bashrc''" by simp
  from C5_shell_classification [of ?mac_bash "''/x''" w_empty] 3 home sys
  have c: "select_rc_file ?mac_bash = Some ''/Users/u/.bash_profile''" by simp
  from C5_shell_classification [of ?mac_both "''/x''" w_empty] 4 home
  have d: "select_rc_file ?mac_both = Some ''/Users/u/.zshrc''" by simp
  from C5_shell_classification [of ?linux_upper "''/x''" w_empty] 5
  have e: "configure_shell ?linux_upper ''/x'' w_empty =
      Returned ()
        (printed ''Could not detect shell RC file. Please manually add configuration.'' RED
           w_empty)"
    by simp
  have w: "stdout w_empty = []" "fs w_empty ''/home/u/.zshrc'' = None"
    by (simp_all add: w_empty_def)
  have cp: "can_print env_linux (YELLOW @ (''Configuring '' @ ''/home/u/.bashrc'' @ ''...'') @ RESET)"
    by (rule env_linux_prints)
  from C5_shell_classification [of env_linux "''/x''" w_empty] b cp
  have "prefix (stdout w_empty @ [YELLOW @ (''Configuring '' @ ''/home/u/.bashrc'' @ ''...'') @ RESET])
         (stdout (world_of (configure_shell env_linux ''/x'' w_empty)))
      \<and> fs (world_of (configure_shell env_linux ''/x'' w_empty)) ''/home/u/.zshrc''
          = fs w_empty ''/home/u/.zshrc''"
    by simp
  with w have f: "prefix [YELLOW @ ''Configuring /home/u/.bashrc...'' @ RESET]
         (stdout (world_of (configure_shell env_linux ''/x'' w_empty)))
      \<and> fs (world_of (configure_shell env_linux ''/x'' w_empty)) ''/home/u/.zshrc'' = None"
    by simp
  from a b c d e f show ?thesis by blast
qed

text \<open>
  \<^bold>\<open>C6.\<close> When the marker is not in the resource file (a file that is not there counts as
  empty) and the file can be opened, \<^verbatim>\<open>configure_shell\<close> appends one newline followed
  by exactly five lines, each ended by a newline: the comment header, the export of
  \<^verbatim>\<open>SECRETS_MANAGER_PATH\<close> bound to the install path followed by
  \<^verbatim>\<open>/manage-secrets.sh\<close>, and the three aliases. A file that was not there is created
  with this text. (The append is reached once the line that announces the file has been
  printed; on a standard output that cannot encode that line nothing is appended.)
\<close>

theorem C6_config_block:
  assumes "select_rc_file env = Some rc" and "rc_text (fs w) rc = Some c0"
    and "\<not> sublist marker c0"
    and "\<not> io_fault env (OpenRead rc)" and "\<not> io_fault env (OpenAppend rc)"
  shows "rc_text (fs (world_of (configure_shell env p w))) rc =
      Some (c0 @ (if can_print env (YELLOW @ (''Configuring '' @ rc @ ''...'') @ RESET)
                  then NL @ concat (map (\<lambda>l. l @ NL) (block_lines p)) else []))
    \<and> length (block_lines p) = 5
    \<and> (fs w rc = None
         \<and> can_print env (YELLOW @ (''Configuring '' @ rc @ ''...'') @ RESET) \<longrightarrow>
         fs (world_of (configure_shell env p w)) rc =
           Some (File (NL @ concat (map (\<lambda>l. l @ NL) (block_lines p))) (new_file_mode env)))"
proof -
  let ?cp = "can_print env (YELLOW @ (''Configuring '' @ rc @ ''...'') @ RESET)"
  have "fs (world_of (configure_shell env p w)) rc
      = Some (File (config_block p) (new_file_mode env))"
    if "fs w rc = None" ?cp
    using that assms(5) by (simp add: configure_shell_fs [OF assms(1)])
  moreover have "length (block_lines p) = 5"
    by (simp add: block_lines_def)
  moreover have "rc_text (fs (world_of (configure_shell env p w))) rc = Some (c0 @ config_block p)"
    if ?cp
    using configure_shell_rc_text [OF assms that, of p] .
  moreover have "rc_text (fs (world_of (configure_shell env p w))) rc = Some c0"
    if "\<not> ?cp"
    using that assms(2) by (simp add: configure_shell_fs [OF assms(1)])
  ultimately show ?thesis
    by (simp add: config_block_lines)
qed

theorem C6_config_block_witness:
  "fs (world_of (configure_shell env_linux ''/home/u/.secret-manager'' w_empty)) ''/home/u/.bashrc'' =
     Some (File (NL @ ''# Secret Manager Configuration'' @ NL
                 @ ''export SECRETS_MANAGER_PATH='' @ [CHR 0x22]
                 @ ''/home/u/.secret-manager/manage-secrets.sh'' @ [CHR 0x22] @ NL
                 @ ''alias secret-add='' @ [CHR 0x27] @ ''$SECRETS_MANAGER_PATH add'' @ [CHR 0x27] @ NL
                 @ ''alias secret-ls='' @ [CHR 0x27] @ ''$SECRETS_MANAGER_PATH ls'' @ [CHR 0x27] @ NL
                 @ ''alias secret-apply='' @ [CHR 0x27] @ ''$SECRETS_MANAGER_PATH apply''
                 @ [CHR 0x27] @ NL) 420)"
proof -
  have 1: "select_rc_file env_linux = Some ''/home/u/.bashrc''"
    by (simp add: select_rc_file_def environ_get_SHELL_def env_linux_def sublist_code
        posix_join_def)
  have 2: "rc_text (fs w_empty) ''/home/u/.bashrc'' = Some []"
    by (simp add: rc_text_def w_empty_def)
  have 3: "\<not> sublist marker []"
    by (simp add: marker_def)
  have 4: "\<not> io_fault env_linux (OpenRead ''/home/u/.bashrc'')"
    "\<not> io_fault env_linux (OpenAppend ''/home/u/.bashrc'')"
    by (simp_all add: env_linux_def)
  have 5: "fs w_empty ''/home/u/.bashrc'' = None" "new_file_mode env_linux = 420"
    by (simp_all add: w_empty_def env_linux_def)
  have 6: "can_print env_linux (YELLOW @ (''Configuring '' @ ''/home/u/.bashrc'' @ ''...'') @ RESET)"
    by (rule env_linux_prints)
  from C6_config_block [OF 1 2 3 4, of "''/home/u/.secret-manager''"] 5 6
  show ?thesis by (simp add: block_lines_def)
qed

text \<open>
  \<^bold>\<open>C7.\<close> After a successful copy the permission bits at the destination path are
  exactly \<^verbatim>\<open>0o755\<close>: read, write and execute for the owner, read and execute for group
  and others. This holds for one asset when its loop step returns, and for each of the
  two assets whose source exists when \<^verbatim>\<open>setup_files\<close> returns (a later step does not
  touch an earlier destination). Unless the destination path was a directory
  beforehand, it is then a regular file with these bits.
\<close>

theorem C7_deployed_mode:
  "(\<not> raises (copy_asset env a t f w) \<and> fs w (posix_join a f) \<noteq> None \<longrightarrow>
      (\<exists>n. fs (world_of (copy_asset env a t f w)) (posix_join t f) = Some n
           \<and> mode n = mode_755))
   \<and> (\<not> raises (setup_files env w) \<and> g \<in> set files_to_copy
        \<and> fs w (posix_join (assets_dir env) g) \<noteq> None \<longrightarrow>
      (\<exists>n. fs (world_of (setup_files env w)) (posix_join (target_dir env) g) = Some n
           \<and> mode n = mode_755
           \<and> mode n div 64 mod 8 = 7 \<and> mode n div 8 mod 8 = 5 \<and> mode n mod 8 = 5)
      \<and> ((\<forall>dm. fs w (posix_join (target_dir env) g) \<noteq> Some (Dir dm)) \<longrightarrow>
           (\<exists>c. fs (world_of (setup_files env w)) (posix_join (target_dir env) g)
                  = Some (File c mode_755))))"
proof (intro conjI impI)
  assume a: "\<not> raises (copy_asset env a t f w) \<and> fs w (posix_join a f) \<noteq> None"
  then obtain w' where "copy_asset env a t f w = Returned () w'"
    by (cases "copy_asset env a t f w") auto
  with a copy_asset_mode [of env a t f w "()" w']
  show "\<exists>n. fs (world_of (copy_asset env a t f w)) (posix_join t f) = Some n
      \<and> mode n = mode_755"
    by simp
next
  assume a: "\<not> raises (setup_files env w) \<and> g \<in> set files_to_copy
      \<and> fs w (posix_join (assets_dir env) g) \<noteq> None"
  then obtain w' where r: "setup_files env w = Returned (target_dir env) w'"
    using setup_files_not_raises by blast
  from a setup_files_mode [OF r, of g] obtain n where
    "fs w' (posix_join (target_dir env) g) = Some n" "mode n = mode_755"
    by blast
  moreover have "mode_755 div 64 mod 8 = 7 \<and> mode_755 div 8 mod 8 = 5 \<and> mode_755 mod 8 = 5"
    by (simp add: mode_755_def)
  ultimately show "\<exists>n. fs (world_of (setup_files env w)) (posix_join (target_dir env) g) = Some n
      \<and> mode n = mode_755
      \<and> mode n div 64 mod 8 = 7 \<and> mode n div 8 mod 8 = 5 \<and> mode n mod 8 = 5"
    using r by simp
  assume "\<forall>dm. fs w (posix_join (target_dir env) g) \<noteq> Some (Dir dm)"
  with a setup_files_regular [OF r, of g] r
  show "\<exists>c. fs (world_of (setup_files env w)) (posix_join (target_dir env) g)
      = Some (File c mode_755)"
    by simp
qed

theorem C7_deployed_mode_witness:
  "(\<exists>n. fs (world_of (copy_asset env_linux ''/opt/sm/assets'' ''/srv'' ''get-secrets.js'' w_assets))
          ''/srv/get-secrets.js'' = Some n \<and> mode n = 493)
   \<and> (\<exists>c. fs (world_of (setup_files env_linux w_assets)) ''/home/u/.secret-manager/manage-secrets.sh''
        = Some (File c 493))
   \<and> (\<exists>c. fs (world_of (setup_files env_linux w_assets)) ''/home/u/.secret-manager/get-secrets.js''
        = Some (File c 493))"
proof -
  have 1: "''manage-secrets.sh'' \<in> set files_to_copy" "''get-secrets.js'' \<in> set files_to_copy"
    by (simp_all add: files_to_copy_def)
  have 2: "fs w_assets (posix_join (assets_dir env_linux) ''manage-secrets.sh'') \<noteq> None"
    "fs w_assets (posix_join (assets_dir env_linux) ''get-secrets.js'') \<noteq> None"
    by (simp_all add: w_assets_def assets_dir_def env_linux_def posix_join_def)
  have 3: "\<forall>dm. fs w_assets (posix_join (target_dir env_linux) ''manage-secrets.sh'') \<noteq> Some (Dir dm)"
    "\<forall>dm. fs w_assets (posix_join (target_dir env_linux) ''get-secrets.js'') \<noteq> Some (Dir dm)"
    by (simp_all add: w_assets_def target_dir_def env_linux_def posix_join_def)
  have 4: "posix_join (target_dir env_linux) ''manage-secrets.sh''
      = ''/home/u/.secret-manager/manage-secrets.sh''"
    "posix_join (target_dir env_linux) ''get-secrets.js''
      = ''/home/u/.secret-manager/get-secrets.js''"
    by (simp_all add: target_dir_def env_linux_def posix_join_def)
  have 5: "mode_755 = 493" by (simp add: mode_755_def)
  have 6: "posix_join ''/srv'' ''get-secrets.js'' = ''/srv/get-secrets.js''"
    "fs w_assets (posix_join ''/opt/sm/assets'' ''get-secrets.js'') \<noteq> None"
    by (simp_all add: posix_join_def w_assets_def)
  have 7: "\<not> raises (copy_asset env_linux ''/opt/sm/assets'' ''/srv'' ''get-secrets.js'' w_assets)"
    by (simp add: raises_copy_asset env_linux_prints)
      (simp add: shutil_copy2_def Let_def posix_join_def basename_def env_linux_def w_assets_def)
  from C7_deployed_mode
    [of env_linux "''/opt/sm/assets''" "''/srv''" "''get-secrets.js''" w_assets "''manage-secrets.sh''"]
    6 7 w_assets_deploys 1(1) 2(1) 3(1)
  have a: "(\<exists>n. fs (world_of (copy_asset env_linux ''/opt/sm/assets'' ''/srv'' ''get-secrets.js''
                     w_assets)) ''/srv/get-secrets.js'' = Some n \<and> mode n = 493)
      \<and> (\<exists>c. fs (world_of (setup_files env_linux w_assets))
              ''/home/u/.secret-manager/manage-secrets.sh'' = Some (File c 493))"
    unfolding 4 5 by simp
  from C7_deployed_mode
    [of env_linux "''/opt/sm/assets''" "''/srv''" "''get-secrets.js''" w_assets "''get-secrets.js''"]
    w_assets_deploys 1(2) 2(2) 3(2)
  have "\<exists>c. fs (world_of (setup_files env_linux w_assets))
              ''/home/u/.secret-manager/get-secrets.js'' = Some (File c 493)"
    unfolding 4 5 by simp
  with a show ?thesis by blast
qed

text \<open>
  \<^bold>\<open>C8.\<close> An asset whose source is missing is skipped: the loop prints the warning that
  names it and goes on with the remaining assets in a world that differs only by that
  line; the step raises only if standard output cannot encode the warning. Hence, for
  an asset of the fixed list whose source is missing, \<^verbatim>\<open>setup_files\<close> raises exactly
  when creating the install directory fails, the warning cannot be printed or the step
  of the other asset raises; when it returns, it returns the install directory, the
  warning is among the printed lines and the destination of the missing asset is as it
  was. The run then ends with the status it would have without that asset: with the
  warning printed, the status is \<open>0\<close> unless a command fails, the install directory
  cannot be created, the step of the other asset raises, or one of the lines of the
  other stages or the closing message cannot be printed. With every asset missing the
  deployment raises only when the install directory cannot be created or a warning
  cannot be printed.
\<close>

theorem C8_missing_asset:
  "(fs w (posix_join a f) = None \<longrightarrow>
      copy_assets env a t (f # rest) w =
        (if can_print env (RED @ (''Warning: Asset '' @ f @ '' not found in '' @ a) @ RESET)
         then copy_assets env a t rest
                (printed (''Warning: Asset '' @ f @ '' not found in '' @ a) RED w)
         else Raised
                (UnicodeEncodeError
                   (RED @ (''Warning: Asset '' @ f @ '' not found in '' @ a) @ RESET)) w))
   \<and> (f \<in> set files_to_copy \<and> fs w (posix_join (assets_dir env) f) = None \<longrightarrow>
        (raises (setup_files env w) \<longleftrightarrow>
           raises (ensure_target_dir env w)
           \<or> \<not> can_print env
                (RED @ (''Warning: Asset '' @ f @ '' not found in '' @ assets_dir env) @ RESET)
           \<or> (\<exists>g \<in> set files_to_copy. g \<noteq> f
                \<and> raises (copy_asset env (assets_dir env) (target_dir env) g w)))
        \<and> (\<not> raises (setup_files env w) \<longrightarrow>
             (\<exists>w'. setup_files env w = Returned (target_dir env) w'
                \<and> RED @ (''Warning: Asset '' @ f @ '' not found in '' @ assets_dir env) @ RESET
                    \<in> set (stdout w')
                \<and> fs w' (posix_join (target_dir env) f) = fs w (posix_join (target_dir env) f)))
        \<and> (can_print env
              (RED @ (''Warning: Asset '' @ f @ '' not found in '' @ assets_dir env) @ RESET) \<longrightarrow>
             fst (main env w) =
               (if required_command_fails env \<or> optional_command_not_spawned env
                   \<or> system_lines_fail env \<or> raises (ensure_target_dir env w)
                   \<or> (\<exists>g \<in> set files_to_copy. g \<noteq> f
                        \<and> raises (copy_asset env (assets_dir env) (target_dir env) g w))
                   \<or> shell_lines_fail env w
                   \<or> \<not> can_print env (GREEN @ complete_msg @ RESET)
                then 1 else 0)))
   \<and> ((\<forall>g \<in> set files_to_copy. fs w (posix_join (assets_dir env) g) = None) \<longrightarrow>
        (raises (setup_files env w) \<longleftrightarrow>
           raises (ensure_target_dir env w)
           \<or> (\<exists>g \<in> set files_to_copy.
                \<not> can_print env
                    (RED @ (''Warning: Asset '' @ g @ '' not found in '' @ assets_dir env)
                       @ RESET))))
   \<and> (raises (ensure_target_dir env w) \<longleftrightarrow>
        fs w (target_dir env) = None
        \<and> (io_fault env (Makedirs (target_dir env))
           \<or> \<not> can_print env (GREEN @ (''Created directory: '' @ target_dir env) @ RESET)))"
proof (intro conjI impI)
  assume "fs w (posix_join a f) = None"
  then show "copy_assets env a t (f # rest) w =
      (if can_print env (RED @ (''Warning: Asset '' @ f @ '' not found in '' @ a) @ RESET)
       then copy_assets env a t rest
              (printed (''Warning: Asset '' @ f @ '' not found in '' @ a) RED w)
       else Raised
              (UnicodeEncodeError
                 (RED @ (''Warning: Asset '' @ f @ '' not found in '' @ a) @ RESET)) w)"
    by (rule copy_assets_absent)
next
  assume a: "f \<in> set files_to_copy \<and> fs w (posix_join (assets_dir env) f) = None"
  then show r: "raises (setup_files env w) \<longleftrightarrow>
      raises (ensure_target_dir env w)
      \<or> \<not> can_print env
           (RED @ (''Warning: Asset '' @ f @ '' not found in '' @ assets_dir env) @ RESET)
      \<or> (\<exists>g \<in> set files_to_copy. g \<noteq> f
           \<and> raises (copy_asset env (assets_dir env) (target_dir env) g w))"
    using raises_setup_files_absent [of f w env] by blast
  {
    assume "can_print env
        (RED @ (''Warning: Asset '' @ f @ '' not found in '' @ assets_dir env) @ RESET)"
    with r show "fst (main env w) =
        (if required_command_fails env \<or> optional_command_not_spawned env
            \<or> system_lines_fail env \<or> raises (ensure_target_dir env w)
            \<or> (\<exists>g \<in> set files_to_copy. g \<noteq> f
                 \<and> raises (copy_asset env (assets_dir env) (target_dir env) g w))
            \<or> shell_lines_fail env w
            \<or> \<not> can_print env (GREEN @ complete_msg @ RESET)
         then 1 else 0)"
      unfolding main_exit_fails by simp
  }
  assume "\<not> raises (setup_files env w)"
  then obtain w' where r: "setup_files env w = Returned (target_dir env) w'"
    using setup_files_not_raises by blast
  from a setup_files_absent [OF r, of f] r
  show "\<exists>w'. setup_files env w = Returned (target_dir env) w'
      \<and> RED @ (''Warning: Asset '' @ f @ '' not found in '' @ assets_dir env) @ RESET
          \<in> set (stdout w')
      \<and> fs w' (posix_join (target_dir env) f) = fs w (posix_join (target_dir env) f)"
    by simp
next
  assume "\<forall>g \<in> set files_to_copy. fs w (posix_join (assets_dir env) g) = None"
  then show "raises (setup_files env w) \<longleftrightarrow>
      raises (ensure_target_dir env w)
      \<or> (\<exists>g \<in> set files_to_copy.
           \<not> can_print env
               (RED @ (''Warning: Asset '' @ g @ '' not found in '' @ assets_dir env) @ RESET))"
    by (rule setup_files_all_absent)
next
  show "raises (ensure_target_dir env w) \<longleftrightarrow>
      fs w (target_dir env) = None
      \<and> (io_fault env (Makedirs (target_dir env))
         \<or> \<not> can_print env (GREEN @ (''Created directory: '' @ target_dir env) @ RESET))"
    by (rule ensure_target_dir_raises)
qed

theorem C8_missing_asset_witness:
  "copy_assets env_linux ''/opt/sm/assets'' ''/home/u/.secret-manager''
       [''manage-secrets.sh'', ''get-secrets.js''] w_one_asset =
     copy_assets env_linux ''/opt/sm/assets'' ''/home/u/.secret-manager'' [''get-secrets.js'']
       (printed ''Warning: Asset manage-secrets.sh not found in /opt/sm/assets'' RED w_one_asset)
   \<and> (\<exists>w'. setup_files env_linux w_one_asset = Returned ''/home/u/.secret-manager'' w'
      \<and> RED @ ''Warning: Asset manage-secrets.sh not found in /opt/sm/assets'' @ RESET
          \<in> set (stdout w')
      \<and> fs w' ''/home/u/.secret-manager/manage-secrets.sh'' = None)
   \<and> fst (main env_linux w_one_asset) = 0
   \<and> fst (main env_linux w_empty) = 0"
proof -
  let ?f = "''manage-secrets.sh''"
  have 1: "?f \<in> set files_to_copy" "''get-secrets.js'' \<in> set files_to_copy"
    by (simp_all add: files_to_copy_def)
  have 2: "fs w_one_asset (posix_join (assets_dir env_linux) ?f) = None"
    "fs w_empty (posix_join (assets_dir env_linux) ''get-secrets.js'') = None"
    by (simp_all add: w_one_asset_def w_empty_def assets_dir_def env_linux_def posix_join_def)
  have 3: "\<not> raises (ensure_target_dir env_linux w)" for w
    by (simp add: ensure_target_dir_raises env_linux_prints) (simp add: env_linux_def)
  have 4: "target_dir env_linux = ''/home/u/.secret-manager''"
    "assets_dir env_linux = ''/opt/sm/assets''"
    "posix_join ''/home/u/.secret-manager'' ?f = ''/home/u/.secret-manager/manage-secrets.sh''"
    by (simp_all add: target_dir_def assets_dir_def env_linux_def posix_join_def)
  have 5: "fs w_one_asset ''/home/u/.secret-manager/manage-secrets.sh'' = None"
    by (simp add: w_one_asset_def)
  have 6: "fs w_one_asset (posix_join ''/opt/sm/assets'' ?f) = None"
    by (simp add: w_one_asset_def posix_join_def)
  have 7: "\<not> raises (copy_asset env_linux (assets_dir env_linux) (target_dir env_linux)
      ''get-secrets.js'' w_one_asset)"
    by (simp add: raises_copy_asset env_linux_prints)
      (simp add: shutil_copy2_def Let_def target_dir_def assets_dir_def posix_join_def
        basename_def env_linux_def w_one_asset_def)
  have 8: "\<not> raises (copy_asset env_linux (assets_dir env_linux) (target_dir env_linux)
      ?f w_empty)"
    by (simp add: raises_copy_asset env_linux_prints)
      (simp add: assets_dir_def posix_join_def env_linux_def w_empty_def)
  have 9: "(\<exists>g \<in> set files_to_copy. g \<noteq> ?f \<and> P g) \<longleftrightarrow> P ''get-secrets.js''"
    "(\<exists>g \<in> set files_to_copy. g \<noteq> ''get-secrets.js'' \<and> P g) \<longleftrightarrow> P ?f" for P
    by (auto simp: files_to_copy_def)
  note cp = env_linux_prints
  from C8_missing_asset [of w_one_asset "''/opt/sm/assets''" ?f env_linux
      "''/home/u/.secret-manager''" "[''get-secrets.js'']"] 6 cp
  have a: "copy_assets env_linux ''/opt/sm/assets'' ''/home/u/.secret-manager''
        [''manage-secrets.sh'', ''get-secrets.js''] w_one_asset =
      copy_assets env_linux ''/opt/sm/assets'' ''/home/u/.secret-manager'' [''get-secrets.js'']
        (printed ''Warning: Asset manage-secrets.sh not found in /opt/sm/assets'' RED
           w_one_asset)"
    by simp
  from C8_missing_asset [of w_one_asset "''/x''" ?f env_linux "''/y''" "[]"]
    1 2 3 5 7 cp env_linux_ok env_linux_lines
  have b: "(\<exists>w'. setup_files env_linux w_one_asset = Returned ''/home/u/.secret-manager'' w'
      \<and> RED @ ''Warning: Asset manage-secrets.sh not found in /opt/sm/assets'' @ RESET
          \<in> set (stdout w')
      \<and> fs w' ''/home/u/.secret-manager/manage-secrets.sh'' = None)
    \<and> fst (main env_linux w_one_asset) = 0"
    unfolding 4 9 by simp
  from C8_missing_asset [of w_empty "''/x''" "''get-secrets.js''" env_linux "''/y''" "[]"]
    1 2 3 8 cp env_linux_ok env_linux_lines
  have "fst (main env_linux w_empty) = 0"
    unfolding 9 by simp
  with a b show ?thesis by blast
qed

text \<open>
  \<^bold>\<open>C9.\<close> \<^verbatim>\<open>configure_shell\<close> only appends: when the selected resource file exists
  and its text does not contain the marker, the text afterwards is the old text followed
  by the configuration block (or by nothing, when opening the file fails or the line
  printed before the file is opened cannot be printed), with the permission bits
  unchanged; so the old text is a prefix of the new one. No other path of the file
  system is changed.
\<close>

theorem C9_append_only:
  assumes "select_rc_file env = Some rc" and "fs w rc = Some (File c m)"
    and "\<not> sublist marker c"
  shows "fs (world_of (configure_shell env p w)) rc =
      Some (File (c @ (if io_fault env (OpenRead rc) \<or> io_fault env (OpenAppend rc)
                          \<or> \<not> can_print env (YELLOW @ (''Configuring '' @ rc @ ''...'') @ RESET)
                       then [] else config_block p)) m)
    \<and> (\<exists>n. fs (world_of (configure_shell env p w)) rc = Some n \<and> prefix c (content n))
    \<and> (\<forall>q. q \<noteq> rc \<longrightarrow> fs (world_of (configure_shell env p w)) q = fs w q)"
  using assms(2,3) configure_shell_frame [OF assms(1), of _ p w]
  by (simp add: configure_shell_fs [OF assms(1)])

theorem C9_append_only_witness:
  "fs (world_of (configure_shell env_linux ''/home/u/.secret-manager''
         (w_empty\<lparr>fs := [''/home/u/.bashrc'' \<mapsto> File ''PS1=x'' 420]\<rparr>))) ''/home/u/.bashrc''
     = Some (File (''PS1=x'' @ config_block ''/home/u/.secret-manager'') 420)
   \<and> fs (world_of (configure_shell env_linux ''/home/u/.secret-manager''
         (w_empty\<lparr>fs := [''/home/u/.bashrc'' \<mapsto> File ''PS1=x'' 420]\<rparr>))) ''/home/u/.profile''
     = None"
proof -
  let ?w = "w_empty\<lparr>fs := [''/home/u/.bashrc'' \<mapsto> File ''PS1=x'' 420]\<rparr>"
  have 1: "select_rc_file env_linux = Some ''/home/u/.bashrc''"
    by (simp add: select_rc_file_def environ_get_SHELL_def env_linux_def sublist_code
        posix_join_def)
  have 2: "fs ?w ''/home/u/.bashrc'' = Some (File ''PS1=x'' 420)"
    by simp
  have 3: "\<not> sublist marker ''PS1=x''"
    by (simp add: marker_def sublist_code)
  have 4: "\<not> io_fault env_linux (OpenRead ''/home/u/.bashrc'')"
    "\<not> io_fault env_linux (OpenAppend ''/home/u/.bashrc'')"
    by (simp_all add: env_linux_def)
  have 5: "fs ?w ''/home/u/.profile'' = None"
    by simp
  have 6: "can_print env_linux (YELLOW @ (''Configuring '' @ ''/home/u/.bashrc'' @ ''...'') @ RESET)"
    by (rule env_linux_prints)
  from C9_append_only [OF 1 2 3, of "''/home/u/.secret-manager''"] 4 5 6
  show ?thesis by simp
qed

text \<open>
  \<^bold>\<open>C10.\<close> When \<^verbatim>\<open>SHELL\<close> is not set at all, \<^verbatim>\<open>configure_shell\<close> takes the empty
  string in its place, selects no resource file, prints its one message, changes no
  file and returns: no exception leaves it. An unset \<^verbatim>\<open>SHELL\<close> is never an error: the
  exit status is what the other stages and the closing message make it, \<open>0\<close> unless a
  command fails, the deployment raises, or a line that holds the name of an unknown
  system or the closing message cannot be printed. It is the status of a run with any
  unclassifiable value of \<^verbatim>\<open>SHELL\<close>, and it is \<open>0\<close> whenever the run with some value
  of \<^verbatim>\<open>SHELL\<close> ends with status \<open>0\<close>.
\<close>

theorem C10_unset_SHELL:
  assumes "environ_SHELL env = None"
  shows "environ_get_SHELL env = []
    \<and> select_rc_file env = None
    \<and> configure_shell env p w =
        Returned ()
          (printed ''Could not detect shell RC file. Please manually add configuration.'' RED w)
    \<and> fs (world_of (configure_shell env p w)) = fs w
    \<and> \<not> raises (configure_shell env p w)
    \<and> fst (main env w) =
        (if required_command_fails env \<or> optional_command_not_spawned env
            \<or> system_lines_fail env \<or> raises (setup_files env w)
            \<or> \<not> can_print env (GREEN @ complete_msg @ RESET) then 1 else 0)
    \<and> (\<forall>s. \<not> sublist ''zsh'' s \<and> \<not> sublist ''bash'' s \<longrightarrow>
          fst (main (env\<lparr>environ_SHELL := Some s\<rparr>) w) = fst (main env w))
    \<and> (\<forall>s. fst (main (env\<lparr>environ_SHELL := Some s\<rparr>) w) = 0 \<longrightarrow> fst (main env w) = 0)"
proof -
  from assms have sh: "environ_get_SHELL env = []"
    by (simp add: environ_get_SHELL_def)
  then have sel: "select_rc_file env = None"
    by (simp add: select_rc_file_def Let_def)
  have cs: "configure_shell env p w =
      Returned ()
        (printed ''Could not detect shell RC file. Please manually add configuration.'' RED w)"
    using sel by (rule configure_shell_unclassified)
  have ex: "fst (main env w) =
      (if required_command_fails env \<or> optional_command_not_spawned env
          \<or> system_lines_fail env \<or> raises (setup_files env w)
          \<or> \<not> can_print env (GREEN @ complete_msg @ RESET) then 1 else 0)"
    using shell_lines_fail_unclassified [OF sel, of w]
    by (simp add: main_exit_fails)
  have un: "fst (main (env\<lparr>environ_SHELL := Some s\<rparr>) w) = fst (main env w)"
    if "\<not> sublist ''zsh'' s \<and> \<not> sublist ''bash'' s" for s
  proof -
    from that have "select_rc_file (env\<lparr>environ_SHELL := Some s\<rparr>) = None"
      by (simp add: select_rc_file_def environ_get_SHELL_def Let_def)
    then show ?thesis by (rule main_exit_SHELL(2) [OF sel])
  qed
  have any: "fst (main env w) = 0" if "fst (main (env\<lparr>environ_SHELL := Some s\<rparr>) w) = 0" for s
    using that by (rule main_exit_SHELL(1) [OF sel])
  from sh sel cs ex un any show ?thesis
    by (simp add: fs_printed)
qed

theorem C10_unset_SHELL_witness:
  "configure_shell env_bare ''/home/u/.secret-manager'' w_empty =
     Returned ()
       (printed ''Could not detect shell RC file. Please manually add configuration.'' RED
          w_empty)
   \<and> fst (main env_bare w_empty) = 0
   \<and> fst (main (env_bare\<lparr>environ_SHELL := Some ''/bin/fish''\<rparr>) w_empty) = 0
   \<and> fst (main env_ascii_out w_empty) = 1"
proof -
  have 1: "environ_SHELL env_bare = None" "environ_SHELL env_ascii_out = None"
    by (simp_all add: env_bare_def env_ascii_out_def)
  have 2: "\<not> required_command_fails env_bare" "\<not> optional_command_not_spawned env_bare"
    "\<not> system_lines_fail env_bare" "\<not> raises (setup_files env_bare w_empty)"
    "can_print env_bare (GREEN @ complete_msg @ RESET)"
    by (rule env_bare_ok env_bare_lines env_bare_no_files env_bare_prints)+
  have 3: "\<not> sublist ''zsh'' ''/bin/fish'' \<and> \<not> sublist ''bash'' ''/bin/fish''"
    by (simp add: sublist_code)
  have 4: "\<not> can_print env_ascii_out (GREEN @ complete_msg @ RESET)"
    using complete_msg_not_ascii by (simp add: can_print_def env_ascii_out_def)
  from C10_unset_SHELL [OF 1(1), of "''/home/u/.secret-manager''" w_empty] 2 3
  have a: "configure_shell env_bare ''/home/u/.secret-manager'' w_empty =
      Returned ()
        (printed ''Could not detect shell RC file. Please manually add configuration.'' RED
           w_empty)
    \<and> fst (main env_bare w_empty) = 0
    \<and> fst (main (env_bare\<lparr>environ_SHELL := Some ''/bin/fish''\<rparr>) w_empty) = 0"
    by simp
  from C10_unset_SHELL [OF 1(2), of "''/home/u/.secret-manager''" w_empty] 4
  have "fst (main env_ascii_out w_empty) = 1"
    by simp
  with a show ?thesis by blast
qed

end
